theory Spec2Isabelle
  imports Complex_Main
begin

section \<open>Values thrown by the JavaScript code\<close>

text \<open>
  A JavaScript \<open>throw\<close> carries any value. The handlers of this repository look at three
  things only: whether the value is an \<open>Error\<close> instance (its \<open>name\<close> and \<open>message\<close>),
  whether it is an axios error (which may carry the HTTP response), or something else.
\<close>

record http_response =
  status_code :: int
  statusText :: string
  response_data :: string

datatype thrown =
    Error string string
  | AxiosError string "http_response option"
  | NonError string

fun instanceof_Error :: "thrown \<Rightarrow> bool" where
  "instanceof_Error (Error n m) = True"
| "instanceof_Error (AxiosError m r) = True"
| "instanceof_Error (NonError v) = False"

fun error_message :: "thrown \<Rightarrow> string" where
  "error_message (Error n m) = m"
| "error_message (AxiosError m r) = m"
| "error_message (NonError v) = []"

fun error_name :: "thrown \<Rightarrow> string" where
  "error_name (Error n m) = n"
| "error_name (AxiosError m r) = ''AxiosError''"
| "error_name (NonError v) = []"

section \<open>The ECMAScript \<open>Date\<close> arithmetic used by \<open>calculateNextExecutionTime\<close>\<close>

text \<open>
  A \<open>Date\<close> holds a time value: integral milliseconds since the epoch. The functions below
  follow the ECMAScript definitions (Day, TimeWithinDay, DayFromYear, YearFromTime,
  MonthFromTime, DateFromTime, MakeDay, MakeDate, TimeClip). The local time zone of the
  Lambda runtime is UTC, so LocalTime and UTC are the identity.
\<close>

definition msPerDay :: int where
  "msPerDay = 86400000"

definition Day :: "int \<Rightarrow> int" where
  "Day t = t div msPerDay"

definition TimeWithinDay :: "int \<Rightarrow> int" where
  "TimeWithinDay t = t mod msPerDay"

definition DayFromYear :: "int \<Rightarrow> int" where
  "DayFromYear y =
     365 * (y - 1970) + (y - 1969) div 4 - (y - 1901) div 100 + (y - 1601) div 400"

definition InLeapYear_of :: "int \<Rightarrow> bool" where
  "InLeapYear_of y =
     (if y mod 4 \<noteq> 0 then False
      else if y mod 100 \<noteq> 0 then True
      else if y mod 400 \<noteq> 0 then False
      else True)"

lemma div_succ:
  fixes a k :: int
  assumes k: "0 < k"
  shows "(a + 1) div k = a div k + (if (a + 1) mod k = 0 then 1 else 0)"
proof -
  define q where "q = a div k"
  define r where "r = a mod k"
  have a: "a = k * q + r" and r0: "0 \<le> r" and rk: "r < k"
    using k by (simp_all add: q_def r_def)
  show ?thesis
  proof (cases "r + 1 = k")
    case True
    then have e: "a + 1 = k * (q + 1) + 0" using a by (simp add: algebra_simps)
    have "(a + 1) div k = q + 1" using k by (intro int_div_pos_eq[OF e]) simp_all
    moreover have "(a + 1) mod k = 0" using k by (intro int_mod_pos_eq[OF e]) simp_all
    ultimately show ?thesis by (simp add: q_def)
  next
    case False
    then have lt: "r + 1 < k" using rk by simp
    have e: "a + 1 = k * q + (r + 1)" using a by simp
    have "(a + 1) div k = q" using r0 lt by (intro int_div_pos_eq[OF e]) simp_all
    moreover have "(a + 1) mod k = r + 1" using r0 lt by (intro int_mod_pos_eq[OF e]) simp_all
    ultimately show ?thesis using r0 by (simp add: q_def)
  qed
qed

lemma mod_shift: "(a - k * c) mod k = a mod (k::int)"
proof -
  have "(a + k * (- c)) mod k = a mod k" by (rule mod_mult_self2)
  then show ?thesis by simp
qed

lemma step_arith:
  fixes a a' b b' c c' i j k y :: int
  assumes "a' = a + i" "b' = b + j" "c' = c + k"
  shows "365 * (y + 1 - 1970) + a' - b' + c'
           = (365 * (y - 1970) + a - b + c) + (365 + i - j + k)"
  using assms by simp

lemma leap_arith:
  fixes p4 p100 p400 :: bool
  assumes "p100 \<Longrightarrow> p4" "p400 \<Longrightarrow> p100"
  shows "(365::int) + (if p4 then 1 else 0) - (if p100 then 1 else 0) + (if p400 then 1 else 0)
           = (if (if \<not> p4 then False else if \<not> p100 then True else if \<not> p400 then False else True)
              then 366 else 365)"
  using assms by (cases p4; cases p100; cases p400) simp_all

lemma dvd_mod_trans:
  fixes y m n :: int
  assumes "n dvd m" "y mod m = 0"
  shows "y mod n = 0"
proof -
  from assms(2) have "m dvd y" by (simp add: mod_eq_0_iff_dvd)
  with assms(1) have "n dvd y" by (rule dvd_trans)
  then show ?thesis by (simp add: mod_eq_0_iff_dvd)
qed

lemma div_next:
  fixes y k c :: int
  assumes k: "0 < k"
  shows "(y + 1 - (k * c + 1)) div k = (y - (k * c + 1)) div k + (if y mod k = 0 then 1 else 0)"
proof -
  have e: "y - (k * c + 1) + 1 = y - k * c" by simp
  have e': "y + 1 - (k * c + 1) = y - k * c" by simp
  show ?thesis
    using div_succ [OF k, of "y - (k * c + 1)"]
    unfolding e e' mod_shift .
qed

lemma DayFromYear_step:
  "DayFromYear (y + 1) = DayFromYear y + (if InLeapYear_of y then 366 else 365)"
proof -
  have n4: "(4::int) * 492 + 1 = 1969" and p4: "(0::int) < 4" by simp_all
  have n100: "(100::int) * 19 + 1 = 1901" and p100: "(0::int) < 100" by simp_all
  have n400: "(400::int) * 4 + 1 = 1601" and p400: "(0::int) < 400" by simp_all
  have A: "(y + 1 - 1969) div 4 = (y - 1969) div 4 + (if y mod 4 = 0 then 1 else 0)"
    by (rule div_next [OF p4, of y 492, unfolded n4])
  have B: "(y + 1 - 1901) div 100 = (y - 1901) div 100 + (if y mod 100 = 0 then 1 else 0)"
    by (rule div_next [OF p100, of y 19, unfolded n100])
  have C: "(y + 1 - 1601) div 400 = (y - 1601) div 400 + (if y mod 400 = 0 then 1 else 0)"
    by (rule div_next [OF p400, of y 4, unfolded n400])
  have c1: "y mod 100 = 0 \<Longrightarrow> y mod 4 = 0"
    by (rule dvd_mod_trans [of 4 100]) simp_all
  have c2: "y mod 400 = 0 \<Longrightarrow> y mod 100 = 0"
    by (rule dvd_mod_trans [of 100 400]) simp_all
  have "DayFromYear (y + 1) = DayFromYear y
          + (365 + (if y mod 4 = 0 then 1 else 0) - (if y mod 100 = 0 then 1 else 0)
               + (if y mod 400 = 0 then 1 else 0))"
    unfolding DayFromYear_def by (rule step_arith [OF A B C])
  also have "(365::int) + (if y mod 4 = 0 then 1 else 0) - (if y mod 100 = 0 then 1 else 0)
               + (if y mod 400 = 0 then 1 else 0) = (if InLeapYear_of y then 366 else 365)"
    unfolding InLeapYear_of_def by (rule leap_arith [OF c1 c2])
  finally show ?thesis .
qed

lemma DayFromYear_less: "DayFromYear y < DayFromYear (y + 1)"
  by (simp add: DayFromYear_step)

text \<open>
  YearFromTime is the largest year whose first day is not after the given day. The search
  starts at a year that is certainly not too large and walks up.
\<close>

function year_search :: "int \<Rightarrow> int \<Rightarrow> int" where
  "year_search d y = (if DayFromYear (y + 1) \<le> d then year_search d (y + 1) else y)"
  by pat_completeness auto
termination
proof (relation "measure (\<lambda>(d, y). nat (d + 1 - DayFromYear (y + 1)))")
  show "wf (measure (\<lambda>(d, y). nat (d + 1 - DayFromYear (y + 1))))"
    by simp
next
  fix d y :: int
  assume a: "DayFromYear (y + 1) \<le> d"
  have "DayFromYear (y + 1) < DayFromYear (y + 1 + 1)"
    by (rule DayFromYear_less)
  with a show "((d, y + 1), (d, y)) \<in> measure (\<lambda>(d, y). nat (d + 1 - DayFromYear (y + 1)))"
    by simp
qed

declare year_search.simps [simp del]

definition YearFromDay :: "int \<Rightarrow> int" where
  "YearFromDay d = year_search d (1970 + (if 0 \<le> d then d div 366 else d div 365))"

definition YearFromTime :: "int \<Rightarrow> int" where
  "YearFromTime t = YearFromDay (Day t)"

definition InLeapYear :: "int \<Rightarrow> bool" where
  "InLeapYear t = InLeapYear_of (YearFromTime t)"

definition DayWithinYear :: "int \<Rightarrow> int" where
  "DayWithinYear t = Day t - DayFromYear (YearFromTime t)"

text \<open>The day within the year on which month \<open>m\<close> (0 = January) starts.\<close>

definition month_start :: "bool \<Rightarrow> int \<Rightarrow> int" where
  "month_start leap m =
     (let l = (if leap then 1 else 0) in
      if m \<le> 0 then 0
      else if m = 1 then 31
      else if m = 2 then 59 + l
      else if m = 3 then 90 + l
      else if m = 4 then 120 + l
      else if m = 5 then 151 + l
      else if m = 6 then 181 + l
      else if m = 7 then 212 + l
      else if m = 8 then 243 + l
      else if m = 9 then 273 + l
      else if m = 10 then 304 + l
      else if m = 11 then 334 + l
      else 365 + l)"

definition month_of_day_in_year :: "bool \<Rightarrow> int \<Rightarrow> int" where
  "month_of_day_in_year leap d =
     (if d < month_start leap 1 then 0
      else if d < month_start leap 2 then 1
      else if d < month_start leap 3 then 2
      else if d < month_start leap 4 then 3
      else if d < month_start leap 5 then 4
      else if d < month_start leap 6 then 5
      else if d < month_start leap 7 then 6
      else if d < month_start leap 8 then 7
      else if d < month_start leap 9 then 8
      else if d < month_start leap 10 then 9
      else if d < month_start leap 11 then 10
      else 11)"

definition MonthFromTime :: "int \<Rightarrow> int" where
  "MonthFromTime t = month_of_day_in_year (InLeapYear t) (DayWithinYear t)"

definition DateFromTime :: "int \<Rightarrow> int" where
  "DateFromTime t =
     DayWithinYear t - month_start (InLeapYear t) (MonthFromTime t) + 1"

text \<open>
  MakeDay: the month may lie outside 0..11 and the date outside the month; both are
  normalised by carrying into the year and into the following days.
\<close>

definition MakeDay :: "int \<Rightarrow> int \<Rightarrow> int \<Rightarrow> int" where
  "MakeDay year month date =
     (let ym = year + month div 12;
          mn = month mod 12
      in DayFromYear ym + month_start (InLeapYear_of ym) mn + date - 1)"

definition MakeDate :: "int \<Rightarrow> int \<Rightarrow> int" where
  "MakeDate day time = day * msPerDay + time"

text \<open>TimeClip: a time value beyond 8.64e15 ms is NaN (\<open>None\<close>).\<close>

definition TimeClip :: "int \<Rightarrow> int option" where
  "TimeClip t = (if \<bar>t\<bar> > 8640000000000000 then None else Some t)"

text \<open>
  The \<open>Date\<close> methods. A \<open>Date\<close> is its time value, \<open>None\<close> for an invalid date; every
  getter of an invalid date is NaN and every setter leaves it invalid.
\<close>

type_synonym js_date = "int option"

definition getDate :: "js_date \<Rightarrow> int option" where
  "getDate d = map_option DateFromTime d"

definition getMonth :: "js_date \<Rightarrow> int option" where
  "getMonth d = map_option MonthFromTime d"

definition setDate :: "js_date \<Rightarrow> int option \<Rightarrow> js_date" where
  "setDate d dt =
     (case (d, dt) of
        (Some t, Some n) \<Rightarrow>
          TimeClip (MakeDate (MakeDay (YearFromTime t) (MonthFromTime t) n) (TimeWithinDay t))
      | _ \<Rightarrow> None)"

definition setMonth :: "js_date \<Rightarrow> int option \<Rightarrow> js_date" where
  "setMonth d m =
     (case (d, m) of
        (Some t, Some n) \<Rightarrow>
          TimeClip (MakeDate (MakeDay (YearFromTime t) n (DateFromTime t)) (TimeWithinDay t))
      | _ \<Rightarrow> None)"

definition getTime :: "js_date \<Rightarrow> int option" where
  "getTime d = d"

text \<open>\<open>Math.floor(x / 1000)\<close> on a number that may be NaN.\<close>

definition floor_seconds :: "int option \<Rightarrow> int option" where
  "floor_seconds x = map_option (\<lambda>t. t div 1000) x"

section \<open>\<open>calculateNextExecutionTime\<close> (executor.ts)\<close>

text \<open>
  The frequency is a string-valued enum; a plan row read from the table may carry any
  string, which is what the \<open>default\<close> branch of the switch is for.
\<close>

type_synonym SavingsPlanFrequency = string

definition DAILY :: SavingsPlanFrequency where "DAILY = ''DAILY''"
definition WEEKLY :: SavingsPlanFrequency where "WEEKLY = ''WEEKLY''"
definition BIWEEKLY :: SavingsPlanFrequency where "BIWEEKLY = ''BIWEEKLY''"
definition MONTHLY :: SavingsPlanFrequency where "MONTHLY = ''MONTHLY''"

definition calculateNextExecutionTime ::
  "SavingsPlanFrequency \<Rightarrow> js_date \<Rightarrow> thrown + int option" where
  "calculateNextExecutionTime frequency from =
     (let nextDate = from in
      if frequency = DAILY then
        Inr (floor_seconds (getTime (setDate nextDate (map_option (\<lambda>d. d + 1) (getDate nextDate)))))
      else if frequency = WEEKLY then
        Inr (floor_seconds (getTime (setDate nextDate (map_option (\<lambda>d. d + 7) (getDate nextDate)))))
      else if frequency = BIWEEKLY then
        Inr (floor_seconds (getTime (setDate nextDate (map_option (\<lambda>d. d + 14) (getDate nextDate)))))
      else if frequency = MONTHLY then
        Inr (floor_seconds (getTime (setMonth nextDate (map_option (\<lambda>m. m + 1) (getMonth nextDate)))))
      else Inl (Error ''Error'' (''Unsupported frequency: '' @ frequency)))"


section \<open>Data contracts (scheduler/types.ts)\<close>

datatype SavingsPlanStatus =
  ACTIVE | PAUSED | PENDING_EXECUTION | EXECUTING | COMPLETED | CANCELLED | FAILED

text \<open>
  Timestamps are ISO-8601 strings made by \<open>new Date().toISOString()\<close>; the model keeps
  the time value (milliseconds since the epoch) they render. Numbers that hold money are
  reals.
\<close>

record SavingsPlan =
  userId :: string
  planId :: string
  amount :: real
  frequency :: SavingsPlanFrequency
  sourceOfFunds :: string
  status :: SavingsPlanStatus
  nextExecutionTime :: int
  startDate :: int
  endDate :: "int option"
  createdAt :: int
  updatedAt :: int

datatype TransactionStatus = TX_PENDING | TX_COMPLETED | TX_FAILED

record TransactionMetadata =
  md_executionId :: string
  md_exchangeTransactionId :: "string option"
  md_attemptCount :: int
  md_fees :: "real option"
  md_maxRetries :: "string option"

record SavingsPlanTransaction =
  tx_userId :: string
  transactionId :: string
  tx_planId :: string
  tx_amount :: real
  bitcoinAmount :: real
  exchangeRate :: real
  tx_status :: TransactionStatus
  tx_timestamp :: int
  tx_errorMessage :: "string option"
  metadata :: TransactionMetadata

record SchedulerExecutionEvent =
  ev_userId :: string
  ev_planId :: string
  executionTime :: int
  executionId :: string
  attemptCount :: int

record ErrorDetails =
  ed_timestamp :: int
  ed_requestId :: string
  ed_statusCode :: "int option"
  ed_statusText :: "string option"
  ed_responseData :: "string option"

record BitcoinPurchaseResult =
  success :: bool
  exchangeTransactionId :: "string option"
  pr_bitcoinAmount :: "real option"
  pr_exchangeRate :: "real option"
  fees :: "real option"
  errorMessage :: "string option"
  errorDetails :: "ErrorDetails option"

datatype EventType =
  PLAN_CREATED | PLAN_UPDATED | PLAN_DELETED
  | EXECUTION_SCHEDULED | EXECUTION_STARTED | EXECUTION_COMPLETED | EXECUTION_FAILED

section \<open>The services the handlers talk to\<close>

text \<open>
  A JSON text is either the serialisation of a value (\<open>JSON.stringify\<close> followed by
  \<open>JSON.parse\<close> gives the value back) or a string \<open>JSON.parse\<close> rejects.
\<close>

datatype 'a json_text = JsonText 'a | NotJson string

fun JSON_parse :: "'a json_text \<Rightarrow> thrown + 'a" where
  "JSON_parse (JsonText v) = Inr v"
| "JSON_parse (NotJson s) = Inl (Error ''SyntaxError'' (''Unexpected token in JSON: '' @ s))"

record sqs_message =
  MessageBody :: "SchedulerExecutionEvent json_text"
  MessageDeduplicationId :: string
  MessageGroupId :: string

text \<open>The \<open>Detail\<close> object of an event; a key that an event does not carry is \<open>None\<close>.\<close>

record EventDetail =
  d_userId :: string
  d_planId :: string
  d_executionId :: string
  d_amount :: real
  d_frequency :: "SavingsPlanFrequency option"
  d_scheduledTime :: "int option"
  d_transactionId :: "string option"
  d_bitcoinAmount :: "real option"
  d_nextExecutionTime :: "int option option"
  d_errorMessage :: "string option"
  d_attemptCount :: "int option"
  d_maxRetriesExceeded :: "bool option"
  d_timestamp :: "int option"
  d_stage :: "string option option"

record bus_event =
  Source :: string
  DetailType :: EventType
  Detail :: EventDetail
  EventBusName :: string

text \<open>
  Every call to a managed service may fail for reasons outside the program (throttling,
  network, permissions). \<open>faults\<close> says, for each call, whether the service rejects it and
  with which error; a call it does not reject follows the service's documented behaviour.
\<close>

datatype aws_call =
    DynamoQuery
  | DynamoGet string string
  | DynamoUpdateStatus string string SavingsPlanStatus
  | DynamoUpdateSchedule string string
  | DynamoPut string string
  | SqsSendMessage string
  | PutEvents EventType string
  | GetSecretValue string

record environment =
  env_MAX_BATCH_SIZE :: "string option"
  env_MAX_RETRIES :: "string option"
  env_STAGE :: "string option"
  env_EVENT_BUS_NAME :: string
  env_EXCHANGE_API_SECRET_ID :: string

record ExchangeConfig =
  apiKey :: string
  apiSecret :: string
  baseUrl :: string
  timeout :: "int option"
  useSandbox :: "bool option"

record BitcoinExchangeClient =
  config :: ExchangeConfig
  axios_baseURL :: string
  axios_timeout :: int

record world =
  plansTable :: "SavingsPlan list"
  transactionsTable :: "SavingsPlanTransaction list"
  queue :: "sqs_message list"
  eventBus :: "bus_event list"
  secrets :: "string \<Rightarrow> ExchangeConfig json_text option option"
  clock :: int
  uuidGen :: "nat \<Rightarrow> string"
  uuidCount :: nat
  random :: "nat \<Rightarrow> real"
  randomCount :: nat
  faults :: "aws_call \<Rightarrow> thrown option"
  env :: environment
  exchangeClient :: "BitcoinExchangeClient option"
  purchaseCalls :: nat

text \<open>
  \<open>uuidv4()\<close>, \<open>Math.random()\<close> and \<open>Date.now()\<close> read the world: the generators
  are arbitrary functions of the number of draws made so far, and the clock stands still
  during one invocation. \<open>purchaseCalls\<close> counts the calls of the purchase operation; the
  program never reads it.
\<close>

definition uuidv4 :: "world \<Rightarrow> string \<times> world" where
  "uuidv4 w = (uuidGen w (uuidCount w), w\<lparr>uuidCount := Suc (uuidCount w)\<rparr>)"

definition Math_random :: "world \<Rightarrow> real \<times> world" where
  "Math_random w = (random w (randomCount w), w\<lparr>randomCount := Suc (randomCount w)\<rparr>)"

subsection \<open>\<open>parseInt(s, 10)\<close>\<close>

definition decimal_digits :: string where
  "decimal_digits = ''0123456789''"

fun position_of :: "char \<Rightarrow> string \<Rightarrow> nat \<Rightarrow> nat option" where
  "position_of c [] i = None"
| "position_of c (d # ds) i = (if c = d then Some i else position_of c ds (i + 1))"

definition digit_val :: "char \<Rightarrow> nat option" where
  "digit_val c = position_of c decimal_digits 0"

definition is_space :: "char \<Rightarrow> bool" where
  "is_space c \<longleftrightarrow> c = CHR '' '' \<or> c = CHR 0x09 \<or> c = CHR 0x0A \<or> c = CHR 0x0B
     \<or> c = CHR 0x0C \<or> c = CHR 0x0D"

fun parse_digits :: "nat option \<Rightarrow> string \<Rightarrow> nat option" where
  "parse_digits acc [] = acc"
| "parse_digits acc (c # cs) =
     (case digit_val c of
        None \<Rightarrow> acc
      | Some v \<Rightarrow> parse_digits (Some (10 * (case acc of None \<Rightarrow> 0 | Some a \<Rightarrow> a) + v)) cs)"

text \<open>Leading white space is skipped, a sign is read, then the longest run of digits;
  no digit at all is NaN (\<open>None\<close>).\<close>

definition parseInt :: "string \<Rightarrow> int option" where
  "parseInt s =
     (case dropWhile is_space s of
        [] \<Rightarrow> None
      | c # cs \<Rightarrow>
          if c = CHR ''-'' then map_option (\<lambda>n. - int n) (parse_digits None cs)
          else if c = CHR ''+'' then map_option int (parse_digits None cs)
          else map_option int (parse_digits None (c # cs)))"

subsection \<open>Decimal rendering of a number inside a template string\<close>

definition digit_char :: "nat \<Rightarrow> char" where
  "digit_char n = decimal_digits ! (n mod 10)"

fun show_nat :: "nat \<Rightarrow> string" where
  "show_nat n =
     (if n < 10 then [digit_char n] else show_nat (n div 10) @ [digit_char (n mod 10)])"

declare show_nat.simps [simp del]

definition show_int :: "int \<Rightarrow> string" where
  "show_int i = (if i < 0 then CHR ''-'' # show_nat (nat (- i)) else show_nat (nat i))"


subsection \<open>DynamoDB, SQS and EventBridge\<close>

definition has_key :: "string \<Rightarrow> string \<Rightarrow> SavingsPlan \<Rightarrow> bool" where
  "has_key u k p \<longleftrightarrow> userId p = u \<and> planId p = k"

definition ConditionalCheckFailedException :: thrown where
  "ConditionalCheckFailedException =
     Error ''ConditionalCheckFailedException'' ''The conditional request failed''"

definition ValidationException :: thrown where
  "ValidationException = Error ''ValidationException'' ''Limit must be a number of at least 1''"

text \<open>\<open>get\<close> with the primary key: the item, or no item.\<close>

definition dynamo_get :: "world \<Rightarrow> string \<Rightarrow> string \<Rightarrow> thrown + SavingsPlan option" where
  "dynamo_get w u k =
     (case faults w (DynamoGet u k) of
        Some e \<Rightarrow> Inl e
      | None \<Rightarrow> Inr (find (has_key u k) (plansTable w)))"

text \<open>
  \<open>update\<close> with \<open>SET #status = :status, #updatedAt = :updatedAt\<close> under the condition
  \<open>attribute_exists(planId)\<close>: the condition fails exactly when the table has no item with
  the key, and the item's current status is not looked at.
\<close>

definition dynamo_update_status ::
  "world \<Rightarrow> string \<Rightarrow> string \<Rightarrow> SavingsPlanStatus \<Rightarrow> int \<Rightarrow> (thrown + unit) \<times> world" where
  "dynamo_update_status w u k s t =
     (case faults w (DynamoUpdateStatus u k s) of
        Some e \<Rightarrow> (Inl e, w)
      | None \<Rightarrow>
          if find (has_key u k) (plansTable w) = None
          then (Inl ConditionalCheckFailedException, w)
          else (Inr (),
                w\<lparr>plansTable :=
                    map (\<lambda>p. if has_key u k p then p\<lparr>status := s, updatedAt := t\<rparr> else p)
                      (plansTable w)\<rparr>))"

text \<open>
  \<open>update\<close> with \<open>SET #status, #nextExecution, #updatedAt\<close> under the same condition. A
  number attribute cannot hold NaN: the service rejects it.
\<close>

definition dynamo_update_schedule ::
  "world \<Rightarrow> string \<Rightarrow> string \<Rightarrow> SavingsPlanStatus \<Rightarrow> int option \<Rightarrow> int
     \<Rightarrow> (thrown + unit) \<times> world" where
  "dynamo_update_schedule w u k s n t =
     (case faults w (DynamoUpdateSchedule u k) of
        Some e \<Rightarrow> (Inl e, w)
      | None \<Rightarrow>
          (case n of
             None \<Rightarrow> (Inl (Error ''ValidationException'' ''NaN is not a number attribute''), w)
           | Some nx \<Rightarrow>
               if find (has_key u k) (plansTable w) = None
               then (Inl ConditionalCheckFailedException, w)
               else (Inr (),
                     w\<lparr>plansTable :=
                         map (\<lambda>p. if has_key u k p
                                  then p\<lparr>status := s, nextExecutionTime := nx, updatedAt := t\<rparr>
                                  else p)
                           (plansTable w)\<rparr>)))"

text \<open>
  \<open>put\<close> under \<open>attribute_not_exists(transactionId)\<close>: refused when the table already has
  an item with the same primary key (userId, transactionId).
\<close>

definition dynamo_put_transaction ::
  "world \<Rightarrow> SavingsPlanTransaction \<Rightarrow> (thrown + unit) \<times> world" where
  "dynamo_put_transaction w tx =
     (case faults w (DynamoPut (tx_userId tx) (transactionId tx)) of
        Some e \<Rightarrow> (Inl e, w)
      | None \<Rightarrow>
          if find (\<lambda>r. tx_userId r = tx_userId tx \<and> transactionId r = transactionId tx)
               (transactionsTable w) \<noteq> None
          then (Inl ConditionalCheckFailedException, w)
          else (Inr (), w\<lparr>transactionsTable := transactionsTable w @ [tx]\<rparr>))"

text \<open>
  \<open>query\<close> on the index StatusNextExecutionIndex (partition key \<open>status\<close>, sort key
  \<open>nextExecutionTime\<close>) with the key condition \<open>#status = :status AND #nextExecution <= :now\<close>:
  the matching items in ascending order of the sort key, at most \<open>Limit\<close> of them.
\<close>

definition dynamo_query ::
  "world \<Rightarrow> SavingsPlanStatus \<Rightarrow> int \<Rightarrow> int option \<Rightarrow> thrown + SavingsPlan list" where
  "dynamo_query w st now limit =
     (case faults w DynamoQuery of
        Some e \<Rightarrow> Inl e
      | None \<Rightarrow>
          (case limit of
             None \<Rightarrow> Inl ValidationException
           | Some n \<Rightarrow>
               if n < 1 then Inl ValidationException
               else Inr (take (nat n)
                      (filter (\<lambda>p. status p = st \<and> nextExecutionTime p \<le> now)
                         (sort_key nextExecutionTime (plansTable w))))))"

definition sqs_sendMessage :: "world \<Rightarrow> sqs_message \<Rightarrow> (thrown + unit) \<times> world" where
  "sqs_sendMessage w m =
     (case faults w (SqsSendMessage (MessageDeduplicationId m)) of
        Some e \<Rightarrow> (Inl e, w)
      | None \<Rightarrow> (Inr (), w\<lparr>queue := queue w @ [m]\<rparr>))"

definition eventBridge_putEvents :: "world \<Rightarrow> bus_event \<Rightarrow> (thrown + unit) \<times> world" where
  "eventBridge_putEvents w ev =
     (case faults w (PutEvents (DetailType ev) (d_planId (Detail ev))) of
        Some e \<Rightarrow> (Inl e, w)
      | None \<Rightarrow> (Inr (), w\<lparr>eventBus := eventBus w @ [ev]\<rparr>))"

section \<open>The Scanner (scheduler/scanner.ts)\<close>

definition MAX_BATCH_SIZE :: "environment \<Rightarrow> string" where
  "MAX_BATCH_SIZE e =
     (case env_MAX_BATCH_SIZE e of
        None \<Rightarrow> ''25''
      | Some s \<Rightarrow> if s = [] then ''25'' else s)"

text \<open>
  \<open>updatePlanStatus\<close> of the scanner: the catch block logs a ConditionalCheckFailedException
  and rethrows whatever it caught.
\<close>

definition scanner_updatePlanStatus ::
  "world \<Rightarrow> SavingsPlan \<Rightarrow> SavingsPlanStatus \<Rightarrow> (thrown + unit) \<times> world" where
  "scanner_updatePlanStatus w plan st =
     (case dynamo_update_status w (userId plan) (planId plan) st (clock w) of
        (Inl e, w') \<Rightarrow> (Inl e, w')
      | (Inr u, w') \<Rightarrow> (Inr u, w'))"

definition scheduled_detail :: "SavingsPlan \<Rightarrow> string \<Rightarrow> int \<Rightarrow> EventDetail" where
  "scheduled_detail plan eid currentTime =
     \<lparr>d_userId = userId plan, d_planId = planId plan, d_executionId = eid,
      d_amount = amount plan, d_frequency = Some (frequency plan),
      d_scheduledTime = Some currentTime, d_transactionId = None, d_bitcoinAmount = None,
      d_nextExecutionTime = None, d_errorMessage = None, d_attemptCount = None,
      d_maxRetriesExceeded = None, d_timestamp = None, d_stage = None\<rparr>"

text \<open>The catch block of \<open>processPlansForExecution\<close>: try to put the status back to ACTIVE,
  swallow a failure of that, rethrow the original error.\<close>

definition processPlans_catch ::
  "world \<Rightarrow> SavingsPlan \<Rightarrow> thrown \<Rightarrow> (thrown + unit) \<times> world" where
  "processPlans_catch w plan e =
     (case scanner_updatePlanStatus w plan ACTIVE of
        (Inl updateError, w') \<Rightarrow> (Inl e, w')
      | (Inr u, w') \<Rightarrow> (Inl e, w'))"

text \<open>The message handed to \<open>sqs.sendMessage\<close>: the execution event as body, deduplicated
  by the execution id, grouped by the user.\<close>

definition execution_message :: "SavingsPlan \<Rightarrow> string \<Rightarrow> int \<Rightarrow> sqs_message" where
  "execution_message plan eid currentTime =
     \<lparr>MessageBody =
        JsonText \<lparr>ev_userId = userId plan, ev_planId = planId plan,
                  executionTime = currentTime, executionId = eid, attemptCount = 0\<rparr>,
      MessageDeduplicationId = eid,
      MessageGroupId = userId plan\<rparr>"

definition scheduled_event :: "world \<Rightarrow> SavingsPlan \<Rightarrow> string \<Rightarrow> int \<Rightarrow> bus_event" where
  "scheduled_event w plan eid currentTime =
     \<lparr>Source = ''bitcoin-broker.scheduler'',
      DetailType = EXECUTION_SCHEDULED,
      Detail = scheduled_detail plan eid currentTime,
      EventBusName = env_EVENT_BUS_NAME (env w)\<rparr>"

definition processPlansForExecution ::
  "world \<Rightarrow> SavingsPlan \<Rightarrow> (thrown + unit) \<times> world" where
  "processPlansForExecution w plan =
     (case uuidv4 w of (eid, w0) \<Rightarrow>
       (let currentTime = clock w0 in
         (case scanner_updatePlanStatus w0 plan PENDING_EXECUTION of
            (Inl e, w1) \<Rightarrow> processPlans_catch w1 plan e
          | (Inr u1, w1) \<Rightarrow>
             (case sqs_sendMessage w1 (execution_message plan eid currentTime) of
                (Inl e, w2) \<Rightarrow> processPlans_catch w2 plan e
              | (Inr u2, w2) \<Rightarrow>
                 (case eventBridge_putEvents w2 (scheduled_event w2 plan eid currentTime) of
                    (Inl e, w3) \<Rightarrow> processPlans_catch w3 plan e
                  | (Inr u3, w3) \<Rightarrow> (Inr (), w3))))))"

text \<open>
  \<open>plans.map(plan => processPlansForExecution(plan))\<close> joined by \<open>Promise.allSettled\<close>. The
  per-plan computations write to different items of the plan table; the model runs them
  one after the other in the order of the list and collects every outcome.
\<close>

fun process_all :: "world \<Rightarrow> SavingsPlan list \<Rightarrow> (thrown + unit) list \<times> world" where
  "process_all w [] = ([], w)"
| "process_all w (p # ps) =
     (case processPlansForExecution w p of (r, w1) \<Rightarrow>
      case process_all w1 ps of (rs, w2) \<Rightarrow> (r # rs, w2))"

text \<open>The handler after the query has answered with \<open>items\<close>.\<close>

definition scanner_process_items ::
  "world \<Rightarrow> SavingsPlan list \<Rightarrow> (thrown + unit) \<times> world" where
  "scanner_process_items w items =
     (if items = [] then (Inr (), w)
      else
        case process_all w items of (results, w') \<Rightarrow>
        let successCount = length (filter (\<lambda>r. \<not> isl r) results);
            failureCount = length (filter isl results)
        in if failureCount > 0
           then (Inl (Error ''Error''
                   (''Failed to process all '' @ show_nat failureCount @ '' plans'')), w')
           else (Inr (), w'))"

definition scanner_handler :: "world \<Rightarrow> (thrown + unit) \<times> world" where
  "scanner_handler w =
     (let now = clock w div 1000 in
      case dynamo_query w ACTIVE now (parseInt (MAX_BATCH_SIZE (env w))) of
        Inl e \<Rightarrow> (Inl e, w)
      | Inr items \<Rightarrow> scanner_process_items w items)"


section \<open>The Exchange Client (transaction/exchange-client.ts)\<close>

record PurchaseRequest =
  rq_userId :: string
  rq_amount :: real
  rq_sourceOfFunds :: string
  clientRequestId :: string

definition new_BitcoinExchangeClient :: "ExchangeConfig \<Rightarrow> BitcoinExchangeClient" where
  "new_BitcoinExchangeClient cfg =
     \<lparr>config = cfg,
      axios_baseURL = (if useSandbox cfg = Some True then baseUrl cfg @ ''/sandbox''
                       else baseUrl cfg),
      axios_timeout = (case timeout cfg of
                         None \<Rightarrow> 5000
                       | Some t \<Rightarrow> if t = 0 then 5000 else t)\<rparr>"

definition demo_config :: ExchangeConfig where
  "demo_config =
     \<lparr>apiKey = ''demo-key'', apiSecret = ''demo-secret'',
      baseUrl = ''https://api.example.com/exchange'',
      timeout = None, useSandbox = Some True\<rparr>"

text \<open>
  \<open>getSecretValue\<close>: rejected by the service, or no such secret, or the secret with its
  \<open>SecretString\<close> (absent for a binary secret).
\<close>

definition secretsManager_getSecretValue ::
  "world \<Rightarrow> string \<Rightarrow> thrown + ExchangeConfig json_text option" where
  "secretsManager_getSecretValue w secretId =
     (case faults w (GetSecretValue secretId) of
        Some e \<Rightarrow> Inl e
      | None \<Rightarrow>
          (case secrets w secretId of
             None \<Rightarrow> Inl (Error ''ResourceNotFoundException''
                             ''Secrets Manager can't find the specified secret.'')
           | Some s \<Rightarrow> Inr s))"

text \<open>The \<open>try\<close> block of \<open>createFromSecrets\<close>. The stage is a string, or \<open>undefined\<close> when
  the variable STAGE is not set.\<close>

definition createFromSecrets_try ::
  "world \<Rightarrow> string \<Rightarrow> string option \<Rightarrow> thrown + BitcoinExchangeClient" where
  "createFromSecrets_try w secretId stage =
     (case secretsManager_getSecretValue w secretId of
        Inl e \<Rightarrow> Inl e
      | Inr secretString \<Rightarrow>
          (case secretString of
             None \<Rightarrow> Inl (Error ''Error'' ''Secret value is empty'')
           | Some js \<Rightarrow>
               if js = NotJson [] then Inl (Error ''Error'' ''Secret value is empty'')
               else
                 (case JSON_parse js of
                    Inl e \<Rightarrow> Inl e
                  | Inr cfg \<Rightarrow>
                      Inr (new_BitcoinExchangeClient
                             (cfg\<lparr>useSandbox := Some (stage \<noteq> Some ''prod'')\<rparr>)))))"

definition createFromSecrets ::
  "world \<Rightarrow> string \<Rightarrow> string option \<Rightarrow> thrown + BitcoinExchangeClient" where
  "createFromSecrets w secretId stage =
     (case createFromSecrets_try w secretId stage of
        Inr client \<Rightarrow> Inr client
      | Inl error \<Rightarrow>
          if stage = Some ''dev'' then Inr (new_BitcoinExchangeClient demo_config)
          else Inl error)"

text \<open>
  The \<open>try\<close> block of \<open>purchaseBitcoin\<close>: the exchange is simulated with four draws of
  \<open>Math.random()\<close> (latency, failure, price, transaction id).
\<close>

definition purchaseBitcoin_try ::
  "world \<Rightarrow> PurchaseRequest \<Rightarrow> (thrown + BitcoinPurchaseResult) \<times> world" where
  "purchaseBitcoin_try w request =
     (case Math_random w of (latency, w1) \<Rightarrow>
      (case Math_random w1 of (r, w2) \<Rightarrow>
        if r < 0.05 then (Inl (Error ''Error'' ''Exchange API temporary error''), w2)
        else
          (case Math_random w2 of (r3, w3) \<Rightarrow>
            (let rate = 60000 + r3 * 10000;
                 btc = rq_amount request / rate;
                 fee = rq_amount request * 0.01
             in
              (case Math_random w3 of (r4, w4) \<Rightarrow>
                (Inr \<lparr>success = True,
                      exchangeTransactionId =
                        Some (''tx-'' @ show_int (clock w4) @ ''-'' @ show_int \<lfloor>r4 * 10000\<rfloor>),
                      pr_bitcoinAmount = Some btc,
                      pr_exchangeRate = Some rate,
                      fees = Some fee,
                      errorMessage = None,
                      errorDetails = None\<rparr>, w4))))))"

text \<open>The \<open>catch\<close> block of \<open>purchaseBitcoin\<close>, for any value caught at time \<open>now\<close>.\<close>

definition purchaseBitcoin_catch ::
  "int \<Rightarrow> PurchaseRequest \<Rightarrow> thrown \<Rightarrow> BitcoinPurchaseResult" where
  "purchaseBitcoin_catch now request error =
     (let errorResult =
            \<lparr>success = False,
             exchangeTransactionId = None,
             pr_bitcoinAmount = None,
             pr_exchangeRate = None,
             fees = None,
             errorMessage = Some (if instanceof_Error error then error_message error
                                  else ''Unknown error occurred''),
             errorDetails = Some \<lparr>ed_timestamp = now, ed_requestId = clientRequestId request,
                                  ed_statusCode = None, ed_statusText = None,
                                  ed_responseData = None\<rparr>\<rparr>
      in
       (case error of
          AxiosError m (Some response) \<Rightarrow>
            errorResult\<lparr>errorDetails :=
              Some \<lparr>ed_timestamp = now, ed_requestId = clientRequestId request,
                    ed_statusCode = Some (status_code response),
                    ed_statusText = Some (statusText response),
                    ed_responseData = Some (response_data response)\<rparr>\<rparr>
        | _ \<Rightarrow> errorResult))"

definition purchaseBitcoin ::
  "world \<Rightarrow> PurchaseRequest \<Rightarrow> BitcoinPurchaseResult \<times> world" where
  "purchaseBitcoin w request =
     (case purchaseBitcoin_try (w\<lparr>purchaseCalls := Suc (purchaseCalls w)\<rparr>) request of
        (Inr result, w') \<Rightarrow> (result, w')
      | (Inl error, w') \<Rightarrow> (purchaseBitcoin_catch (clock w') request error, w'))"


section \<open>The Executor (transaction/executor.ts)\<close>

record SQSRecord =
  messageId :: string
  body :: "SchedulerExecutionEvent json_text"

text \<open>\<open>MAX_RETRIES = '3'\<close> in the destructuring: the default is taken when the variable is
  not set.\<close>

definition MAX_RETRIES :: "environment \<Rightarrow> string" where
  "MAX_RETRIES e = (case env_MAX_RETRIES e of None \<Rightarrow> ''3'' | Some s \<Rightarrow> s)"

text \<open>\<open>a >= b\<close> where \<open>b\<close> may be NaN: every comparison with NaN is false.\<close>

definition ge_number :: "int \<Rightarrow> int option \<Rightarrow> bool" where
  "ge_number a b = (case b of None \<Rightarrow> False | Some m \<Rightarrow> m \<le> a)"

definition getSavingsPlan :: "world \<Rightarrow> string \<Rightarrow> string \<Rightarrow> thrown + SavingsPlan" where
  "getSavingsPlan w u k =
     (case dynamo_get w u k of
        Inl e \<Rightarrow> Inl e
      | Inr None \<Rightarrow>
          Inl (Error ''Error'' (''Savings plan '' @ k @ '' for user '' @ u @ '' not found''))
      | Inr (Some item) \<Rightarrow> Inr item)"

definition updatePlanStatus ::
  "world \<Rightarrow> SavingsPlan \<Rightarrow> SavingsPlanStatus \<Rightarrow> (thrown + unit) \<times> world" where
  "updatePlanStatus w plan st =
     dynamo_update_status w (userId plan) (planId plan) st (clock w)"

definition updatePlanWithNextExecution ::
  "world \<Rightarrow> SavingsPlan \<Rightarrow> int option \<Rightarrow> (thrown + unit) \<times> world" where
  "updatePlanWithNextExecution w plan nx =
     dynamo_update_schedule w (userId plan) (planId plan) ACTIVE nx (clock w)"

definition recordTransaction ::
  "world \<Rightarrow> SavingsPlanTransaction \<Rightarrow> (thrown + unit) \<times> world" where
  "recordTransaction w tx = dynamo_put_transaction w tx"

text \<open>\<open>publishEvent\<close> stamps the detail with the time and the stage and awaits
  \<open>putEvents\<close>; nothing catches a rejection.\<close>

definition publishEvent ::
  "world \<Rightarrow> EventType \<Rightarrow> EventDetail \<Rightarrow> (thrown + unit) \<times> world" where
  "publishEvent w eventType detail =
     eventBridge_putEvents w
       \<lparr>Source = ''bitcoin-broker.scheduler'',
        DetailType = eventType,
        Detail = detail\<lparr>d_timestamp := Some (clock w), d_stage := Some (env_STAGE (env w))\<rparr>,
        EventBusName = env_EVENT_BUS_NAME (env w)\<rparr>"

definition base_detail :: "SavingsPlan \<Rightarrow> string \<Rightarrow> EventDetail" where
  "base_detail plan eid =
     \<lparr>d_userId = userId plan, d_planId = planId plan, d_executionId = eid,
      d_amount = amount plan, d_frequency = None, d_scheduledTime = None,
      d_transactionId = None, d_bitcoinAmount = None, d_nextExecutionTime = None,
      d_errorMessage = None, d_attemptCount = None, d_maxRetriesExceeded = None,
      d_timestamp = None, d_stage = None\<rparr>"

definition max_retries_message :: "environment \<Rightarrow> string" where
  "max_retries_message e = ''Maximum retry attempts ('' @ MAX_RETRIES e @ '') exceeded''"

definition handleMaxRetries ::
  "world \<Rightarrow> SchedulerExecutionEvent \<Rightarrow> (thrown + unit) \<times> world" where
  "handleMaxRetries w event =
     (case getSavingsPlan w (ev_userId event) (ev_planId event) of
        Inl e \<Rightarrow> (Inl e, w)
      | Inr plan \<Rightarrow>
         (case updatePlanStatus w plan FAILED of
            (Inl e, w1) \<Rightarrow> (Inl e, w1)
          | (Inr u1, w1) \<Rightarrow>
             (case uuidv4 w1 of (tid, w2) \<Rightarrow>
               (let transaction =
                      \<lparr>tx_userId = userId plan, transactionId = tid, tx_planId = planId plan,
                       tx_amount = amount plan, bitcoinAmount = 0, exchangeRate = 0,
                       tx_status = TX_FAILED, tx_timestamp = clock w2,
                       tx_errorMessage = Some (max_retries_message (env w2)),
                       metadata =
                         \<lparr>md_executionId = executionId event,
                          md_exchangeTransactionId = None,
                          md_attemptCount = attemptCount event,
                          md_fees = None,
                          md_maxRetries = Some (MAX_RETRIES (env w2))\<rparr>\<rparr>
                in
                 (case recordTransaction w2 transaction of
                    (Inl e, w3) \<Rightarrow> (Inl e, w3)
                  | (Inr u3, w3) \<Rightarrow>
                     (case publishEvent w3 EXECUTION_FAILED
                             ((base_detail plan (executionId event))
                                \<lparr>d_transactionId := Some (transactionId transaction),
                                 d_errorMessage := tx_errorMessage transaction,
                                 d_attemptCount := Some (attemptCount event),
                                 d_maxRetriesExceeded := Some True\<rparr>) of
                        (Inl e, w4) \<Rightarrow> (Inl e, w4)
                      | (Inr u4, w4) \<Rightarrow> (Inr (), w4)))))))"

text \<open>\<open>x || 0\<close> on an optional number.\<close>

definition or_zero :: "real option \<Rightarrow> real" where
  "or_zero x = (case x of None \<Rightarrow> 0 | Some v \<Rightarrow> v)"

definition template_string :: "string option \<Rightarrow> string" where
  "template_string s = (case s of None \<Rightarrow> ''undefined'' | Some v \<Rightarrow> v)"

definition make_transaction ::
  "SavingsPlan \<Rightarrow> SchedulerExecutionEvent \<Rightarrow> BitcoinPurchaseResult \<Rightarrow> string \<Rightarrow> int
     \<Rightarrow> SavingsPlanTransaction" where
  "make_transaction plan executionEvent purchaseResult tid now =
     \<lparr>tx_userId = userId plan, transactionId = tid, tx_planId = planId plan,
      tx_amount = amount plan,
      bitcoinAmount = or_zero (pr_bitcoinAmount purchaseResult),
      exchangeRate = or_zero (pr_exchangeRate purchaseResult),
      tx_status = (if success purchaseResult then TX_COMPLETED else TX_FAILED),
      tx_timestamp = now,
      tx_errorMessage = errorMessage purchaseResult,
      metadata =
        \<lparr>md_executionId = executionId executionEvent,
         md_exchangeTransactionId = exchangeTransactionId purchaseResult,
         md_attemptCount = attemptCount executionEvent,
         md_fees = fees purchaseResult,
         md_maxRetries = None\<rparr>\<rparr>"

text \<open>The request \<open>processExecutionEvent\<close> hands to the Exchange Client.\<close>

definition purchase_request :: "SavingsPlan \<Rightarrow> SchedulerExecutionEvent \<Rightarrow> PurchaseRequest" where
  "purchase_request plan executionEvent =
     \<lparr>rq_userId = userId plan, rq_amount = amount plan,
      rq_sourceOfFunds = sourceOfFunds plan,
      clientRequestId = executionId executionEvent\<rparr>"

text \<open>The two branches of \<open>processExecutionEvent\<close> after the transaction row is written.\<close>

definition settle_plan ::
  "world \<Rightarrow> SavingsPlan \<Rightarrow> SchedulerExecutionEvent \<Rightarrow> BitcoinPurchaseResult
     \<Rightarrow> SavingsPlanTransaction \<Rightarrow> (thrown + unit) \<times> world" where
  "settle_plan w plan executionEvent purchaseResult transaction =
     (if success purchaseResult then
        (case calculateNextExecutionTime (frequency plan) (Some (clock w)) of
           Inl e \<Rightarrow> (Inl e, w)
         | Inr nextTime \<Rightarrow>
            (case updatePlanWithNextExecution w plan nextTime of
               (Inl e, w1) \<Rightarrow> (Inl e, w1)
             | (Inr u1, w1) \<Rightarrow>
                (case publishEvent w1 EXECUTION_COMPLETED
                        ((base_detail plan (executionId executionEvent))
                           \<lparr>d_transactionId := Some (transactionId transaction),
                            d_bitcoinAmount := Some (bitcoinAmount transaction),
                            d_nextExecutionTime := Some nextTime\<rparr>) of
                   (Inl e, w2) \<Rightarrow> (Inl e, w2)
                 | (Inr u2, w2) \<Rightarrow> (Inr (), w2))))
      else
        (case updatePlanStatus w plan FAILED of
           (Inl e, w1) \<Rightarrow> (Inl e, w1)
         | (Inr u1, w1) \<Rightarrow>
            (case publishEvent w1 EXECUTION_FAILED
                    ((base_detail plan (executionId executionEvent))
                       \<lparr>d_transactionId := Some (transactionId transaction),
                        d_errorMessage := errorMessage purchaseResult,
                        d_attemptCount := Some (attemptCount executionEvent)\<rparr>) of
               (Inl e, w2) \<Rightarrow> (Inl e, w2)
             | (Inr u2, w2) \<Rightarrow>
                (Inl (Error ''Error''
                       (''Purchase failed: '' @ template_string (errorMessage purchaseResult))),
                 w2))))"

text \<open>What \<open>processExecutionEvent\<close> does once the purchase has returned: it builds the
  transaction under a new id, writes it, and settles the plan.\<close>

definition after_purchase ::
  "world \<Rightarrow> SavingsPlan \<Rightarrow> SchedulerExecutionEvent \<Rightarrow> BitcoinPurchaseResult
     \<Rightarrow> (thrown + unit) \<times> world" where
  "after_purchase w plan executionEvent purchaseResult =
     (case uuidv4 w of (tid, w4) \<Rightarrow>
       (let transaction = make_transaction plan executionEvent purchaseResult tid (clock w4)
        in
         (case recordTransaction w4 transaction of
            (Inl e, w5) \<Rightarrow> (Inl e, w5)
          | (Inr u5, w5) \<Rightarrow> settle_plan w5 plan executionEvent purchaseResult transaction)))"

definition processExecutionEvent ::
  "world \<Rightarrow> SQSRecord \<Rightarrow> (thrown + unit) \<times> world" where
  "processExecutionEvent w record =
     (case JSON_parse (body record) of
        Inl e \<Rightarrow> (Inl e, w)
      | Inr executionEvent \<Rightarrow>
         if ge_number (attemptCount executionEvent) (parseInt (MAX_RETRIES (env w)))
         then handleMaxRetries w executionEvent
         else
          (case getSavingsPlan w (ev_userId executionEvent) (ev_planId executionEvent) of
             Inl e \<Rightarrow> (Inl e, w)
           | Inr plan \<Rightarrow>
              (case updatePlanStatus w plan EXECUTING of
                 (Inl e, w1) \<Rightarrow> (Inl e, w1)
               | (Inr u1, w1) \<Rightarrow>
                  (case publishEvent w1 EXECUTION_STARTED
                          ((base_detail plan (executionId executionEvent))
                             \<lparr>d_attemptCount := Some (attemptCount executionEvent)\<rparr>) of
                     (Inl e, w2) \<Rightarrow> (Inl e, w2)
                   | (Inr u2, w2) \<Rightarrow>
                      (case purchaseBitcoin w2 (purchase_request plan executionEvent) of
                         (purchaseResult, w3) \<Rightarrow>
                           after_purchase w3 plan executionEvent purchaseResult)))))"

text \<open>The loop of the handler over the records of the batch.\<close>

fun process_records ::
  "world \<Rightarrow> SQSRecord list \<Rightarrow> string list \<Rightarrow> string list \<times> world" where
  "process_records w [] batchItemFailures = (batchItemFailures, w)"
| "process_records w (record # rest) batchItemFailures =
     (case processExecutionEvent w record of
        (Inl e, w1) \<Rightarrow> process_records w1 rest (batchItemFailures @ [messageId record])
      | (Inr u, w1) \<Rightarrow> process_records w1 rest batchItemFailures)"

definition executor_handler ::
  "world \<Rightarrow> SQSRecord list \<Rightarrow> (thrown + string list) \<times> world" where
  "executor_handler w records =
     (case (if exchangeClient w = None
            then (case createFromSecrets w (env_EXCHANGE_API_SECRET_ID (env w))
                         (env_STAGE (env w)) of
                    Inl e \<Rightarrow> Inl e
                  | Inr client \<Rightarrow> Inr (w\<lparr>exchangeClient := Some client\<rparr>))
            else Inr w) of
        Inl e \<Rightarrow> (Inl e, w)
      | Inr w1 \<Rightarrow>
         (case process_records w1 records [] of
            (batchItemFailures, w2) \<Rightarrow> (Inr batchItemFailures, w2)))"


section \<open>Notions used to state the properties\<close>

text \<open>The primary key of a plan row, and the plan an enqueued message is about.\<close>

definition plan_key :: "SavingsPlan \<Rightarrow> string \<times> string" where
  "plan_key p = (userId p, planId p)"

definition message_key :: "sqs_message \<Rightarrow> (string \<times> string) option" where
  "message_key m =
     (case MessageBody m of
        JsonText ev \<Rightarrow> Some (ev_userId ev, ev_planId ev)
      | NotJson s \<Rightarrow> None)"

text \<open>What a call to a service or a generator leaves alone.\<close>

definition same_services :: "world \<Rightarrow> world \<Rightarrow> bool" where
  "same_services w w' \<longleftrightarrow>
     faults w' = faults w \<and> clock w' = clock w \<and> env w' = env w
     \<and> uuidGen w' = uuidGen w \<and> random w' = random w \<and> secrets w' = secrets w
     \<and> exchangeClient w' = exchangeClient w \<and> queue w' = queue w"

text \<open>The world in which the purchase is called: the plan is EXECUTING and the
  EXECUTION_STARTED event is on the bus.\<close>

definition started_world :: "world \<Rightarrow> SavingsPlan \<Rightarrow> SchedulerExecutionEvent \<Rightarrow> world" where
  "started_world w plan ev =
     w\<lparr>plansTable :=
         map (\<lambda>p. if has_key (userId plan) (planId plan) p
                  then p\<lparr>status := EXECUTING, updatedAt := clock w\<rparr> else p) (plansTable w),
       eventBus :=
         eventBus w @
           [\<lparr>Source = ''bitcoin-broker.scheduler'', DetailType = EXECUTION_STARTED,
             Detail = (base_detail plan (executionId ev))
                        \<lparr>d_attemptCount := Some (attemptCount ev),
                         d_timestamp := Some (clock w),
                         d_stage := Some (env_STAGE (env w))\<rparr>,
             EventBusName = env_EVENT_BUS_NAME (env w)\<rparr>]\<rparr>"

text \<open>What holds of every transaction row the Executor writes: it is a FAILED row without
  bitcoin amount and exchange rate, or a COMPLETED row.\<close>

abbreviation recorded_row_ok :: "SavingsPlanTransaction \<Rightarrow> bool" where
  "recorded_row_ok tx \<equiv>
     (tx_status tx = TX_FAILED \<and> bitcoinAmount tx = 0 \<and> exchangeRate tx = 0)
     \<or> tx_status tx = TX_COMPLETED"

section \<open>Sample data\<close>

text \<open>A plan, a deployment environment and a world with no faults, used where a statement
  is exercised on a concrete input.\<close>

definition sample_plan :: SavingsPlan where
  "sample_plan =
     \<lparr>userId = ''u1'', planId = ''p1'', amount = 100, frequency = WEEKLY,
      sourceOfFunds = ''bank'', status = ACTIVE, nextExecutionTime = 999,
      startDate = 0, endDate = None, createdAt = 0, updatedAt = 0\<rparr>"

definition sample_env :: environment where
  "sample_env =
     \<lparr>env_MAX_BATCH_SIZE = None, env_MAX_RETRIES = None, env_STAGE = Some ''staging'',
      env_EVENT_BUS_NAME = ''bus'', env_EXCHANGE_API_SECRET_ID = ''exchange-keys''\<rparr>"

definition sample_world :: "SavingsPlan list \<Rightarrow> world" where
  "sample_world rows =
     \<lparr>plansTable = rows, transactionsTable = [], queue = [], eventBus = [],
      secrets = (\<lambda>s. None), clock = 1000000,
      uuidGen = (\<lambda>n. ''uuid-'' @ show_nat n), uuidCount = 0,
      random = (\<lambda>n. 1 / 2), randomCount = 0, faults = (\<lambda>c. None),
      env = sample_env, exchangeClient = None, purchaseCalls = 0\<rparr>"

text \<open>A plan that has no row in the sample table.\<close>

definition ghost_plan :: SavingsPlan where
  "ghost_plan = sample_plan\<lparr>planId := ''p2''\<rparr>"

text \<open>A task for the sample plan, delivered with a given attempt count.\<close>

definition sample_event :: "int \<Rightarrow> SchedulerExecutionEvent" where
  "sample_event n =
     \<lparr>ev_userId = ''u1'', ev_planId = ''p1'', executionTime = 1000000,
      executionId = ''e1'', attemptCount = n\<rparr>"

definition sample_record :: "int \<Rightarrow> SQSRecord" where
  "sample_record n = \<lparr>messageId = ''m1'', body = JsonText (sample_event n)\<rparr>"

text \<open>A world whose exchange declines every purchase, with the client already built.\<close>

definition declining_world :: "SavingsPlan list \<Rightarrow> world" where
  "declining_world rows =
     (sample_world rows)
       \<lparr>random := (\<lambda>n. 0),
        exchangeClient := Some (new_BitcoinExchangeClient demo_config)\<rparr>"

text \<open>A world whose event bus rejects the events of the listed types and accepts the
  others; the exchange fills every purchase.\<close>

definition bus_down :: thrown where
  "bus_down = Error ''InternalFailure'' ''The event bus rejected the entries''"

definition flaky_bus_world :: "EventType list \<Rightarrow> SavingsPlan list \<Rightarrow> world" where
  "flaky_bus_world ts rows =
     (sample_world rows)
       \<lparr>faults := (\<lambda>c. case c of
                         PutEvents t k \<Rightarrow> if t \<in> set ts then Some bus_down else None
                       | _ \<Rightarrow> None),
        exchangeClient := Some (new_BitcoinExchangeClient demo_config)\<rparr>"

text \<open>A purchase request, a second plan that is due earlier than the sample plan, and a
  world with both plans whose batch size is configured as 1.\<close>

definition sample_request :: PurchaseRequest where
  "sample_request =
     \<lparr>rq_userId = ''u1'', rq_amount = 100, rq_sourceOfFunds = ''bank'',
      clientRequestId = ''e1''\<rparr>"

definition early_plan :: SavingsPlan where
  "early_plan = sample_plan\<lparr>planId := ''p2'', nextExecutionTime := 500\<rparr>"

definition small_batch_world :: world where
  "small_batch_world =
     (sample_world [sample_plan, early_plan])
       \<lparr>env := sample_env\<lparr>env_MAX_BATCH_SIZE := Some ''1''\<rparr>\<rparr>"

section \<open>Properties of \<open>calculateNextExecutionTime\<close>\<close>

lemma DayFromYear_1970: "DayFromYear 1970 = 0"
  by (simp add: DayFromYear_def)

lemma DayFromYear_succ_bounds:
  "DayFromYear (y + 1) \<le> DayFromYear y + 366"
  "DayFromYear y + 365 \<le> DayFromYear (y + 1)"
  by (simp_all add: DayFromYear_step)

lemma DayFromYear_upper: "0 \<le> k \<Longrightarrow> DayFromYear (1970 + k) \<le> 366 * k"
proof (induct k rule: int_ge_induct)
  case base
  then show ?case by (simp add: DayFromYear_1970)
next
  case (step i)
  with DayFromYear_succ_bounds(1) [of "1970 + i"] show ?case
    by (simp add: algebra_simps)
qed

lemma DayFromYear_lower: "k \<le> 0 \<Longrightarrow> DayFromYear (1970 + k) \<le> 365 * k"
proof (induct k rule: int_le_induct)
  case base
  then show ?case by (simp add: DayFromYear_1970)
next
  case (step i)
  with DayFromYear_succ_bounds(2) [of "1970 + (i - 1)"] show ?case
    by (simp add: algebra_simps)
qed

lemma year_search_spec:
  "DayFromYear y \<le> d \<Longrightarrow>
     DayFromYear (year_search d y) \<le> d \<and> d < DayFromYear (year_search d y + 1)"
proof (induction d y rule: year_search.induct)
  case (1 d y)
  show ?case
  proof (cases "DayFromYear (y + 1) \<le> d")
    case True
    with "1.IH" have "DayFromYear (year_search d (y + 1)) \<le> d
        \<and> d < DayFromYear (year_search d (y + 1) + 1)" by simp
    moreover have "year_search d y = year_search d (y + 1)"
      using True by (subst year_search.simps) simp
    ultimately show ?thesis by simp
  next
    case False
    then have "year_search d y = y" by (subst year_search.simps) simp
    with False "1.prems" show ?thesis by simp
  qed
qed

text \<open>YearFromTime is the year the ECMAScript definition asks for: the largest year
  whose first day is not after the day of the time value.\<close>

lemma YearFromTime_spec:
  "DayFromYear (YearFromTime t) \<le> Day t \<and> Day t < DayFromYear (YearFromTime t + 1)"
proof -
  define d where "d = Day t"
  have start: "DayFromYear (1970 + (if 0 \<le> d then d div 366 else d div 365)) \<le> d"
  proof (cases "0 \<le> d")
    case True
    then have "0 \<le> d div 366" by simp
    from DayFromYear_upper [OF this] have "DayFromYear (1970 + d div 366) \<le> 366 * (d div 366)" .
    also have "\<dots> \<le> d" by simp
    finally show ?thesis using True by simp
  next
    case False
    then have "d div 365 \<le> 0" by simp
    from DayFromYear_lower [OF this] have "DayFromYear (1970 + d div 365) \<le> 365 * (d div 365)" .
    also have "\<dots> \<le> d" by simp
    finally show ?thesis using False by simp
  qed
  from year_search_spec [OF start] show ?thesis
    unfolding YearFromTime_def YearFromDay_def d_def .
qed

lemma month_of_day_in_year_range:
  "0 \<le> month_of_day_in_year l d \<and> month_of_day_in_year l d \<le> 11"
  by (simp add: month_of_day_in_year_def)

lemma MonthFromTime_range: "0 \<le> MonthFromTime t \<and> MonthFromTime t \<le> 11"
  unfolding MonthFromTime_def by (rule month_of_day_in_year_range)

lemma MakeDay_same_month:
  assumes "0 \<le> m" "m \<le> 11"
  shows "MakeDay y m dt = DayFromYear y + month_start (InLeapYear_of y) m + dt - 1"
proof -
  from assms have "m div 12 = 0" and "m mod 12 = m" by simp_all
  then show ?thesis by (simp add: MakeDay_def)
qed

lemma MakeDay_roundtrip:
  "MakeDay (YearFromTime t) (MonthFromTime t) (DateFromTime t + n) = Day t + n"
proof -
  have r: "0 \<le> MonthFromTime t" "MonthFromTime t \<le> 11"
    using MonthFromTime_range [of t] by simp_all
  show ?thesis
    unfolding MakeDay_same_month [OF r]
    by (simp add: DateFromTime_def DayWithinYear_def InLeapYear_def)
qed

lemma MakeDate_shift: "MakeDate (Day t + n) (TimeWithinDay t) = t + n * msPerDay"
  unfolding MakeDate_def Day_def TimeWithinDay_def
  by (simp add: distrib_right)

lemma setDate_add:
  "setDate (Some t) (map_option (\<lambda>d. d + n) (getDate (Some t))) = TimeClip (t + n * msPerDay)"
  by (simp add: setDate_def getDate_def MakeDay_roundtrip MakeDate_shift)

lemma floor_seconds_days:
  "(t + n * msPerDay) div 1000 = t div 1000 + n * 86400"
proof -
  have e: "t + n * msPerDay = t + (n * 86400) * 1000" by (simp add: msPerDay_def)
  show ?thesis unfolding e by (rule trans [OF div_mult_self1]) simp_all
qed

lemma advance_days:
  assumes "\<bar>t + n * msPerDay\<bar> \<le> 8640000000000000"
  shows "floor_seconds (getTime (setDate (Some t) (map_option (\<lambda>d. d + n) (getDate (Some t)))))
           = Some (t div 1000 + n * 86400)"
  using assms
  by (simp add: setDate_add TimeClip_def getTime_def floor_seconds_def floor_seconds_days)

text \<open>
  DAILY, WEEKLY and BIWEEKLY add exactly 86400, 604800 and 1209600 seconds to the reference
  instant (in whole seconds), as long as the new date is a valid time value.
\<close>

lemma calculateNextExecutionTime_daily:
  assumes "\<bar>t + 86400000\<bar> \<le> 8640000000000000"
  shows "calculateNextExecutionTime DAILY (Some t) = Inr (Some (t div 1000 + 86400))"
  using advance_days [of t 1] assms
  by (simp add: calculateNextExecutionTime_def msPerDay_def)


lemma calculateNextExecutionTime_biweekly:
  assumes "\<bar>t + 1209600000\<bar> \<le> 8640000000000000"
  shows "calculateNextExecutionTime BIWEEKLY (Some t) = Inr (Some (t div 1000 + 1209600))"
  using advance_days [of t 14] assms
  by (simp add: calculateNextExecutionTime_def msPerDay_def WEEKLY_def DAILY_def BIWEEKLY_def)

text \<open>
  Claim C4. The claim: the next-execution-time function adds exactly one day, seven days
  or fourteen days for DAILY, WEEKLY and BIWEEKLY, and for MONTHLY one calendar month, so
  that advancing 2024-01-31 gives 2024-02-29; the result is in whole seconds. On the code:
  the reference instant 2024-01-31T00:00:00Z is the time value 1706659200000;
  \<open>setMonth(getMonth() + 1)\<close> keeps the day of the month 31, which February does not have,
  and the date carries over into March. The function returns 1709337600, which is
  2024-03-02T00:00:00Z (year 2024, month index 2, day 2), and not 1709164800, which is
  2024-02-29T00:00:00Z.
\<close>

theorem calculateNextExecutionTime_monthly_jan31:
  "calculateNextExecutionTime MONTHLY (Some 1706659200000) = Inr (Some 1709337600)
   \<and> YearFromTime (1709337600 * 1000) = 2024
   \<and> MonthFromTime (1709337600 * 1000) = 2
   \<and> DateFromTime (1709337600 * 1000) = 2
   \<and> YearFromTime (1709164800 * 1000) = 2024
   \<and> MonthFromTime (1709164800 * 1000) = 1
   \<and> DateFromTime (1709164800 * 1000) = 29"
  by code_simp

section \<open>Facts about the sample data\<close>

lemma sample_world_fields [simp]:
  "plansTable (sample_world rows) = rows"
  "queue (sample_world rows) = []"
  "eventBus (sample_world rows) = []"
  "transactionsTable (sample_world rows) = []"
  "faults (sample_world rows) = (\<lambda>c. None)"
  "clock (sample_world rows) = 1000000"
  "uuidCount (sample_world rows) = 0"
  "randomCount (sample_world rows) = 0"
  "purchaseCalls (sample_world rows) = 0"
  "env (sample_world rows) = sample_env"
  by (simp_all add: sample_world_def)

lemma sample_keys [simp]:
  "userId sample_plan = ''u1''" "planId sample_plan = ''p1''"
  "userId ghost_plan = ''u1''" "planId ghost_plan = ''p2''"
  "status sample_plan = ACTIVE" "nextExecutionTime sample_plan = 999"
  by (simp_all add: sample_plan_def ghost_plan_def)

lemma declining_world_fields [simp]:
  "plansTable (declining_world rows) = rows"
  "eventBus (declining_world rows) = []"
  "transactionsTable (declining_world rows) = []"
  "faults (declining_world rows) = (\<lambda>c. None)"
  "clock (declining_world rows) = 1000000"
  "uuidCount (declining_world rows) = 0"
  "randomCount (declining_world rows) = 0"
  "random (declining_world rows) = (\<lambda>n. 0)"
  "purchaseCalls (declining_world rows) = 0"
  "env (declining_world rows) = sample_env"
  "exchangeClient (declining_world rows) = Some (new_BitcoinExchangeClient demo_config)"
  by (simp_all add: declining_world_def)

lemma sample_request_fields [simp]:
  "rq_amount sample_request = 100" "clientRequestId sample_request = ''e1''"
  by (simp_all add: sample_request_def)

lemma small_batch_world_fields [simp]:
  "plansTable small_batch_world = [sample_plan, early_plan]"
  "queue small_batch_world = []"
  "faults small_batch_world = (\<lambda>c. None)"
  "clock small_batch_world = 1000000"
  "uuidCount small_batch_world = 0"
  "env_MAX_BATCH_SIZE (env small_batch_world) = Some ''1''"
  "uuidGen small_batch_world 0 = ''uuid-0''"
  by (simp_all add: small_batch_world_def sample_world_def show_nat.simps digit_char_def
      decimal_digits_def)

lemma early_plan_fields [simp]:
  "userId early_plan = ''u1''" "planId early_plan = ''p2''"
  "status early_plan = ACTIVE" "nextExecutionTime early_plan = 500"
  by (simp_all add: early_plan_def sample_plan_def)


lemma flaky_bus_world_fields [simp]:
  "plansTable (flaky_bus_world ts rows) = rows"
  "eventBus (flaky_bus_world ts rows) = []"
  "queue (flaky_bus_world ts rows) = []"
  "transactionsTable (flaky_bus_world ts rows) = []"
  "clock (flaky_bus_world ts rows) = 1000000"
  "uuidCount (flaky_bus_world ts rows) = 0"
  "randomCount (flaky_bus_world ts rows) = 0"
  "random (flaky_bus_world ts rows) = (\<lambda>n. 1 / 2)"
  "purchaseCalls (flaky_bus_world ts rows) = 0"
  "env (flaky_bus_world ts rows) = sample_env"
  "uuidGen (flaky_bus_world ts rows) = uuidGen (sample_world rows)"
  by (simp_all add: flaky_bus_world_def sample_world_def)

lemma flaky_bus_world_faults [simp]:
  "faults (flaky_bus_world ts rows) (PutEvents t k) = (if t \<in> set ts then Some bus_down else None)"
  "faults (flaky_bus_world ts rows) DynamoQuery = None"
  "faults (flaky_bus_world ts rows) (DynamoGet u k) = None"
  "faults (flaky_bus_world ts rows) (DynamoUpdateStatus u k s) = None"
  "faults (flaky_bus_world ts rows) (DynamoUpdateSchedule u k) = None"
  "faults (flaky_bus_world ts rows) (DynamoPut u i) = None"
  "faults (flaky_bus_world ts rows) (SqsSendMessage i) = None"
  by (simp_all add: flaky_bus_world_def)


section \<open>The client factory\<close>

lemma sample_try:
  "createFromSecrets_try (sample_world []) ''exchange-keys'' st =
     Inl (Error ''ResourceNotFoundException''
            ''Secrets Manager can't find the specified secret.'')"
  by (simp add: createFromSecrets_try_def secretsManager_getSecretValue_def sample_world_def)

text \<open>
  Claim C9, as stated: when the retrieval of the credentials fails, every non-production
  stage falls back to the demo credentials. It fails for the stage \<open>staging\<close>: the stage is
  not \<open>prod\<close>, the secret cannot be read, and the factory rethrows the error.
\<close>

theorem createFromSecrets_staging_counterexample:
  "Some ''staging'' \<noteq> Some ''prod''
   \<and> createFromSecrets_try (sample_world []) ''exchange-keys'' (Some ''staging'') =
       Inl (Error ''ResourceNotFoundException''
              ''Secrets Manager can't find the specified secret.'')
   \<and> createFromSecrets (sample_world []) ''exchange-keys'' (Some ''staging'') =
       Inl (Error ''ResourceNotFoundException''
              ''Secrets Manager can't find the specified secret.'')"
  by (simp add: sample_try createFromSecrets_def)

text \<open>
  Claim C9, amended: when the retrieval of the credentials fails (the service rejects the
  call, the secret is missing or empty, or it is not JSON), the factory returns a client
  with the fixed demo credentials exactly when the stage is \<open>dev\<close>; for every other stage,
  \<open>staging\<close> and \<open>prod\<close> included, the error of the retrieval propagates.
\<close>

theorem createFromSecrets_fallback:
  "createFromSecrets_try w secretId stage = Inl e \<Longrightarrow>
   createFromSecrets w secretId stage =
     (if stage = Some ''dev'' then Inr (new_BitcoinExchangeClient demo_config) else Inl e)"
  by (simp add: createFromSecrets_def)

theorem createFromSecrets_fallback_witness:
  "createFromSecrets_try (sample_world []) ''exchange-keys'' (Some ''dev'') =
     Inl (Error ''ResourceNotFoundException''
            ''Secrets Manager can't find the specified secret.'')
   \<and> createFromSecrets (sample_world []) ''exchange-keys'' (Some ''dev'') =
       Inr (new_BitcoinExchangeClient demo_config)"
  using createFromSecrets_fallback [OF sample_try [of "Some ''dev''"]]
  by (simp add: sample_try)


section \<open>The purchase operation\<close>

text \<open>
  Claim C7: \<open>purchaseBitcoin\<close> returns a result for every request and never throws. The only
  error its \<open>try\<close> block raises is the simulated \<open>Exchange API temporary error\<close>, raised
  exactly when the second draw of \<open>Math.random()\<close> is below 0.05; the operation then returns
  the result with \<open>success = false\<close>, that message, and \<open>errorDetails\<close> holding the time and
  the request's \<open>clientRequestId\<close>. When the draw is not below 0.05 the \<open>try\<close> block returns,
  and the result is the successful one with the simulated rate and amount. Whatever value
  the \<open>try\<close> block raises is what the \<open>catch\<close> block converts, and the converted result has
  \<open>success = false\<close>; whatever the \<open>try\<close> block returns is returned unchanged. For every
  caught value the \<open>catch\<close> block gives \<open>success = false\<close>, the message of an \<open>Error\<close> (or
  \<open>Unknown error occurred\<close> for a value that is not one), the time and the
  \<open>clientRequestId\<close>, and the status code, status text and response body exactly when the
  value is an axios error carrying a response.
\<close>

theorem purchaseBitcoin_never_throws:
  "(random w (Suc (randomCount w)) < 5 / 100 \<longrightarrow>
      purchaseBitcoin_try (w\<lparr>purchaseCalls := Suc (purchaseCalls w)\<rparr>) rq =
        (Inl (Error ''Error'' ''Exchange API temporary error''),
         w\<lparr>purchaseCalls := Suc (purchaseCalls w), randomCount := randomCount w + 2\<rparr>)
      \<and> purchaseBitcoin w rq =
        (\<lparr>success = False, exchangeTransactionId = None, pr_bitcoinAmount = None,
          pr_exchangeRate = None, fees = None,
          errorMessage = Some ''Exchange API temporary error'',
          errorDetails =
            Some \<lparr>ed_timestamp = clock w, ed_requestId = clientRequestId rq,
                  ed_statusCode = None, ed_statusText = None, ed_responseData = None\<rparr>\<rparr>,
         w\<lparr>purchaseCalls := Suc (purchaseCalls w), randomCount := randomCount w + 2\<rparr>))
   \<and> (\<not> random w (Suc (randomCount w)) < 5 / 100 \<longrightarrow>
      purchaseBitcoin_try (w\<lparr>purchaseCalls := Suc (purchaseCalls w)\<rparr>) rq =
        (Inr (fst (purchaseBitcoin w rq)), snd (purchaseBitcoin w rq))
      \<and> fst (purchaseBitcoin w rq) =
          \<lparr>success = True,
           exchangeTransactionId =
             Some (''tx-'' @ show_int (clock w) @ ''-'' @
                   show_int \<lfloor>random w (randomCount w + 3) * 10000\<rfloor>),
           pr_bitcoinAmount =
             Some (rq_amount rq / (60000 + random w (randomCount w + 2) * 10000)),
           pr_exchangeRate = Some (60000 + random w (randomCount w + 2) * 10000),
           fees = Some (rq_amount rq * (1 / 100)),
           errorMessage = None, errorDetails = None\<rparr>)
   \<and> (purchaseBitcoin_try (w\<lparr>purchaseCalls := Suc (purchaseCalls w)\<rparr>) rq = (Inl e, w')
      \<longrightarrow> purchaseBitcoin w rq = (purchaseBitcoin_catch (clock w') rq e, w')
          \<and> \<not> success (fst (purchaseBitcoin w rq)))
   \<and> (purchaseBitcoin_try (w\<lparr>purchaseCalls := Suc (purchaseCalls w)\<rparr>) rq = (Inr r, w')
      \<longrightarrow> purchaseBitcoin w rq = (r, w'))
   \<and> purchaseBitcoin_catch now rq e =
       \<lparr>success = False, exchangeTransactionId = None, pr_bitcoinAmount = None,
        pr_exchangeRate = None, fees = None,
        errorMessage =
          Some (case e of
                  Error n m \<Rightarrow> m
                | AxiosError m resp \<Rightarrow> m
                | NonError v \<Rightarrow> ''Unknown error occurred''),
        errorDetails =
          Some \<lparr>ed_timestamp = now, ed_requestId = clientRequestId rq,
                ed_statusCode =
                  (case e of AxiosError m (Some resp) \<Rightarrow> Some (status_code resp) | _ \<Rightarrow> None),
                ed_statusText =
                  (case e of AxiosError m (Some resp) \<Rightarrow> Some (statusText resp) | _ \<Rightarrow> None),
                ed_responseData =
                  (case e of AxiosError m (Some resp) \<Rightarrow> Some (response_data resp)
                   | _ \<Rightarrow> None)\<rparr>\<rparr>"
proof (intro conjI impI)
  assume a: "random w (Suc (randomCount w)) < 5 / 100"
  show "purchaseBitcoin_try (w\<lparr>purchaseCalls := Suc (purchaseCalls w)\<rparr>) rq =
        (Inl (Error ''Error'' ''Exchange API temporary error''),
         w\<lparr>purchaseCalls := Suc (purchaseCalls w), randomCount := randomCount w + 2\<rparr>)"
    using a by (simp add: purchaseBitcoin_try_def Math_random_def)
  show "purchaseBitcoin w rq =
        (\<lparr>success = False, exchangeTransactionId = None, pr_bitcoinAmount = None,
          pr_exchangeRate = None, fees = None,
          errorMessage = Some ''Exchange API temporary error'',
          errorDetails =
            Some \<lparr>ed_timestamp = clock w, ed_requestId = clientRequestId rq,
                  ed_statusCode = None, ed_statusText = None, ed_responseData = None\<rparr>\<rparr>,
         w\<lparr>purchaseCalls := Suc (purchaseCalls w), randomCount := randomCount w + 2\<rparr>)"
    using a
    by (simp add: purchaseBitcoin_def purchaseBitcoin_try_def Math_random_def
        purchaseBitcoin_catch_def)
next
  assume a: "\<not> random w (Suc (randomCount w)) < 5 / 100"
  show "purchaseBitcoin_try (w\<lparr>purchaseCalls := Suc (purchaseCalls w)\<rparr>) rq =
        (Inr (fst (purchaseBitcoin w rq)), snd (purchaseBitcoin w rq))"
    using a
    by (simp add: purchaseBitcoin_def purchaseBitcoin_try_def Math_random_def Let_def)
  show "fst (purchaseBitcoin w rq) =
          \<lparr>success = True,
           exchangeTransactionId =
             Some (''tx-'' @ show_int (clock w) @ ''-'' @
                   show_int \<lfloor>random w (randomCount w + 3) * 10000\<rfloor>),
           pr_bitcoinAmount =
             Some (rq_amount rq / (60000 + random w (randomCount w + 2) * 10000)),
           pr_exchangeRate = Some (60000 + random w (randomCount w + 2) * 10000),
           fees = Some (rq_amount rq * (1 / 100)),
           errorMessage = None, errorDetails = None\<rparr>"
    using a
    by (simp add: purchaseBitcoin_def purchaseBitcoin_try_def Math_random_def Let_def
        numeral_3_eq_3 numeral_2_eq_2)
next
  assume t: "purchaseBitcoin_try (w\<lparr>purchaseCalls := Suc (purchaseCalls w)\<rparr>) rq = (Inl e, w')"
  show "purchaseBitcoin w rq = (purchaseBitcoin_catch (clock w') rq e, w')"
    using t by (simp add: purchaseBitcoin_def)
  then show "\<not> success (fst (purchaseBitcoin w rq))"
    by (simp add: purchaseBitcoin_catch_def Let_def split: thrown.splits option.splits)
next
  assume t: "purchaseBitcoin_try (w\<lparr>purchaseCalls := Suc (purchaseCalls w)\<rparr>) rq = (Inr r, w')"
  show "purchaseBitcoin w rq = (r, w')"
    using t by (simp add: purchaseBitcoin_def)
next
  show "purchaseBitcoin_catch now rq e =
       \<lparr>success = False, exchangeTransactionId = None, pr_bitcoinAmount = None,
        pr_exchangeRate = None, fees = None,
        errorMessage =
          Some (case e of
                  Error n m \<Rightarrow> m
                | AxiosError m resp \<Rightarrow> m
                | NonError v \<Rightarrow> ''Unknown error occurred''),
        errorDetails =
          Some \<lparr>ed_timestamp = now, ed_requestId = clientRequestId rq,
                ed_statusCode =
                  (case e of AxiosError m (Some resp) \<Rightarrow> Some (status_code resp) | _ \<Rightarrow> None),
                ed_statusText =
                  (case e of AxiosError m (Some resp) \<Rightarrow> Some (statusText resp) | _ \<Rightarrow> None),
                ed_responseData =
                  (case e of AxiosError m (Some resp) \<Rightarrow> Some (response_data resp)
                   | _ \<Rightarrow> None)\<rparr>\<rparr>"
    by (simp add: purchaseBitcoin_catch_def Let_def split: thrown.splits option.splits)
qed

theorem purchaseBitcoin_never_throws_witness:
  "random (declining_world []) (Suc (randomCount (declining_world []))) < 5 / 100
   \<and> fst (purchaseBitcoin_try
            ((declining_world [])\<lparr>purchaseCalls := Suc (purchaseCalls (declining_world []))\<rparr>)
            sample_request) = Inl (Error ''Error'' ''Exchange API temporary error'')
   \<and> fst (purchaseBitcoin (declining_world []) sample_request) =
       \<lparr>success = False, exchangeTransactionId = None, pr_bitcoinAmount = None,
        pr_exchangeRate = None, fees = None,
        errorMessage = Some ''Exchange API temporary error'',
        errorDetails =
          Some \<lparr>ed_timestamp = 1000000, ed_requestId = ''e1'',
                ed_statusCode = None, ed_statusText = None, ed_responseData = None\<rparr>\<rparr>
   \<and> \<not> random (sample_world []) (Suc (randomCount (sample_world []))) < 5 / 100
   \<and> success (fst (purchaseBitcoin (sample_world []) sample_request))
   \<and> pr_exchangeRate (fst (purchaseBitcoin (sample_world []) sample_request)) = Some 65000
   \<and> pr_bitcoinAmount (fst (purchaseBitcoin (sample_world []) sample_request))
       = Some (100 / 65000)
   \<and> \<not> success (fst (purchaseBitcoin (declining_world []) sample_request))
   \<and> purchaseBitcoin_catch 1000000 sample_request
         (AxiosError ''Request failed with status code 503''
            (Some \<lparr>status_code = 503, statusText = ''Service Unavailable'',
                   response_data = ''busy''\<rparr>)) =
       \<lparr>success = False, exchangeTransactionId = None, pr_bitcoinAmount = None,
        pr_exchangeRate = None, fees = None,
        errorMessage = Some ''Request failed with status code 503'',
        errorDetails =
          Some \<lparr>ed_timestamp = 1000000, ed_requestId = ''e1'',
                ed_statusCode = Some 503, ed_statusText = Some ''Service Unavailable'',
                ed_responseData = Some ''busy''\<rparr>\<rparr>
   \<and> errorMessage (purchaseBitcoin_catch 1000000 sample_request (NonError ''timeout''))
       = Some ''Unknown error occurred''"
proof -
  have d: "random (declining_world []) (Suc (randomCount (declining_world []))) < 5 / 100"
    by simp
  have r: "random (sample_world []) = (\<lambda>n. 1 / 2)"
    by (simp add: sample_world_def)
  have s: "\<not> random (sample_world []) (Suc (randomCount (sample_world []))) < 5 / 100"
    by (simp add: r)
  note t1 = purchaseBitcoin_never_throws [of "declining_world []" sample_request,
      THEN conjunct1, rule_format, OF d]
  note t2 = purchaseBitcoin_never_throws [of "sample_world []" sample_request,
      THEN conjunct2, THEN conjunct1, rule_format, OF s]
  have a: "fst (purchaseBitcoin (sample_world []) sample_request) =
            \<lparr>success = True,
             exchangeTransactionId =
               Some (''tx-'' @ show_int (clock (sample_world [])) @ ''-'' @
                     show_int \<lfloor>random (sample_world []) (randomCount (sample_world []) + 3)
                                * 10000\<rfloor>),
             pr_bitcoinAmount = Some (100 / 65000),
             pr_exchangeRate = Some 65000,
             fees = Some (rq_amount sample_request * (1 / 100)),
             errorMessage = None, errorDetails = None\<rparr>"
    using t2 [THEN conjunct2] by (simp add: r)
  have b: "success (fst (purchaseBitcoin (sample_world []) sample_request))"
    "pr_exchangeRate (fst (purchaseBitcoin (sample_world []) sample_request)) = Some 65000"
    "pr_bitcoinAmount (fst (purchaseBitcoin (sample_world []) sample_request))
       = Some (100 / 65000)"
    unfolding a by simp_all
  have c1: "fst (purchaseBitcoin_try
            ((declining_world [])\<lparr>purchaseCalls := Suc (purchaseCalls (declining_world []))\<rparr>)
            sample_request) = Inl (Error ''Error'' ''Exchange API temporary error'')"
    using t1 [THEN conjunct1] by simp
  have c2: "fst (purchaseBitcoin (declining_world []) sample_request) =
       \<lparr>success = False, exchangeTransactionId = None, pr_bitcoinAmount = None,
        pr_exchangeRate = None, fees = None,
        errorMessage = Some ''Exchange API temporary error'',
        errorDetails =
          Some \<lparr>ed_timestamp = 1000000, ed_requestId = ''e1'',
                ed_statusCode = None, ed_statusText = None, ed_responseData = None\<rparr>\<rparr>"
    using t1 [THEN conjunct2] by simp
  have c3: "\<not> success (fst (purchaseBitcoin (declining_world []) sample_request))"
    by (rule purchaseBitcoin_never_throws [of "declining_world []" sample_request,
        THEN conjunct2, THEN conjunct2, THEN conjunct1, rule_format, OF t1 [THEN conjunct1],
        THEN conjunct2])
  note t5 = purchaseBitcoin_never_throws [where rq = sample_request and now = 1000000,
      THEN conjunct2, THEN conjunct2, THEN conjunct2, THEN conjunct2]
  have c4: "purchaseBitcoin_catch 1000000 sample_request
         (AxiosError ''Request failed with status code 503''
            (Some \<lparr>status_code = 503, statusText = ''Service Unavailable'',
                   response_data = ''busy''\<rparr>)) =
       \<lparr>success = False, exchangeTransactionId = None, pr_bitcoinAmount = None,
        pr_exchangeRate = None, fees = None,
        errorMessage = Some ''Request failed with status code 503'',
        errorDetails =
          Some \<lparr>ed_timestamp = 1000000, ed_requestId = ''e1'',
                ed_statusCode = Some 503, ed_statusText = Some ''Service Unavailable'',
                ed_responseData = Some ''busy''\<rparr>\<rparr>"
    by (simp add: t5)
  have c5: "errorMessage (purchaseBitcoin_catch 1000000 sample_request (NonError ''timeout''))
       = Some ''Unknown error occurred''"
    by (simp add: t5)
  from d c1 c2 s b c3 c4 c5 show ?thesis by blast
qed

section \<open>The status update of the Scanner\<close>

lemma dynamo_update_status_fault:
  "faults w (DynamoUpdateStatus u k s) = Some e \<Longrightarrow> dynamo_update_status w u k s t = (Inl e, w)"
  by (simp add: dynamo_update_status_def)

lemma dynamo_update_status_missing:
  "faults w (DynamoUpdateStatus u k s) = None \<Longrightarrow> find (has_key u k) (plansTable w) = None
   \<Longrightarrow> dynamo_update_status w u k s t = (Inl ConditionalCheckFailedException, w)"
  by (simp add: dynamo_update_status_def)

lemma dynamo_update_status_ok:
  "faults w (DynamoUpdateStatus u k s) = None \<Longrightarrow> find (has_key u k) (plansTable w) = Some row
   \<Longrightarrow> dynamo_update_status w u k s t =
       (Inr (), w\<lparr>plansTable :=
                    map (\<lambda>p. if has_key u k p then p\<lparr>status := s, updatedAt := t\<rparr> else p)
                      (plansTable w)\<rparr>)"
  by (simp add: dynamo_update_status_def)

lemma scanner_updatePlanStatus_eq:
  "scanner_updatePlanStatus w plan st =
     dynamo_update_status w (userId plan) (planId plan) st (clock w)"
  by (simp add: scanner_updatePlanStatus_def split: prod.splits sum.splits)

text \<open>
  Claim C2, amended: the status update of the Scanner is conditional on the existence of
  the plan only. When the service does not reject the call, it fails with
  ConditionalCheckFailedException exactly when the table has no row with the plan's key,
  and otherwise writes the new status and \<open>updatedAt\<close> into the row, whatever status the
  row had.
\<close>

theorem scanner_updatePlanStatus_existence_only:
  assumes "faults w (DynamoUpdateStatus (userId plan) (planId plan) st) = None"
  shows "scanner_updatePlanStatus w plan st =
           (if find (has_key (userId plan) (planId plan)) (plansTable w) = None
            then (Inl ConditionalCheckFailedException, w)
            else (Inr (),
                  w\<lparr>plansTable :=
                      map (\<lambda>p. if has_key (userId plan) (planId plan) p
                               then p\<lparr>status := st, updatedAt := clock w\<rparr> else p)
                        (plansTable w)\<rparr>))"
  using assms
  by (auto simp: scanner_updatePlanStatus_eq dynamo_update_status_missing
      dynamo_update_status_ok)

theorem scanner_updatePlanStatus_existence_only_witness:
  "scanner_updatePlanStatus (sample_world [sample_plan\<lparr>status := EXECUTING\<rparr>]) sample_plan
      PENDING_EXECUTION =
     (Inr (), (sample_world [sample_plan\<lparr>status := EXECUTING\<rparr>])
        \<lparr>plansTable := [sample_plan\<lparr>status := PENDING_EXECUTION, updatedAt := 1000000\<rparr>]\<rparr>)"
  using scanner_updatePlanStatus_existence_only
    [of "sample_world [sample_plan\<lparr>status := EXECUTING\<rparr>]" sample_plan PENDING_EXECUTION]
  by (simp add: sample_world_def sample_plan_def has_key_def)

text \<open>
  Claim C2, as stated: for a plan whose stored status is not ACTIVE the update fails
  instead of writing PENDING_EXECUTION. It fails on a row that is already
  PENDING_EXECUTION: the update succeeds.
\<close>

theorem scanner_updatePlanStatus_not_active_counterexample:
  "status (sample_plan\<lparr>status := PENDING_EXECUTION\<rparr>) \<noteq> ACTIVE
   \<and> fst (scanner_updatePlanStatus (sample_world [sample_plan\<lparr>status := PENDING_EXECUTION\<rparr>])
           sample_plan PENDING_EXECUTION) = Inr ()"
  by (simp add: scanner_updatePlanStatus_eq dynamo_update_status_def sample_world_def
      sample_plan_def has_key_def)

section \<open>A Scanner run\<close>

lemma find_has_key_None:
  "find (has_key u k) rows = None \<longleftrightarrow> (u, k) \<notin> set (map plan_key rows)"
  by (induction rows) (auto simp: has_key_def plan_key_def)

lemma plan_key_set_status:
  "map plan_key (map (\<lambda>p. if has_key u k p then p\<lparr>status := s, updatedAt := t\<rparr> else p) rows)
     = map plan_key rows"
  by (induction rows) (auto simp: plan_key_def)

lemma dynamo_update_status_frame:
  "dynamo_update_status w u k s t = (r, w') \<Longrightarrow>
     map plan_key (plansTable w') = map plan_key (plansTable w)
     \<and> faults w' = faults w \<and> clock w' = clock w \<and> env w' = env w
     \<and> uuidGen w' = uuidGen w \<and> uuidCount w' = uuidCount w
     \<and> queue w' = queue w \<and> eventBus w' = eventBus w
     \<and> transactionsTable w' = transactionsTable w \<and> purchaseCalls w' = purchaseCalls w"
  by (auto simp: dynamo_update_status_def plan_key_def split: option.splits if_splits)

lemma processPlans_catch_result:
  "\<exists>w'. processPlans_catch w plan e = (Inl e, w')
     \<and> map plan_key (plansTable w') = map plan_key (plansTable w)
     \<and> faults w' = faults w \<and> clock w' = clock w \<and> env w' = env w
     \<and> uuidGen w' = uuidGen w \<and> uuidCount w' = uuidCount w
     \<and> queue w' = queue w \<and> eventBus w' = eventBus w
     \<and> transactionsTable w' = transactionsTable w \<and> purchaseCalls w' = purchaseCalls w"
proof -
  obtain r w' where eq: "dynamo_update_status w (userId plan) (planId plan) ACTIVE (clock w) = (r, w')"
    by (cases "dynamo_update_status w (userId plan) (planId plan) ACTIVE (clock w)")
  from dynamo_update_status_frame [OF eq] eq show ?thesis
    by (cases r) (simp_all add: processPlans_catch_def scanner_updatePlanStatus_eq)
qed

lemma processPlans_catch_missing:
  assumes "find (has_key (userId plan) (planId plan)) (plansTable w) = None"
  shows "processPlans_catch w plan e = (Inl e, w)"
  using assms
  by (cases "faults w (DynamoUpdateStatus (userId plan) (planId plan) ACTIVE)")
     (simp_all add: processPlans_catch_def scanner_updatePlanStatus_eq dynamo_update_status_def)

lemma processPlansForExecution_missing:
  assumes "faults w (DynamoUpdateStatus (userId plan) (planId plan) PENDING_EXECUTION) = None"
    and "find (has_key (userId plan) (planId plan)) (plansTable w) = None"
  shows "processPlansForExecution w plan =
           (Inl ConditionalCheckFailedException, w\<lparr>uuidCount := Suc (uuidCount w)\<rparr>)"
  using assms
  by (simp add: processPlansForExecution_def uuidv4_def scanner_updatePlanStatus_eq
      dynamo_update_status_missing processPlans_catch_missing)

lemma processPlansForExecution_ok:
  assumes "faults w (DynamoUpdateStatus (userId plan) (planId plan) PENDING_EXECUTION) = None"
    and "faults w (SqsSendMessage (uuidGen w (uuidCount w))) = None"
    and "faults w (PutEvents EXECUTION_SCHEDULED (planId plan)) = None"
    and "find (has_key (userId plan) (planId plan)) (plansTable w) = Some row"
  shows "processPlansForExecution w plan =
           (Inr (),
            w\<lparr>uuidCount := Suc (uuidCount w),
              plansTable :=
                map (\<lambda>p. if has_key (userId plan) (planId plan) p
                         then p\<lparr>status := PENDING_EXECUTION, updatedAt := clock w\<rparr> else p)
                  (plansTable w),
              queue := queue w @ [execution_message plan (uuidGen w (uuidCount w)) (clock w)],
              eventBus :=
                eventBus w @ [scheduled_event w plan (uuidGen w (uuidCount w)) (clock w)]\<rparr>)"
  using assms
  by (simp add: processPlansForExecution_def uuidv4_def scanner_updatePlanStatus_eq
      dynamo_update_status_def sqs_sendMessage_def eventBridge_putEvents_def
      execution_message_def scheduled_event_def scheduled_detail_def Let_def)

lemma processPlansForExecution_frame:
  "processPlansForExecution w plan = (r, w') \<Longrightarrow>
     map plan_key (plansTable w') = map plan_key (plansTable w)
     \<and> faults w' = faults w \<and> clock w' = clock w \<and> env w' = env w
     \<and> uuidGen w' = uuidGen w \<and> uuidCount w' = Suc (uuidCount w)
     \<and> transactionsTable w' = transactionsTable w \<and> purchaseCalls w' = purchaseCalls w"
  by (auto simp: processPlansForExecution_def uuidv4_def scanner_updatePlanStatus_eq
      processPlans_catch_def dynamo_update_status_def sqs_sendMessage_def
      eventBridge_putEvents_def Let_def plan_key_def
      split: option.splits if_splits prod.splits sum.splits)
lemma message_key_execution_message [simp]:
  "message_key (execution_message p eid t) = Some (plan_key p)"
  by (simp add: message_key_def execution_message_def plan_key_def)

lemma processPlansForExecution_queue:
  "processPlansForExecution w plan = (r, w') \<Longrightarrow>
     queue w' = queue w
     \<or> (queue w' = queue w @ [execution_message plan (uuidGen w (uuidCount w)) (clock w)]
        \<and> plan_key plan \<in> set (map plan_key (plansTable w)))"
  by (auto simp: processPlansForExecution_def uuidv4_def scanner_updatePlanStatus_eq
      processPlans_catch_def dynamo_update_status_def sqs_sendMessage_def
      eventBridge_putEvents_def Let_def plan_key_def find_has_key_None
      split: option.splits if_splits prod.splits sum.splits)

lemma process_all_frame:
  "process_all w items = (rs, w') \<Longrightarrow>
     map plan_key (plansTable w') = map plan_key (plansTable w)
     \<and> faults w' = faults w \<and> clock w' = clock w \<and> env w' = env w
     \<and> uuidGen w' = uuidGen w \<and> uuidCount w' = uuidCount w + length items
     \<and> transactionsTable w' = transactionsTable w \<and> purchaseCalls w' = purchaseCalls w
     \<and> length rs = length items"
proof (induction items arbitrary: w rs w')
  case Nil
  then show ?case by simp
next
  case (Cons p ps)
  obtain r w1 where s1: "processPlansForExecution w p = (r, w1)"
    by (cases "processPlansForExecution w p")
  obtain rs2 w2 where s2: "process_all w1 ps = (rs2, w2)"
    by (cases "process_all w1 ps")
  from Cons.prems s1 s2 have e: "rs = r # rs2" "w' = w2" by simp_all
  from processPlansForExecution_frame [OF s1] Cons.IH [OF s2] e
  show ?case by simp
qed

lemma process_all_queue:
  "process_all w items = (rs, w') \<Longrightarrow>
     \<forall>m\<in>set (queue w'). m \<in> set (queue w)
        \<or> (\<exists>k\<in>set (map plan_key (plansTable w)). message_key m = Some k)"
proof (induction items arbitrary: w rs w')
  case Nil
  then show ?case by simp
next
  case (Cons p ps)
  obtain r w1 where s1: "processPlansForExecution w p = (r, w1)"
    by (cases "processPlansForExecution w p")
  obtain rs2 w2 where s2: "process_all w1 ps = (rs2, w2)"
    by (cases "process_all w1 ps")
  from Cons.prems s1 s2 have e: "w' = w2" by simp
  have keys: "map plan_key (plansTable w1) = map plan_key (plansTable w)"
    using processPlansForExecution_frame [OF s1] by simp
  show ?case
  proof
    fix m assume "m \<in> set (queue w')"
    with Cons.IH [OF s2] e keys
    have "m \<in> set (queue w1) \<or> (\<exists>k\<in>set (map plan_key (plansTable w)). message_key m = Some k)"
      by auto
    with processPlansForExecution_queue [OF s1]
    show "m \<in> set (queue w) \<or> (\<exists>k\<in>set (map plan_key (plansTable w)). message_key m = Some k)"
      by auto
  qed
qed

lemma process_all_vanished:
  assumes "plan \<in> set items"
    and "find (has_key (userId plan) (planId plan)) (plansTable w) = None"
    and "faults w (DynamoUpdateStatus (userId plan) (planId plan) PENDING_EXECUTION) = None"
  shows "Inl ConditionalCheckFailedException \<in> set (fst (process_all w items))"
  using assms
proof (induction items arbitrary: w)
  case Nil
  then show ?case by simp
next
  case (Cons p ps)
  obtain r w1 where s1: "processPlansForExecution w p = (r, w1)"
    by (cases "processPlansForExecution w p")
  obtain rs2 w2 where s2: "process_all w1 ps = (rs2, w2)"
    by (cases "process_all w1 ps")
  show ?case
  proof (cases "plan = p")
    case True
    with processPlansForExecution_missing [OF Cons.prems(3) Cons.prems(2)] s1 s2
    show ?thesis by simp
  next
    case False
    with Cons.prems have in_ps: "plan \<in> set ps" by simp
    from processPlansForExecution_frame [OF s1] Cons.prems(2,3)
    have "find (has_key (userId plan) (planId plan)) (plansTable w1) = None"
      and "faults w1 (DynamoUpdateStatus (userId plan) (planId plan) PENDING_EXECUTION) = None"
      by (simp_all add: find_has_key_None)
    from Cons.IH [OF in_ps this] s1 s2 show ?thesis by simp
  qed
qed

lemma scanner_process_items_rejected:
  assumes "Inl e \<in> set (fst (process_all w items))"
  shows "\<exists>n. 0 < n \<and> fst (scanner_process_items w items) =
           Inl (Error ''Error'' (''Failed to process all '' @ show_nat n @ '' plans''))"
proof -
  obtain rs w' where s: "process_all w items = (rs, w')"
    by (cases "process_all w items")
  with assms have m: "Inl e \<in> set rs" by simp
  then have "\<exists>x\<in>set rs. isl x" by (rule bexI [rotated]) simp
  then have "filter isl rs \<noteq> []" by (simp add: filter_empty_conv)
  then have pos: "0 < length (filter isl rs)" by simp
  from m s have ne: "items \<noteq> []" by auto
  show ?thesis
    using pos ne s by (auto simp: scanner_process_items_def Let_def)
qed

text \<open>
  Claim C1, amended: when the plan of a Scanner run has no row any more and the service
  does not reject the update, the update ACTIVE to PENDING_EXECUTION fails with
  ConditionalCheckFailedException; the processing of that plan is rejected with this error
  and changes nothing but the id counter (no message is enqueued and no event published);
  the run as a whole throws \<open>Failed to process all n plans\<close> with \<open>n > 0\<close>; and no message
  of the queue after the run that was not there before is about that plan.
\<close>

theorem scanner_vanished_plan_fails_run:
  assumes "plan \<in> set items"
    and "find (has_key (userId plan) (planId plan)) (plansTable w) = None"
    and "faults w (DynamoUpdateStatus (userId plan) (planId plan) PENDING_EXECUTION) = None"
  shows "processPlansForExecution w plan =
           (Inl ConditionalCheckFailedException, w\<lparr>uuidCount := Suc (uuidCount w)\<rparr>)
         \<and> (\<exists>n. 0 < n \<and> fst (scanner_process_items w items) =
               Inl (Error ''Error'' (''Failed to process all '' @ show_nat n @ '' plans'')))
         \<and> (\<forall>m\<in>set (queue (snd (scanner_process_items w items))).
               m \<in> set (queue w) \<or> message_key m \<noteq> Some (plan_key plan))"
proof -
  have a: "processPlansForExecution w plan =
           (Inl ConditionalCheckFailedException, w\<lparr>uuidCount := Suc (uuidCount w)\<rparr>)"
    by (rule processPlansForExecution_missing [OF assms(3) assms(2)])
  have b: "\<exists>n. 0 < n \<and> fst (scanner_process_items w items) =
               Inl (Error ''Error'' (''Failed to process all '' @ show_nat n @ '' plans''))"
    by (rule scanner_process_items_rejected [OF process_all_vanished [OF assms]])
  obtain rs w' where s: "process_all w items = (rs, w')"
    by (cases "process_all w items")
  have q: "queue (snd (scanner_process_items w items)) = queue w'"
    using s by (auto simp: scanner_process_items_def Let_def)
  have nk: "plan_key plan \<notin> set (map plan_key (plansTable w))"
    using assms(2) by (simp add: find_has_key_None plan_key_def)
  have c: "\<forall>m\<in>set (queue (snd (scanner_process_items w items))).
               m \<in> set (queue w) \<or> message_key m \<noteq> Some (plan_key plan)"
    unfolding q using process_all_queue [OF s] nk by fastforce
  from a b c show ?thesis by blast
qed
lemma sample_scheduled:
  "\<exists>w1. processPlansForExecution (sample_world [sample_plan]) sample_plan = (Inr (), w1)"
proof -
  have f: "find (has_key (userId sample_plan) (planId sample_plan))
             (plansTable (sample_world [sample_plan])) = Some sample_plan"
    by (simp add: has_key_def)
  show ?thesis
    by (rule exI, rule processPlansForExecution_ok [OF _ _ _ f]) simp_all
qed

lemma ghost_missing:
  "find (has_key (userId ghost_plan) (planId ghost_plan))
     (plansTable (sample_world [sample_plan])) = None"
  by (simp add: has_key_def)

theorem scanner_vanished_plan_fails_run_witness:
  "ghost_plan \<in> set [sample_plan, ghost_plan]
   \<and> find (has_key (userId ghost_plan) (planId ghost_plan))
        (plansTable (sample_world [sample_plan])) = None
   \<and> faults (sample_world [sample_plan])
        (DynamoUpdateStatus (userId ghost_plan) (planId ghost_plan) PENDING_EXECUTION) = None
   \<and> processPlansForExecution (sample_world [sample_plan]) ghost_plan =
        (Inl ConditionalCheckFailedException, (sample_world [sample_plan])\<lparr>uuidCount := Suc 0\<rparr>)
   \<and> isl (fst (scanner_process_items (sample_world [sample_plan]) [sample_plan, ghost_plan]))"
proof -
  have h1: "ghost_plan \<in> set [sample_plan, ghost_plan]" by simp
  have h3: "faults (sample_world [sample_plan])
        (DynamoUpdateStatus (userId ghost_plan) (planId ghost_plan) PENDING_EXECUTION) = None"
    by simp
  from scanner_vanished_plan_fails_run [OF h1 ghost_missing h3] h1 ghost_missing h3
  show ?thesis by auto
qed

text \<open>
  Claim C1, as stated: a plan whose status update fails the condition does not count
  toward the failure of the run. It fails on a run over two plans, one scheduled normally
  and one that has vanished: no other plan fails, and the run throws.
\<close>

theorem scanner_precondition_failure_counterexample:
  "find (has_key (userId ghost_plan) (planId ghost_plan))
        (plansTable (sample_world [sample_plan])) = None
   \<and> fst (processPlansForExecution (sample_world [sample_plan]) sample_plan) = Inr ()
   \<and> fst (scanner_process_items (sample_world [sample_plan]) [sample_plan, ghost_plan]) =
        Inl (Error ''Error'' ''Failed to process all 1 plans'')"
proof -
  obtain w1 where s1:
    "processPlansForExecution (sample_world [sample_plan]) sample_plan = (Inr (), w1)"
    using sample_scheduled by blast
  from processPlansForExecution_frame [OF s1]
  have k: "map plan_key (plansTable w1) = [plan_key sample_plan]"
    and f: "faults w1 = (\<lambda>c. None)" by simp_all
  have m: "find (has_key (userId ghost_plan) (planId ghost_plan)) (plansTable w1) = None"
    unfolding find_has_key_None k by (simp add: plan_key_def)
  have s2: "processPlansForExecution w1 ghost_plan =
              (Inl ConditionalCheckFailedException, w1\<lparr>uuidCount := Suc (uuidCount w1)\<rparr>)"
    by (rule processPlansForExecution_missing [OF _ m]) (simp add: f)
  have "fst (scanner_process_items (sample_world [sample_plan]) [sample_plan, ghost_plan]) =
        Inl (Error ''Error'' ''Failed to process all 1 plans'')"
    by (simp add: scanner_process_items_def s1 s2 show_nat.simps digit_char_def
        decimal_digits_def)
  with ghost_missing s1 show ?thesis by simp
qed

section \<open>A Scanner run with every service answering\<close>

lemma dynamo_query_ok:
  assumes "faults w DynamoQuery = None" and "1 \<le> n"
  shows "dynamo_query w st now (Some n) =
           Inr (take (nat n)
                  (filter (\<lambda>p. status p = st \<and> nextExecutionTime p \<le> now)
                     (sort_key nextExecutionTime (plansTable w))))"
  using assms by (simp add: dynamo_query_def)

lemma take_filter_sort_all:
  assumes "length (filter P xs) \<le> k"
  shows "set (take k (filter P (sort_key f xs))) = {x \<in> set xs. P x}"
proof -
  have "length (filter P (sort_key f xs)) = length (filter P xs)"
    by (simp add: filter_sort)
  with assms have "take k (filter P (sort_key f xs)) = filter P (sort_key f xs)"
    by simp
  then show ?thesis by auto
qed

lemma default_batch_size:
  "env_MAX_BATCH_SIZE e = None \<Longrightarrow> parseInt (MAX_BATCH_SIZE e) = Some 25"
  by (simp add: MAX_BATCH_SIZE_def parseInt_def is_space_def digit_val_def decimal_digits_def)

lemma key_row:
  assumes "plan_key p \<in> set (map plan_key rows)"
  shows "\<exists>row. find (has_key (userId p) (planId p)) rows = Some row"
proof -
  from assms have "find (has_key (userId p) (planId p)) rows \<noteq> None"
    by (simp add: find_has_key_None plan_key_def)
  then show ?thesis by auto
qed

lemma process_all_ok:
  assumes "faults w = (\<lambda>c. None)"
    and "\<forall>p\<in>set items. plan_key p \<in> set (map plan_key (plansTable w))"
  shows "\<exists>w'. process_all w items = (replicate (length items) (Inr ()), w')
           \<and> queue w' = queue w @
               map (\<lambda>(p, i). execution_message p (uuidGen w i) (clock w))
                 (zip items [uuidCount w..<uuidCount w + length items])"
  using assms
proof (induction items arbitrary: w)
  case Nil
  then show ?case by simp
next
  case (Cons p ps)
  from Cons.prems(2) obtain row where
    f: "find (has_key (userId p) (planId p)) (plansTable w) = Some row"
    using key_row [of p "plansTable w"] by auto
  define w1 where "w1 = snd (processPlansForExecution w p)"
  have s1: "processPlansForExecution w p = (Inr (), w1)"
    unfolding w1_def
    by (subst processPlansForExecution_ok [OF _ _ _ f], simp_all add: Cons.prems(1))+
  have q1: "queue w1 = queue w @ [execution_message p (uuidGen w (uuidCount w)) (clock w)]"
    unfolding w1_def
    by (subst processPlansForExecution_ok [OF _ _ _ f], simp_all add: Cons.prems(1))+
  from processPlansForExecution_frame [OF s1]
  have fr: "map plan_key (plansTable w1) = map plan_key (plansTable w)"
    "faults w1 = faults w" "clock w1 = clock w" "uuidGen w1 = uuidGen w"
    "uuidCount w1 = Suc (uuidCount w)"
    by simp_all
  have p1: "faults w1 = (\<lambda>c. None)" using fr Cons.prems(1) by simp
  have p2: "\<forall>p\<in>set ps. plan_key p \<in> set (map plan_key (plansTable w1))"
    using fr Cons.prems(2) by simp
  from Cons.IH [OF p1 p2] obtain w' where
    s2: "process_all w1 ps = (replicate (length ps) (Inr ()), w')"
    and q2: "queue w' = queue w1 @
               map (\<lambda>(p, i). execution_message p (uuidGen w1 i) (clock w1))
                 (zip ps [uuidCount w1..<uuidCount w1 + length ps])"
    by blast
  have u: "[uuidCount w..<uuidCount w + length (p # ps)]
             = uuidCount w # [Suc (uuidCount w)..<Suc (uuidCount w) + length ps]"
  proof -
    have "[uuidCount w..<uuidCount w + Suc (length ps)]
            = uuidCount w # [Suc (uuidCount w)..<uuidCount w + Suc (length ps)]"
      by (rule upt_conv_Cons) simp
    then show ?thesis by simp
  qed
  show ?case
    unfolding u using s1 s2 q1 q2 fr by simp
qed

lemma fresh_ids:
  assumes "inj g"
  shows "distinct (map MessageDeduplicationId
           (map (\<lambda>(p, i). execution_message p (g i) t) (zip items [c..<c + length items])))"
proof -
  have "map MessageDeduplicationId
           (map (\<lambda>(p, i). execution_message p (g i) t) (zip items [c..<c + length items]))
        = map (g \<circ> snd) (zip items [c..<c + length items])"
    by (simp add: execution_message_def split_def comp_def)
  also have "\<dots> = map g (map snd (zip items [c..<c + length items]))"
    by (simp only: map_map)
  also have "map snd (zip items [c..<c + length items]) = [c..<c + length items]"
    by (rule map_snd_zip) simp
  finally show ?thesis
    using assms by (simp add: distinct_map inj_on_def inj_def)
qed

lemma configured_batch_size:
  assumes "(case env_MAX_BATCH_SIZE e of
              None \<Rightarrow> Some 25
            | Some s \<Rightarrow> if s = [] then Some 25 else parseInt s) = Some n"
  shows "parseInt (MAX_BATCH_SIZE e) = Some n"
proof (cases "env_MAX_BATCH_SIZE e")
  case None
  with assms default_batch_size [OF None] show ?thesis by simp
next
  case (Some s)
  show ?thesis
  proof (cases "s = []")
    case True
    have "parseInt ''25'' = Some 25"
      by (simp add: parseInt_def is_space_def digit_val_def decimal_digits_def)
    with assms Some True show ?thesis by (simp add: MAX_BATCH_SIZE_def)
  next
    case False
    with assms Some show ?thesis by (simp add: MAX_BATCH_SIZE_def)
  qed
qed

lemma process_all_plans:
  assumes "faults w = (\<lambda>c. None)"
    and "\<forall>p\<in>set items. plan_key p \<in> set (map plan_key (plansTable w))"
  shows "plansTable (snd (process_all w items)) =
           map (\<lambda>r. if plan_key r \<in> plan_key ` set items
                    then r\<lparr>status := PENDING_EXECUTION, updatedAt := clock w\<rparr> else r)
             (plansTable w)"
  using assms
proof (induction items arbitrary: w)
  case Nil
  then show ?case by simp
next
  case (Cons p ps)
  from Cons.prems(2) obtain row where
    f: "find (has_key (userId p) (planId p)) (plansTable w) = Some row"
    using key_row [of p "plansTable w"] by auto
  define w1 where "w1 = snd (processPlansForExecution w p)"
  have s1: "processPlansForExecution w p = (Inr (), w1)"
    unfolding w1_def
    by (subst processPlansForExecution_ok [OF _ _ _ f], simp_all add: Cons.prems(1))+
  have t1: "plansTable w1 =
              map (\<lambda>r. if has_key (userId p) (planId p) r
                       then r\<lparr>status := PENDING_EXECUTION, updatedAt := clock w\<rparr> else r)
                (plansTable w)"
    unfolding w1_def
    by (subst processPlansForExecution_ok [OF _ _ _ f], simp_all add: Cons.prems(1))+
  from processPlansForExecution_frame [OF s1]
  have fr: "map plan_key (plansTable w1) = map plan_key (plansTable w)"
    "faults w1 = faults w" "clock w1 = clock w"
    by simp_all
  have p1: "faults w1 = (\<lambda>c. None)" using fr Cons.prems(1) by simp
  have p2: "\<forall>p\<in>set ps. plan_key p \<in> set (map plan_key (plansTable w1))"
    using fr Cons.prems(2) by simp
  have step: "snd (process_all w (p # ps)) = snd (process_all w1 ps)"
    using s1 by (simp split: prod.splits)
  have "plansTable (snd (process_all w (p # ps))) =
          map (\<lambda>r. if plan_key r \<in> plan_key ` set ps
                   then r\<lparr>status := PENDING_EXECUTION, updatedAt := clock w\<rparr> else r)
            (map (\<lambda>r. if has_key (userId p) (planId p) r
                      then r\<lparr>status := PENDING_EXECUTION, updatedAt := clock w\<rparr> else r)
               (plansTable w))"
    unfolding step Cons.IH [OF p1 p2] fr t1 ..
  also have "\<dots> = map (\<lambda>r. if plan_key r \<in> plan_key ` set (p # ps)
                   then r\<lparr>status := PENDING_EXECUTION, updatedAt := clock w\<rparr> else r)
            (plansTable w)"
    by (auto simp: has_key_def plan_key_def)
  finally show ?case .
qed

text \<open>
  Claim C6: in a world in which no service rejects a call, with the batch size \<open>n \<ge> 1\<close>
  read from \<open>MAX_BATCH_SIZE\<close> (25 when the variable is unset or empty), a Scanner run
  selects the first \<open>n\<close> plans, in order of \<open>nextExecutionTime\<close>, among those with status
  ACTIVE and \<open>nextExecutionTime \<le> now\<close>: only such plans, at most \<open>n\<close> of them, and all of
  them when there are at most \<open>n\<close>. The run succeeds; it appends to the queue, in the
  order of the selection, exactly one message per selected plan, whose body carries the
  plan's \<open>userId\<close> and \<open>planId\<close>, the current time, attempt count 0 and the next value of the
  id generator as \<open>executionId\<close>, with that id as \<open>MessageDeduplicationId\<close> and the plan's
  \<open>userId\<close> as \<open>MessageGroupId\<close>; it sets the rows of the selected plans, and no others, to
  PENDING_EXECUTION. When the generator never repeats a value the deduplication ids of the
  run are pairwise different.
\<close>

theorem scanner_handler_schedules_due_plans:
  assumes nf: "faults w = (\<lambda>c. None)"
    and cfg: "(case env_MAX_BATCH_SIZE (env w) of
                 None \<Rightarrow> Some 25
               | Some s \<Rightarrow> if s = [] then Some 25 else parseInt s) = Some n"
    and pos: "1 \<le> n"
  defines "now \<equiv> clock w div 1000"
  defines "due \<equiv> \<lambda>p. status p = ACTIVE \<and> nextExecutionTime p \<le> now"
  defines "items \<equiv> take (nat n) (filter due (sort_key nextExecutionTime (plansTable w)))"
  defines "tasks \<equiv>
             map (\<lambda>(p, i).
                    \<lparr>MessageBody =
                       JsonText \<lparr>ev_userId = userId p, ev_planId = planId p,
                                 executionTime = clock w, executionId = uuidGen w i,
                                 attemptCount = 0\<rparr>,
                     MessageDeduplicationId = uuidGen w i,
                     MessageGroupId = userId p\<rparr>)
               (zip items [uuidCount w..<uuidCount w + length items])"
  shows "set items \<subseteq> {p \<in> set (plansTable w). due p}
       \<and> length items \<le> nat n
       \<and> (length (filter due (plansTable w)) \<le> nat n
            \<longrightarrow> set items = {p \<in> set (plansTable w). due p})
       \<and> dynamo_query w ACTIVE now (Some n) = Inr items
       \<and> fst (scanner_handler w) = Inr ()
       \<and> queue (snd (scanner_handler w)) = queue w @ tasks
       \<and> length tasks = length items
       \<and> plansTable (snd (scanner_handler w)) =
           map (\<lambda>r. if (userId r, planId r) \<in> (\<lambda>p. (userId p, planId p)) ` set items
                    then r\<lparr>status := PENDING_EXECUTION, updatedAt := clock w\<rparr> else r)
             (plansTable w)
       \<and> (inj (uuidGen w) \<longrightarrow> distinct (map MessageDeduplicationId tasks))"
proof -
  have pn: "parseInt (MAX_BATCH_SIZE (env w)) = Some n"
    by (rule configured_batch_size [OF cfg])
  have te: "tasks = map (\<lambda>(p, i). execution_message p (uuidGen w i) (clock w))
                      (zip items [uuidCount w..<uuidCount w + length items])"
    unfolding tasks_def by (simp add: execution_message_def)
  have q: "dynamo_query w ACTIVE now (Some n) = Inr items"
    unfolding items_def due_def
    by (rule dynamo_query_ok) (simp_all add: nf pos)
  have sub: "set items \<subseteq> {p \<in> set (plansTable w). due p}"
  proof
    fix p assume "p \<in> set items"
    then have "p \<in> set (filter due (sort_key nextExecutionTime (plansTable w)))"
      unfolding items_def by (rule in_set_takeD)
    then show "p \<in> {p \<in> set (plansTable w). due p}" by simp
  qed
  have len: "length items \<le> nat n" unfolding items_def by simp
  have all: "length (filter due (plansTable w)) \<le> nat n
            \<longrightarrow> set items = {p \<in> set (plansTable w). due p}"
    unfolding items_def by (rule impI) (rule take_filter_sort_all)
  have keys: "\<forall>p\<in>set items. plan_key p \<in> set (map plan_key (plansTable w))"
    using sub by auto
  from process_all_ok [OF nf keys] obtain w' where
    pa: "process_all w items = (replicate (length items) (Inr ()), w')"
    and qq: "queue w' = queue w @ tasks"
    unfolding te by blast
  have pt: "plansTable w' =
           map (\<lambda>r. if (userId r, planId r) \<in> (\<lambda>p. (userId p, planId p)) ` set items
                    then r\<lparr>status := PENDING_EXECUTION, updatedAt := clock w\<rparr> else r)
             (plansTable w)"
    using process_all_plans [OF nf keys] pa by (simp add: plan_key_def [abs_def])
  have nofail: "filter isl (replicate (length items) (Inr () :: thrown + unit)) = []"
    by (induction "length items") simp_all
  have run: "scanner_process_items w items = (Inr (), if items = [] then w else w')"
    using pa nofail by (simp add: scanner_process_items_def Let_def)
  have h: "scanner_handler w = (Inr (), if items = [] then w else w')"
    using q run by (simp add: scanner_handler_def Let_def now_def pn)
  have res: "fst (scanner_handler w) = Inr ()" using h by simp
  have qu: "queue (snd (scanner_handler w)) = queue w @ tasks"
    using h qq by (auto simp: tasks_def)
  have pl: "plansTable (snd (scanner_handler w)) =
           map (\<lambda>r. if (userId r, planId r) \<in> (\<lambda>p. (userId p, planId p)) ` set items
                    then r\<lparr>status := PENDING_EXECUTION, updatedAt := clock w\<rparr> else r)
             (plansTable w)"
    using h pt by (cases "items = []") simp_all
  have lt: "length tasks = length items" unfolding tasks_def by simp
  have fr: "inj (uuidGen w) \<longrightarrow> distinct (map MessageDeduplicationId tasks)"
    unfolding te by (rule impI) (rule fresh_ids)
  from sub len all q res qu lt pl fr show ?thesis by blast
qed

theorem scanner_handler_schedules_due_plans_witness:
  "faults small_batch_world = (\<lambda>c. None)
   \<and> (case env_MAX_BATCH_SIZE (env small_batch_world) of
         None \<Rightarrow> Some 25
       | Some s \<Rightarrow> if s = [] then Some 25 else parseInt s) = Some 1
   \<and> (1::int) \<le> 1
   \<and> map planId (plansTable small_batch_world) = [''p1'', ''p2'']
   \<and> map nextExecutionTime (plansTable small_batch_world) = [999, 500]
   \<and> fst (scanner_handler small_batch_world) = Inr ()
   \<and> queue (snd (scanner_handler small_batch_world)) =
       [\<lparr>MessageBody =
           JsonText \<lparr>ev_userId = ''u1'', ev_planId = ''p2'', executionTime = 1000000,
                     executionId = ''uuid-0'', attemptCount = 0\<rparr>,
         MessageDeduplicationId = ''uuid-0'',
         MessageGroupId = ''u1''\<rparr>]
   \<and> map status (plansTable (snd (scanner_handler small_batch_world))) =
       [ACTIVE, PENDING_EXECUTION]"
proof -
  have h1: "faults small_batch_world = (\<lambda>c. None)" by simp
  have h2: "(case env_MAX_BATCH_SIZE (env small_batch_world) of
         None \<Rightarrow> Some 25
       | Some s \<Rightarrow> if s = [] then Some 25 else parseInt s) = Some 1"
    by (simp add: parseInt_def is_space_def digit_val_def decimal_digits_def)
  have h3: "(1::int) \<le> 1" by simp
  have it: "take (nat 1)
              (filter (\<lambda>p. status p = ACTIVE \<and> nextExecutionTime p \<le> clock small_batch_world div 1000)
                 (sort_key nextExecutionTime (plansTable small_batch_world))) = [early_plan]"
    by simp
  have ne: "planId sample_plan \<noteq> planId early_plan" by simp
  from scanner_handler_schedules_due_plans [OF h1 h2 h3] h1 h2 ne
  show ?thesis unfolding it by simp
qed

section \<open>The steps of the Executor\<close>

lemma same_services_refl [simp]: "same_services w w"
  by (simp add: same_services_def)

lemma same_services_trans:
  "same_services w w1 \<Longrightarrow> same_services w1 w2 \<Longrightarrow> same_services w w2"
  by (simp add: same_services_def)

lemma updatePlanStatus_frame:
  "updatePlanStatus w p s = (r, w') \<Longrightarrow>
     same_services w w' \<and> map plan_key (plansTable w') = map plan_key (plansTable w)
     \<and> uuidCount w' = uuidCount w \<and> randomCount w' = randomCount w
     \<and> eventBus w' = eventBus w
     \<and> transactionsTable w' = transactionsTable w \<and> purchaseCalls w' = purchaseCalls w"
  by (auto simp: updatePlanStatus_def dynamo_update_status_def plan_key_def same_services_def
      split: option.splits if_splits)

lemma updatePlanWithNextExecution_frame:
  "updatePlanWithNextExecution w p n = (r, w') \<Longrightarrow>
     same_services w w' \<and> map plan_key (plansTable w') = map plan_key (plansTable w)
     \<and> uuidCount w' = uuidCount w \<and> randomCount w' = randomCount w
     \<and> eventBus w' = eventBus w
     \<and> transactionsTable w' = transactionsTable w \<and> purchaseCalls w' = purchaseCalls w"
  by (auto simp: updatePlanWithNextExecution_def dynamo_update_schedule_def plan_key_def
      same_services_def split: option.splits if_splits)

lemma recordTransaction_frame:
  "recordTransaction w tx = (r, w') \<Longrightarrow>
     same_services w w' \<and> plansTable w' = plansTable w
     \<and> uuidCount w' = uuidCount w \<and> randomCount w' = randomCount w
     \<and> eventBus w' = eventBus w \<and> purchaseCalls w' = purchaseCalls w
     \<and> (transactionsTable w' = transactionsTable w
         \<or> transactionsTable w' = transactionsTable w @ [tx])"
  by (auto simp: recordTransaction_def dynamo_put_transaction_def same_services_def
      split: option.splits if_splits)

lemma publishEvent_frame:
  "publishEvent w t d = (r, w') \<Longrightarrow>
     same_services w w' \<and> plansTable w' = plansTable w
     \<and> uuidCount w' = uuidCount w \<and> randomCount w' = randomCount w
     \<and> transactionsTable w' = transactionsTable w \<and> purchaseCalls w' = purchaseCalls w"
  by (auto simp: publishEvent_def eventBridge_putEvents_def same_services_def
      split: option.splits if_splits)

lemma uuidv4_frame:
  "uuidv4 w = (i, w') \<Longrightarrow>
     same_services w w' \<and> plansTable w' = plansTable w
     \<and> uuidCount w' = Suc (uuidCount w) \<and> randomCount w' = randomCount w
     \<and> eventBus w' = eventBus w
     \<and> transactionsTable w' = transactionsTable w \<and> purchaseCalls w' = purchaseCalls w
     \<and> i = uuidGen w (uuidCount w)"
  by (auto simp: uuidv4_def same_services_def)

lemma purchaseBitcoin_frame:
  "purchaseBitcoin w rq = (r, w') \<Longrightarrow>
     same_services w w' \<and> plansTable w' = plansTable w
     \<and> uuidCount w' = uuidCount w
     \<and> eventBus w' = eventBus w
     \<and> transactionsTable w' = transactionsTable w \<and> purchaseCalls w' = Suc (purchaseCalls w)"
  by (auto simp: purchaseBitcoin_def purchaseBitcoin_try_def Math_random_def Let_def
      same_services_def split: if_splits)
lemma handleMaxRetries_rows:
  "transactionsTable (snd (handleMaxRetries w ev)) = transactionsTable w
   \<or> (\<exists>tx. transactionsTable (snd (handleMaxRetries w ev)) = transactionsTable w @ [tx]
          \<and> tx_status tx = TX_FAILED \<and> bitcoinAmount tx = 0 \<and> exchangeRate tx = 0)"
  by (auto simp: handleMaxRetries_def uuidv4_def Let_def
      split: sum.splits prod.splits
      dest!: updatePlanStatus_frame recordTransaction_frame publishEvent_frame)

lemma handleMaxRetries_purchaseCalls:
  "purchaseCalls (snd (handleMaxRetries w ev)) = purchaseCalls w"
  by (auto simp: handleMaxRetries_def uuidv4_def Let_def
      split: sum.splits prod.splits
      dest!: updatePlanStatus_frame recordTransaction_frame publishEvent_frame)
lemma getSavingsPlan_found:
  "faults w (DynamoGet u k) = None \<Longrightarrow> find (has_key u k) (plansTable w) = Some plan
   \<Longrightarrow> getSavingsPlan w u k = Inr plan"
  by (simp add: getSavingsPlan_def dynamo_get_def)

lemma getSavingsPlan_missing:
  "faults w (DynamoGet u k) = None \<Longrightarrow> find (has_key u k) (plansTable w) = None
   \<Longrightarrow> getSavingsPlan w u k =
        Inl (Error ''Error'' (''Savings plan '' @ k @ '' for user '' @ u @ '' not found''))"
  by (simp add: getSavingsPlan_def dynamo_get_def)

lemma find_has_key_Some:
  "find (has_key u k) rows = Some plan \<Longrightarrow> userId plan = u \<and> planId plan = k"
  by (induction rows) (auto simp: has_key_def split: if_splits)

lemma handleMaxRetries_missing:
  assumes "faults w (DynamoGet (ev_userId ev) (ev_planId ev)) = None"
    and "find (has_key (ev_userId ev) (ev_planId ev)) (plansTable w) = None"
  shows "handleMaxRetries w ev =
           (Inl (Error ''Error'' (''Savings plan '' @ ev_planId ev @ '' for user ''
                                   @ ev_userId ev @ '' not found'')), w)"
  using assms by (simp add: handleMaxRetries_def getSavingsPlan_missing)

lemma handleMaxRetries_ok:
  assumes nf: "faults w = (\<lambda>c. None)"
    and f: "find (has_key (ev_userId ev) (ev_planId ev)) (plansTable w) = Some plan"
    and fresh: "find (\<lambda>r. tx_userId r = ev_userId ev \<and> transactionId r = uuidGen w (uuidCount w))
                  (transactionsTable w) = None"
  shows "fst (handleMaxRetries w ev) = Inr ()"
    and "plansTable (snd (handleMaxRetries w ev)) =
           map (\<lambda>p. if has_key (ev_userId ev) (ev_planId ev) p
                    then p\<lparr>status := FAILED, updatedAt := clock w\<rparr> else p) (plansTable w)"
    and "\<exists>tx. transactionsTable (snd (handleMaxRetries w ev)) = transactionsTable w @ [tx]
            \<and> tx_status tx = TX_FAILED
            \<and> tx_errorMessage tx = Some (max_retries_message (env w))
            \<and> transactionId tx = uuidGen w (uuidCount w)
            \<and> tx_userId tx = ev_userId ev \<and> tx_planId tx = ev_planId ev
            \<and> bitcoinAmount tx = 0 \<and> exchangeRate tx = 0"
    and "\<exists>e. eventBus (snd (handleMaxRetries w ev)) = eventBus w @ [e]
            \<and> DetailType e = EXECUTION_FAILED
            \<and> d_maxRetriesExceeded (Detail e) = Some True
            \<and> d_errorMessage (Detail e) = Some (max_retries_message (env w))
            \<and> d_planId (Detail e) = ev_planId ev"
proof -
  have k: "userId plan = ev_userId ev" "planId plan = ev_planId ev"
    using find_has_key_Some [OF f] by simp_all
  have g: "getSavingsPlan w (ev_userId ev) (ev_planId ev) = Inr plan"
    by (rule getSavingsPlan_found [OF _ f]) (simp add: nf)
  have u: "updatePlanStatus w plan FAILED =
             (Inr (), w\<lparr>plansTable :=
                          map (\<lambda>p. if has_key (ev_userId ev) (ev_planId ev) p
                                   then p\<lparr>status := FAILED, updatedAt := clock w\<rparr> else p)
                            (plansTable w)\<rparr>)"
    using f by (simp add: updatePlanStatus_def dynamo_update_status_def nf k)
  show "fst (handleMaxRetries w ev) = Inr ()"
    using fresh
    by (simp add: handleMaxRetries_def g u uuidv4_def recordTransaction_def
        dynamo_put_transaction_def publishEvent_def eventBridge_putEvents_def nf k Let_def)
  show "plansTable (snd (handleMaxRetries w ev)) =
           map (\<lambda>p. if has_key (ev_userId ev) (ev_planId ev) p
                    then p\<lparr>status := FAILED, updatedAt := clock w\<rparr> else p) (plansTable w)"
    using fresh
    by (simp add: handleMaxRetries_def g u uuidv4_def recordTransaction_def
        dynamo_put_transaction_def publishEvent_def eventBridge_putEvents_def nf k Let_def)
  show "\<exists>tx. transactionsTable (snd (handleMaxRetries w ev)) = transactionsTable w @ [tx]
            \<and> tx_status tx = TX_FAILED
            \<and> tx_errorMessage tx = Some (max_retries_message (env w))
            \<and> transactionId tx = uuidGen w (uuidCount w)
            \<and> tx_userId tx = ev_userId ev \<and> tx_planId tx = ev_planId ev
            \<and> bitcoinAmount tx = 0 \<and> exchangeRate tx = 0"
    using fresh
    by (simp add: handleMaxRetries_def g u uuidv4_def recordTransaction_def
        dynamo_put_transaction_def publishEvent_def eventBridge_putEvents_def nf k Let_def)
  show "\<exists>e. eventBus (snd (handleMaxRetries w ev)) = eventBus w @ [e]
            \<and> DetailType e = EXECUTION_FAILED
            \<and> d_maxRetriesExceeded (Detail e) = Some True
            \<and> d_errorMessage (Detail e) = Some (max_retries_message (env w))
            \<and> d_planId (Detail e) = ev_planId ev"
    using fresh
    by (simp add: handleMaxRetries_def g u uuidv4_def recordTransaction_def
        dynamo_put_transaction_def publishEvent_def eventBridge_putEvents_def nf k Let_def
        base_detail_def)
qed

lemma processExecutionEvent_max_retries:
  assumes "body record = JsonText ev"
    and "parseInt (MAX_RETRIES (env w)) = Some m" and "m \<le> attemptCount ev"
  shows "processExecutionEvent w record = handleMaxRetries w ev"
  using assms by (simp add: processExecutionEvent_def ge_number_def)
lemma sample_max_retries: "parseInt (MAX_RETRIES sample_env) = Some 3"
  by (simp add: MAX_RETRIES_def sample_env_def parseInt_def is_space_def digit_val_def
      decimal_digits_def)

lemma sample_event_fields [simp]:
  "ev_userId (sample_event n) = ''u1''" "ev_planId (sample_event n) = ''p1''"
  "attemptCount (sample_event n) = n" "executionId (sample_event n) = ''e1''"
  "body (sample_record n) = JsonText (sample_event n)" "messageId (sample_record n) = ''m1''"
  by (simp_all add: sample_event_def sample_record_def)

lemma process_records_single:
  "fst (process_records w [record] []) =
     (if isl (fst (processExecutionEvent w record)) then [messageId record] else [])"
  by (cases "processExecutionEvent w record") (auto split: sum.splits)


section \<open>The max-retries path\<close>

text \<open>
  Claim C3, amended: for a task whose attempt count is at least the configured maximum,
  the Executor runs the max-retries handler and never calls the Exchange Client. When the
  plan has no row, the error \<open>Savings plan ... not found\<close> is thrown and the task is reported
  as a batch item failure (it is not treated as resolved). When the plan has a row, no
  service rejects a call and the new transaction id is not in the table, the task is
  acknowledged without an error, the plan's status is FAILED, exactly one transaction row
  is added, with status FAILED and an error message saying that the maximum of retry
  attempts is exceeded, and one EXECUTION_FAILED event with \<open>maxRetriesExceeded\<close> set is
  published.
\<close>

theorem max_retries_path:
  assumes b: "body record = JsonText ev"
    and m: "parseInt (MAX_RETRIES (env w)) = Some m"
    and ge: "m \<le> attemptCount ev"
  shows "purchaseCalls (snd (processExecutionEvent w record)) = purchaseCalls w
     \<and> (faults w (DynamoGet (ev_userId ev) (ev_planId ev)) = None
         \<and> find (has_key (ev_userId ev) (ev_planId ev)) (plansTable w) = None
        \<longrightarrow> processExecutionEvent w record =
              (Inl (Error ''Error'' (''Savings plan '' @ ev_planId ev @ '' for user ''
                                      @ ev_userId ev @ '' not found'')), w)
            \<and> fst (process_records w [record] []) = [messageId record])
     \<and> (faults w = (\<lambda>c. None)
         \<and> find (has_key (ev_userId ev) (ev_planId ev)) (plansTable w) \<noteq> None
         \<and> find (\<lambda>r. tx_userId r = ev_userId ev \<and> transactionId r = uuidGen w (uuidCount w))
              (transactionsTable w) = None
        \<longrightarrow> fst (processExecutionEvent w record) = Inr ()
            \<and> fst (process_records w [record] []) = []
            \<and> plansTable (snd (processExecutionEvent w record)) =
                map (\<lambda>p. if has_key (ev_userId ev) (ev_planId ev) p
                         then p\<lparr>status := FAILED, updatedAt := clock w\<rparr> else p) (plansTable w)
            \<and> (\<exists>tx. transactionsTable (snd (processExecutionEvent w record)) =
                       transactionsTable w @ [tx]
                  \<and> tx_status tx = TX_FAILED
                  \<and> tx_errorMessage tx =
                      Some (''Maximum retry attempts ('' @ MAX_RETRIES (env w) @ '') exceeded'')
                  \<and> tx_userId tx = ev_userId ev \<and> tx_planId tx = ev_planId ev)
            \<and> (\<exists>e. eventBus (snd (processExecutionEvent w record)) = eventBus w @ [e]
                  \<and> DetailType e = EXECUTION_FAILED
                  \<and> d_maxRetriesExceeded (Detail e) = Some True
                  \<and> d_planId (Detail e) = ev_planId ev))"
proof -
  have r: "processExecutionEvent w record = handleMaxRetries w ev"
    by (rule processExecutionEvent_max_retries [OF b m ge])
  have a: "purchaseCalls (snd (processExecutionEvent w record)) = purchaseCalls w"
    unfolding r by (rule handleMaxRetries_purchaseCalls)
  have c: "faults w (DynamoGet (ev_userId ev) (ev_planId ev)) = None
         \<and> find (has_key (ev_userId ev) (ev_planId ev)) (plansTable w) = None
        \<longrightarrow> processExecutionEvent w record =
              (Inl (Error ''Error'' (''Savings plan '' @ ev_planId ev @ '' for user ''
                                      @ ev_userId ev @ '' not found'')), w)
            \<and> fst (process_records w [record] []) = [messageId record]"
    unfolding process_records_single by (simp add: r handleMaxRetries_missing)
  have d: "faults w = (\<lambda>c. None)
         \<and> find (has_key (ev_userId ev) (ev_planId ev)) (plansTable w) \<noteq> None
         \<and> find (\<lambda>r. tx_userId r = ev_userId ev \<and> transactionId r = uuidGen w (uuidCount w))
              (transactionsTable w) = None
        \<longrightarrow> fst (processExecutionEvent w record) = Inr ()
            \<and> fst (process_records w [record] []) = []
            \<and> plansTable (snd (processExecutionEvent w record)) =
                map (\<lambda>p. if has_key (ev_userId ev) (ev_planId ev) p
                         then p\<lparr>status := FAILED, updatedAt := clock w\<rparr> else p) (plansTable w)
            \<and> (\<exists>tx. transactionsTable (snd (processExecutionEvent w record)) =
                       transactionsTable w @ [tx]
                  \<and> tx_status tx = TX_FAILED
                  \<and> tx_errorMessage tx =
                      Some (''Maximum retry attempts ('' @ MAX_RETRIES (env w) @ '') exceeded'')
                  \<and> tx_userId tx = ev_userId ev \<and> tx_planId tx = ev_planId ev)
            \<and> (\<exists>e. eventBus (snd (processExecutionEvent w record)) = eventBus w @ [e]
                  \<and> DetailType e = EXECUTION_FAILED
                  \<and> d_maxRetriesExceeded (Detail e) = Some True
                  \<and> d_planId (Detail e) = ev_planId ev)"
  proof (intro impI, elim conjE)
    assume nf: "faults w = (\<lambda>c. None)"
      and ex: "find (has_key (ev_userId ev) (ev_planId ev)) (plansTable w) \<noteq> None"
      and fresh: "find (\<lambda>r. tx_userId r = ev_userId ev
                             \<and> transactionId r = uuidGen w (uuidCount w))
                    (transactionsTable w) = None"
    from ex obtain plan where
      f: "find (has_key (ev_userId ev) (ev_planId ev)) (plansTable w) = Some plan" by auto
    note ok = handleMaxRetries_ok [OF nf f fresh]
    have e1: "fst (processExecutionEvent w record) = Inr ()" unfolding r by (rule ok(1))
    have e2: "fst (process_records w [record] []) = []"
      unfolding process_records_single by (simp add: e1)
    have e3: "plansTable (snd (processExecutionEvent w record)) =
                map (\<lambda>p. if has_key (ev_userId ev) (ev_planId ev) p
                         then p\<lparr>status := FAILED, updatedAt := clock w\<rparr> else p) (plansTable w)"
      unfolding r by (rule ok(2))
    have e4: "\<exists>tx. transactionsTable (snd (processExecutionEvent w record)) =
                       transactionsTable w @ [tx]
                  \<and> tx_status tx = TX_FAILED
                  \<and> tx_errorMessage tx =
                      Some (''Maximum retry attempts ('' @ MAX_RETRIES (env w) @ '') exceeded'')
                  \<and> tx_userId tx = ev_userId ev \<and> tx_planId tx = ev_planId ev"
      unfolding r using ok(3) by (auto simp: max_retries_message_def)
    have e5: "\<exists>e. eventBus (snd (processExecutionEvent w record)) = eventBus w @ [e]
                  \<and> DetailType e = EXECUTION_FAILED
                  \<and> d_maxRetriesExceeded (Detail e) = Some True
                  \<and> d_planId (Detail e) = ev_planId ev"
      unfolding r using ok(4) by auto
    from e1 e2 e3 e4 e5
    show "fst (processExecutionEvent w record) = Inr ()
            \<and> fst (process_records w [record] []) = []
            \<and> plansTable (snd (processExecutionEvent w record)) =
                map (\<lambda>p. if has_key (ev_userId ev) (ev_planId ev) p
                         then p\<lparr>status := FAILED, updatedAt := clock w\<rparr> else p) (plansTable w)
            \<and> (\<exists>tx. transactionsTable (snd (processExecutionEvent w record)) =
                       transactionsTable w @ [tx]
                  \<and> tx_status tx = TX_FAILED
                  \<and> tx_errorMessage tx =
                      Some (''Maximum retry attempts ('' @ MAX_RETRIES (env w) @ '') exceeded'')
                  \<and> tx_userId tx = ev_userId ev \<and> tx_planId tx = ev_planId ev)
            \<and> (\<exists>e. eventBus (snd (processExecutionEvent w record)) = eventBus w @ [e]
                  \<and> DetailType e = EXECUTION_FAILED
                  \<and> d_maxRetriesExceeded (Detail e) = Some True
                  \<and> d_planId (Detail e) = ev_planId ev)"
      by blast
  qed
  from a c d show ?thesis by blast
qed

theorem max_retries_path_witness:
  "body (sample_record 3) = JsonText (sample_event 3)
   \<and> parseInt (MAX_RETRIES (env (sample_world [sample_plan]))) = Some 3
   \<and> 3 \<le> attemptCount (sample_event 3)
   \<and> purchaseCalls (snd (processExecutionEvent (sample_world [sample_plan]) (sample_record 3))) = 0
   \<and> fst (processExecutionEvent (sample_world [sample_plan]) (sample_record 3)) = Inr ()
   \<and> map status (plansTable (snd (processExecutionEvent (sample_world [sample_plan])
                                      (sample_record 3)))) = [FAILED]"
proof -
  have h1: "body (sample_record 3) = JsonText (sample_event 3)" by simp
  have h2: "parseInt (MAX_RETRIES (env (sample_world [sample_plan]))) = Some 3"
    by (simp add: sample_max_retries)
  have h3: "3 \<le> attemptCount (sample_event 3)" by simp
  have i1: "faults (sample_world [sample_plan]) = (\<lambda>c. None)" by simp
  have i2: "find (has_key (ev_userId (sample_event 3)) (ev_planId (sample_event 3)))
              (plansTable (sample_world [sample_plan])) \<noteq> None"
    by (simp add: has_key_def)
  have i3: "find (\<lambda>r. tx_userId r = ev_userId (sample_event 3)
                       \<and> transactionId r = uuidGen (sample_world [sample_plan])
                                              (uuidCount (sample_world [sample_plan])))
              (transactionsTable (sample_world [sample_plan])) = None"
    by simp
  from max_retries_path [OF h1 h2 h3] i1 i2 i3 h1 h2 h3
  show ?thesis by (simp add: has_key_def)
qed

text \<open>
  Claim C3, as stated: a missing plan is treated as already resolved and the handler stops
  without an error. It fails for a task with attempt count 3 (the default maximum) whose
  plan has no row: the handler throws, and the task is a batch item failure.
\<close>

theorem max_retries_missing_plan_counterexample:
  "parseInt (MAX_RETRIES (env (sample_world []))) = Some 3
   \<and> 3 \<le> attemptCount (sample_event 3)
   \<and> dynamo_get (sample_world []) ''u1'' ''p1'' = Inr None
   \<and> processExecutionEvent (sample_world []) (sample_record 3) =
       (Inl (Error ''Error'' ''Savings plan p1 for user u1 not found''), sample_world [])
   \<and> fst (process_records (sample_world []) [sample_record 3] []) = [''m1'']"
proof -
  have h2: "parseInt (MAX_RETRIES (env (sample_world []))) = Some 3"
    by (simp add: sample_max_retries)
  have r: "processExecutionEvent (sample_world []) (sample_record 3) =
             handleMaxRetries (sample_world []) (sample_event 3)"
    by (rule processExecutionEvent_max_retries [OF _ h2]) simp_all
  have m: "handleMaxRetries (sample_world []) (sample_event 3) =
       (Inl (Error ''Error'' ''Savings plan p1 for user u1 not found''), sample_world [])"
    using handleMaxRetries_missing [of "sample_world []" "sample_event 3"] by simp
  show ?thesis
    unfolding process_records_single
    by (simp add: sample_max_retries r m dynamo_get_def)
qed

section \<open>A failed purchase\<close>

lemma purchaseBitcoin_depends:
  assumes "random w2 = random w" "randomCount w2 = randomCount w" "clock w2 = clock w"
  shows "fst (purchaseBitcoin w2 rq) = fst (purchaseBitcoin w rq)"
  using assms
  by (simp add: purchaseBitcoin_def purchaseBitcoin_try_def Math_random_def Let_def)

lemma purchaseBitcoin_failed:
  assumes "\<not> success (fst (purchaseBitcoin w rq))"
  shows "fst (purchaseBitcoin w rq) =
           purchaseBitcoin_catch (clock w) rq (Error ''Error'' ''Exchange API temporary error'')"
  using assms
  by (simp add: purchaseBitcoin_def purchaseBitcoin_try_def Math_random_def Let_def
      split: if_splits)

lemma purchaseBitcoin_failed_fields:
  assumes "\<not> success (fst (purchaseBitcoin w rq))"
  shows "pr_bitcoinAmount (fst (purchaseBitcoin w rq)) = None"
    and "pr_exchangeRate (fst (purchaseBitcoin w rq)) = None"
    and "errorMessage (fst (purchaseBitcoin w rq)) = Some ''Exchange API temporary error''"
  unfolding purchaseBitcoin_failed [OF assms]
  by (simp_all add: purchaseBitcoin_catch_def)

lemma has_key_update [simp]:
  "has_key u k (p\<lparr>status := s, updatedAt := t\<rparr>) = has_key u k p"
  by (simp add: has_key_def)

lemma find_set_status:
  "find (has_key u k) (map (\<lambda>p. if has_key u k p then p\<lparr>status := s, updatedAt := t\<rparr> else p) rows)
     = map_option (\<lambda>p. p\<lparr>status := s, updatedAt := t\<rparr>) (find (has_key u k) rows)"
  by (induction rows) simp_all

lemma set_status_twice:
  "map (\<lambda>p. if has_key u k p then p\<lparr>status := s2, updatedAt := t\<rparr> else p)
     (map (\<lambda>p. if has_key u k p then p\<lparr>status := s1, updatedAt := t\<rparr> else p) rows)
   = map (\<lambda>p. if has_key u k p then p\<lparr>status := s2, updatedAt := t\<rparr> else p) rows"
  by (induction rows) simp_all

lemma after_purchase_failed:
  assumes ns: "\<not> success r"
    and nf: "faults w = (\<lambda>c. None)"
    and f: "find (has_key (userId plan) (planId plan)) (plansTable w) = Some row"
    and fresh: "find (\<lambda>x. tx_userId x = userId plan \<and> transactionId x = uuidGen w (uuidCount w))
                  (transactionsTable w) = None"
  shows "fst (after_purchase w plan ev r) =
           Inl (Error ''Error'' (''Purchase failed: '' @ template_string (errorMessage r)))"
    and "plansTable (snd (after_purchase w plan ev r)) =
           map (\<lambda>p. if has_key (userId plan) (planId plan) p
                    then p\<lparr>status := FAILED, updatedAt := clock w\<rparr> else p) (plansTable w)"
    and "transactionsTable (snd (after_purchase w plan ev r)) =
           transactionsTable w @ [make_transaction plan ev r (uuidGen w (uuidCount w)) (clock w)]"
    and "\<exists>e. eventBus (snd (after_purchase w plan ev r)) = eventBus w @ [e]
            \<and> DetailType e = EXECUTION_FAILED
            \<and> d_errorMessage (Detail e) = errorMessage r
            \<and> d_planId (Detail e) = planId plan"
proof -
  have tid: "transactionId (make_transaction plan ev r i n) = i"
       "tx_userId (make_transaction plan ev r i n) = userId plan" for i n
    by (simp_all add: make_transaction_def)
  show "fst (after_purchase w plan ev r) =
           Inl (Error ''Error'' (''Purchase failed: '' @ template_string (errorMessage r)))"
    using ns f fresh
    by (simp add: after_purchase_def uuidv4_def Let_def recordTransaction_def
        dynamo_put_transaction_def nf tid settle_plan_def updatePlanStatus_def
        dynamo_update_status_def publishEvent_def eventBridge_putEvents_def)
  show "plansTable (snd (after_purchase w plan ev r)) =
           map (\<lambda>p. if has_key (userId plan) (planId plan) p
                    then p\<lparr>status := FAILED, updatedAt := clock w\<rparr> else p) (plansTable w)"
    using ns f fresh
    by (simp add: after_purchase_def uuidv4_def Let_def recordTransaction_def
        dynamo_put_transaction_def nf tid settle_plan_def updatePlanStatus_def
        dynamo_update_status_def publishEvent_def eventBridge_putEvents_def)
  show "transactionsTable (snd (after_purchase w plan ev r)) =
           transactionsTable w @ [make_transaction plan ev r (uuidGen w (uuidCount w)) (clock w)]"
    using ns f fresh
    by (simp add: after_purchase_def uuidv4_def Let_def recordTransaction_def
        dynamo_put_transaction_def nf tid settle_plan_def updatePlanStatus_def
        dynamo_update_status_def publishEvent_def eventBridge_putEvents_def)
  show "\<exists>e. eventBus (snd (after_purchase w plan ev r)) = eventBus w @ [e]
            \<and> DetailType e = EXECUTION_FAILED
            \<and> d_errorMessage (Detail e) = errorMessage r
            \<and> d_planId (Detail e) = planId plan"
    using ns f fresh
    by (simp add: after_purchase_def uuidv4_def Let_def recordTransaction_def
        dynamo_put_transaction_def nf tid settle_plan_def updatePlanStatus_def
        dynamo_update_status_def publishEvent_def eventBridge_putEvents_def base_detail_def)
qed

lemma processExecutionEvent_normal:
  assumes b: "body record = JsonText ev"
    and lt: "\<not> ge_number (attemptCount ev) (parseInt (MAX_RETRIES (env w)))"
    and nf1: "faults w (DynamoGet (ev_userId ev) (ev_planId ev)) = None"
    and nf2: "faults w (DynamoUpdateStatus (ev_userId ev) (ev_planId ev) EXECUTING) = None"
    and nf3: "faults w (PutEvents EXECUTION_STARTED (ev_planId ev)) = None"
    and f: "find (has_key (ev_userId ev) (ev_planId ev)) (plansTable w) = Some plan"
  shows "processExecutionEvent w record =
           after_purchase
             (snd (purchaseBitcoin (started_world w plan ev) (purchase_request plan ev)))
             plan ev
             (fst (purchaseBitcoin (started_world w plan ev) (purchase_request plan ev)))"
proof -
  have k: "userId plan = ev_userId ev" "planId plan = ev_planId ev"
    using find_has_key_Some [OF f] by simp_all
  have g: "getSavingsPlan w (ev_userId ev) (ev_planId ev) = Inr plan"
    by (rule getSavingsPlan_found [OF nf1 f])
  show ?thesis
    using b lt nf2 nf3 f
    by (simp add: processExecutionEvent_def g updatePlanStatus_def dynamo_update_status_def k
        publishEvent_def eventBridge_putEvents_def base_detail_def started_world_def
        split: prod.splits)
qed
lemma started_world_fields [simp]:
  "faults (started_world w plan ev) = faults w"
  "clock (started_world w plan ev) = clock w"
  "env (started_world w plan ev) = env w"
  "uuidGen (started_world w plan ev) = uuidGen w"
  "uuidCount (started_world w plan ev) = uuidCount w"
  "random (started_world w plan ev) = random w"
  "randomCount (started_world w plan ev) = randomCount w"
  "transactionsTable (started_world w plan ev) = transactionsTable w"
  "purchaseCalls (started_world w plan ev) = purchaseCalls w"
  "queue (started_world w plan ev) = queue w"
  "plansTable (started_world w plan ev) =
     map (\<lambda>p. if has_key (userId plan) (planId plan) p
              then p\<lparr>status := EXECUTING, updatedAt := clock w\<rparr> else p) (plansTable w)"
  by (simp_all add: started_world_def)

lemma started_world_bus:
  "\<exists>e. eventBus (started_world w plan ev) = eventBus w @ [e] \<and> DetailType e = EXECUTION_STARTED"
  by (simp add: started_world_def)

lemma failed_purchase_outcome:
  assumes b: "body record = JsonText ev"
    and lt: "\<not> ge_number (attemptCount ev) (parseInt (MAX_RETRIES (env w)))"
    and nf: "faults w = (\<lambda>c. None)"
    and f: "find (has_key (ev_userId ev) (ev_planId ev)) (plansTable w) = Some plan"
    and fresh: "find (\<lambda>x. tx_userId x = ev_userId ev \<and> transactionId x = uuidGen w (uuidCount w))
                  (transactionsTable w) = None"
    and failed: "\<not> success (fst (purchaseBitcoin (started_world w plan ev)
                                    (purchase_request plan ev)))"
  defines "r \<equiv> fst (purchaseBitcoin (started_world w plan ev) (purchase_request plan ev))"
  shows "fst (processExecutionEvent w record) =
           Inl (Error ''Error'' (''Purchase failed: '' @ template_string (errorMessage r)))"
    and "plansTable (snd (processExecutionEvent w record)) =
           map (\<lambda>p. if has_key (ev_userId ev) (ev_planId ev) p
                    then p\<lparr>status := FAILED, updatedAt := clock w\<rparr> else p) (plansTable w)"
    and "\<exists>tx. transactionsTable (snd (processExecutionEvent w record)) =
                  transactionsTable w @ [tx]
             \<and> tx_status tx = TX_FAILED
             \<and> tx_errorMessage tx = errorMessage r
             \<and> tx_userId tx = ev_userId ev \<and> tx_planId tx = ev_planId ev"
    and "\<exists>e0 e. eventBus (snd (processExecutionEvent w record)) = eventBus w @ [e0, e]
             \<and> DetailType e0 = EXECUTION_STARTED
             \<and> DetailType e = EXECUTION_FAILED
             \<and> d_planId (Detail e) = ev_planId ev
             \<and> d_errorMessage (Detail e) = errorMessage r"
proof -
  define w2 where "w2 = started_world w plan ev"
  define w3 where "w3 = snd (purchaseBitcoin w2 (purchase_request plan ev))"
  have k: "userId plan = ev_userId ev" "planId plan = ev_planId ev"
    using find_has_key_Some [OF f] by simp_all
  have p: "purchaseBitcoin w2 (purchase_request plan ev) = (r, w3)"
    by (simp add: r_def w3_def w2_def)
  have ns: "\<not> success r" using failed by (simp add: r_def)
  have run: "processExecutionEvent w record = after_purchase w3 plan ev r"
    unfolding w3_def r_def w2_def
    by (rule processExecutionEvent_normal [OF b lt _ _ _ f]) (simp_all add: nf)
  from purchaseBitcoin_frame [OF p]
  have fr: "faults w3 = faults w" "clock w3 = clock w" "uuidGen w3 = uuidGen w"
    "uuidCount w3 = uuidCount w" "transactionsTable w3 = transactionsTable w"
    "eventBus w3 = eventBus w2" "plansTable w3 = plansTable w2"
    by (simp_all add: same_services_def w2_def)
  have nf3: "faults w3 = (\<lambda>c. None)" using fr nf by simp
  have f3: "find (has_key (userId plan) (planId plan)) (plansTable w3)
              = Some (plan\<lparr>status := EXECUTING, updatedAt := clock w\<rparr>)"
    using f by (simp add: fr w2_def k find_set_status)
  have fresh3: "find (\<lambda>x. tx_userId x = userId plan
                          \<and> transactionId x = uuidGen w3 (uuidCount w3))
                  (transactionsTable w3) = None"
    using fresh by (simp add: fr k)
  note ok = after_purchase_failed [OF ns nf3 f3 fresh3, of ev]
  show "fst (processExecutionEvent w record) =
           Inl (Error ''Error'' (''Purchase failed: '' @ template_string (errorMessage r)))"
    unfolding run by (rule ok(1))
  show "plansTable (snd (processExecutionEvent w record)) =
           map (\<lambda>p. if has_key (ev_userId ev) (ev_planId ev) p
                    then p\<lparr>status := FAILED, updatedAt := clock w\<rparr> else p) (plansTable w)"
    unfolding run ok(2) by (simp add: fr w2_def k set_status_twice)
  show "\<exists>tx. transactionsTable (snd (processExecutionEvent w record)) =
                  transactionsTable w @ [tx]
             \<and> tx_status tx = TX_FAILED
             \<and> tx_errorMessage tx = errorMessage r
             \<and> tx_userId tx = ev_userId ev \<and> tx_planId tx = ev_planId ev"
    unfolding run ok(3) using ns by (simp add: fr make_transaction_def k)
  from started_world_bus [of w plan ev] obtain e0 where
    e0: "eventBus w2 = eventBus w @ [e0]" "DetailType e0 = EXECUTION_STARTED"
    unfolding w2_def by blast
  from ok(4) obtain e where
    e: "eventBus (snd (after_purchase w3 plan ev r)) = eventBus w3 @ [e]"
       "DetailType e = EXECUTION_FAILED" "d_errorMessage (Detail e) = errorMessage r"
       "d_planId (Detail e) = planId plan"
    by blast
  show "\<exists>e0 e. eventBus (snd (processExecutionEvent w record)) = eventBus w @ [e0, e]
             \<and> DetailType e0 = EXECUTION_STARTED
             \<and> DetailType e = EXECUTION_FAILED
             \<and> d_planId (Detail e) = ev_planId ev
             \<and> d_errorMessage (Detail e) = errorMessage r"
    unfolding run using e e0 by (simp add: fr k)
qed

lemma declining_world_declines:
  "\<not> success (fst (purchaseBitcoin (started_world (declining_world rows) plan ev) rq))"
  "errorMessage (fst (purchaseBitcoin (started_world (declining_world rows) plan ev) rq))
     = Some ''Exchange API temporary error''"
  by (simp_all add: purchaseBitcoin_def purchaseBitcoin_try_def Math_random_def
      purchaseBitcoin_catch_def)

lemma sample_not_max_retries:
  "\<not> ge_number (attemptCount (sample_event 0)) (parseInt (MAX_RETRIES sample_env))"
  by (simp add: sample_max_retries ge_number_def)

text \<open>
  Claim C5: for a task that is below the retry limit and whose plan has a row, in a world
  in which no service rejects a call and the new transaction id is not in the table: when
  the purchase call returns a result with \<open>success = false\<close>, processing the task throws
  \<open>Purchase failed: ...\<close> with the result's error message, so the task is reported as a
  batch item failure; afterwards the plan's status is FAILED, exactly one transaction row
  has been added, with status FAILED and the error message of the purchase result, and
  the EXECUTION_FAILED event with that message has been published after the
  EXECUTION_STARTED event.
\<close>

theorem failed_purchase_fails_plan_and_task:
  assumes b: "body record = JsonText ev"
    and lt: "\<not> ge_number (attemptCount ev) (parseInt (MAX_RETRIES (env w)))"
    and nf: "faults w = (\<lambda>c. None)"
    and f: "find (has_key (ev_userId ev) (ev_planId ev)) (plansTable w) = Some plan"
    and fresh: "find (\<lambda>x. tx_userId x = ev_userId ev \<and> transactionId x = uuidGen w (uuidCount w))
                  (transactionsTable w) = None"
    and failed: "\<not> success (fst (purchaseBitcoin (started_world w plan ev)
                                    (purchase_request plan ev)))"
  shows "fst (processExecutionEvent w record) =
           Inl (Error ''Error''
                 (''Purchase failed: '' @
                    template_string (errorMessage
                      (fst (purchaseBitcoin (started_world w plan ev)
                              (purchase_request plan ev))))))
       \<and> fst (process_records w [record] []) = [messageId record]
       \<and> plansTable (snd (processExecutionEvent w record)) =
           map (\<lambda>p. if has_key (ev_userId ev) (ev_planId ev) p
                    then p\<lparr>status := FAILED, updatedAt := clock w\<rparr> else p) (plansTable w)
       \<and> (\<exists>tx. transactionsTable (snd (processExecutionEvent w record)) =
                  transactionsTable w @ [tx]
             \<and> tx_status tx = TX_FAILED
             \<and> tx_errorMessage tx =
                 errorMessage (fst (purchaseBitcoin (started_world w plan ev)
                                      (purchase_request plan ev)))
             \<and> tx_userId tx = ev_userId ev \<and> tx_planId tx = ev_planId ev)
       \<and> (\<exists>e0 e. eventBus (snd (processExecutionEvent w record)) = eventBus w @ [e0, e]
             \<and> DetailType e0 = EXECUTION_STARTED
             \<and> DetailType e = EXECUTION_FAILED
             \<and> d_planId (Detail e) = ev_planId ev
             \<and> d_errorMessage (Detail e) =
                 errorMessage (fst (purchaseBitcoin (started_world w plan ev)
                                      (purchase_request plan ev))))"
proof -
  note o = failed_purchase_outcome [OF b lt nf f fresh failed]
  have c2: "fst (process_records w [record] []) = [messageId record]"
    unfolding process_records_single by (simp add: o(1))
  from o c2 show ?thesis by blast
qed

theorem failed_purchase_fails_plan_and_task_witness:
  "body (sample_record 0) = JsonText (sample_event 0)
   \<and> \<not> ge_number (attemptCount (sample_event 0))
         (parseInt (MAX_RETRIES (env (declining_world [sample_plan]))))
   \<and> faults (declining_world [sample_plan]) = (\<lambda>c. None)
   \<and> find (has_key (ev_userId (sample_event 0)) (ev_planId (sample_event 0)))
        (plansTable (declining_world [sample_plan])) = Some sample_plan
   \<and> \<not> success (fst (purchaseBitcoin
                        (started_world (declining_world [sample_plan]) sample_plan
                           (sample_event 0))
                        (purchase_request sample_plan (sample_event 0))))
   \<and> fst (processExecutionEvent (declining_world [sample_plan]) (sample_record 0)) =
       Inl (Error ''Error'' ''Purchase failed: Exchange API temporary error'')
   \<and> fst (process_records (declining_world [sample_plan]) [sample_record 0] []) = [''m1'']
   \<and> map status (plansTable (snd (processExecutionEvent (declining_world [sample_plan])
                                      (sample_record 0)))) = [FAILED]"
proof -
  have h1: "body (sample_record 0) = JsonText (sample_event 0)" by simp
  have h2: "\<not> ge_number (attemptCount (sample_event 0))
               (parseInt (MAX_RETRIES (env (declining_world [sample_plan]))))"
    using sample_not_max_retries by simp
  have h3: "faults (declining_world [sample_plan]) = (\<lambda>c. None)" by simp
  have h4: "find (has_key (ev_userId (sample_event 0)) (ev_planId (sample_event 0)))
        (plansTable (declining_world [sample_plan])) = Some sample_plan"
    by (simp add: has_key_def)
  have h5: "find (\<lambda>x. tx_userId x = ev_userId (sample_event 0)
                      \<and> transactionId x = uuidGen (declining_world [sample_plan])
                                             (uuidCount (declining_world [sample_plan])))
              (transactionsTable (declining_world [sample_plan])) = None"
    by simp
  note h6 = declining_world_declines(1)
    [of "[sample_plan]" sample_plan "sample_event 0"
        "purchase_request sample_plan (sample_event 0)"]
  from failed_purchase_fails_plan_and_task [OF h1 h2 h3 h4 h5 h6] h1 h2 h3 h4 h6
  show ?thesis
    by (simp add: declining_world_declines template_string_def has_key_def)
qed

section \<open>The transaction rows of the Executor\<close>

lemma make_transaction_ok:
  assumes "purchaseBitcoin w rq = (r, w')"
  shows "recorded_row_ok (make_transaction plan ev r tid now)"
proof (cases "success r")
  case True
  then show ?thesis by (simp add: make_transaction_def)
next
  case False
  from assms have r: "r = fst (purchaseBitcoin w rq)" by simp
  from False purchaseBitcoin_failed_fields [of w rq]
  have "pr_bitcoinAmount r = None" "pr_exchangeRate r = None"
    unfolding r by simp_all
  with False show ?thesis by (simp add: make_transaction_def or_zero_def)
qed

lemma settle_plan_rows:
  "transactionsTable (snd (settle_plan w plan ev r tx)) = transactionsTable w"
  by (auto simp: settle_plan_def split: sum.splits prod.splits
      dest!: updatePlanStatus_frame updatePlanWithNextExecution_frame publishEvent_frame)

lemma after_purchase_rows:
  "transactionsTable (snd (after_purchase w plan ev r)) = transactionsTable w
   \<or> transactionsTable (snd (after_purchase w plan ev r)) =
       transactionsTable w @ [make_transaction plan ev r (uuidGen w (uuidCount w)) (clock w)]"
  by (auto simp: after_purchase_def uuidv4_def Let_def settle_plan_rows
      split: sum.splits prod.splits dest!: recordTransaction_frame)

lemma processExecutionEvent_rows:
  "\<exists>new. transactionsTable (snd (processExecutionEvent w record)) = transactionsTable w @ new
         \<and> (\<forall>tx\<in>set new. recorded_row_ok tx)"
proof (cases "JSON_parse (body record)")
  case (Inl e)
  then show ?thesis by (simp add: processExecutionEvent_def)
next
  case (Inr ev)
  show ?thesis
  proof (cases "ge_number (attemptCount ev) (parseInt (MAX_RETRIES (env w)))")
    case True
    then have r: "processExecutionEvent w record = handleMaxRetries w ev"
      using Inr by (simp add: processExecutionEvent_def)
    from handleMaxRetries_rows [of w ev] show ?thesis
      unfolding r by (elim disjE exE) (simp, fastforce)
  next
    case False
    show ?thesis
    proof (cases "getSavingsPlan w (ev_userId ev) (ev_planId ev)")
      case (Inl e)
      then show ?thesis using Inr False by (simp add: processExecutionEvent_def)
    next
      case g: (Inr plan)
      obtain r1 w1 where u: "updatePlanStatus w plan EXECUTING = (r1, w1)"
        by (cases "updatePlanStatus w plan EXECUTING")
      note f1 = updatePlanStatus_frame [OF u]
      show ?thesis
      proof (cases r1)
        case (Inl e)
        then show ?thesis using Inr False g u f1 by (simp add: processExecutionEvent_def)
      next
        case u1: (Inr x1)
        obtain r2 w2 where p: "publishEvent w1 EXECUTION_STARTED
                          ((base_detail plan (executionId ev))
                             \<lparr>d_attemptCount := Some (attemptCount ev)\<rparr>) = (r2, w2)"
          by (cases "publishEvent w1 EXECUTION_STARTED
                          ((base_detail plan (executionId ev))
                             \<lparr>d_attemptCount := Some (attemptCount ev)\<rparr>)")
        note f2 = publishEvent_frame [OF p]
        show ?thesis
        proof (cases r2)
          case (Inl e)
          then show ?thesis
            using Inr False g u u1 p f1 f2 by (simp add: processExecutionEvent_def)
        next
          case p2: (Inr x2)
          obtain r w3 where b: "purchaseBitcoin w2 (purchase_request plan ev) = (r, w3)"
            by (cases "purchaseBitcoin w2 (purchase_request plan ev)")
          note f3 = purchaseBitcoin_frame [OF b]
          have run: "processExecutionEvent w record = after_purchase w3 plan ev r"
            using Inr False g u u1 p p2 b by (simp add: processExecutionEvent_def)
          have t3: "transactionsTable w3 = transactionsTable w"
            using f1 f2 f3 by simp
          from after_purchase_rows [of w3 plan ev r] make_transaction_ok [OF b]
          show ?thesis unfolding run t3 by (elim disjE) (simp, fastforce)
        qed
      qed
    qed
  qed
qed

lemma process_records_rows:
  "\<exists>new. transactionsTable (snd (process_records w records fs)) = transactionsTable w @ new
         \<and> (\<forall>tx\<in>set new. recorded_row_ok tx)"
proof (induction records arbitrary: w fs)
  case Nil
  then show ?case by simp
next
  case (Cons rcd rest)
  obtain r w1 where s: "processExecutionEvent w rcd = (r, w1)"
    by (cases "processExecutionEvent w rcd")
  from processExecutionEvent_rows [of w rcd] s obtain new1 where
    n1: "transactionsTable w1 = transactionsTable w @ new1" "\<forall>tx\<in>set new1. recorded_row_ok tx"
    by auto
  obtain fs' where rec: "process_records w (rcd # rest) fs = process_records w1 rest fs'"
    using s by (cases r) simp_all
  from Cons.IH [of w1 fs'] obtain new2 where
    n2: "transactionsTable (snd (process_records w1 rest fs')) = transactionsTable w1 @ new2"
        "\<forall>tx\<in>set new2. recorded_row_ok tx"
    by blast
  have "transactionsTable (snd (process_records w (rcd # rest) fs))
          = transactionsTable w @ (new1 @ new2)"
    unfolding rec using n1 n2 by simp
  moreover have "\<forall>tx\<in>set (new1 @ new2). recorded_row_ok tx"
    using n1 n2 by auto
  ultimately show ?case by blast
qed

lemma executor_handler_cases:
  "(\<exists>e. executor_handler w records = (Inl e, w))
   \<or> (\<exists>w1. executor_handler w records =
              (Inr (fst (process_records w1 records [])), snd (process_records w1 records []))
           \<and> transactionsTable w1 = transactionsTable w)"
proof (cases "exchangeClient w")
  case None
  show ?thesis
  proof (cases "createFromSecrets w (env_EXCHANGE_API_SECRET_ID (env w)) (env_STAGE (env w))")
    case (Inl e)
    with None show ?thesis by (simp add: executor_handler_def)
  next
    case (Inr client)
    have "executor_handler w records =
            (Inr (fst (process_records (w\<lparr>exchangeClient := Some client\<rparr>) records [])),
             snd (process_records (w\<lparr>exchangeClient := Some client\<rparr>) records []))"
      using None Inr by (simp add: executor_handler_def split: prod.splits)
    moreover have "transactionsTable (w\<lparr>exchangeClient := Some client\<rparr>) = transactionsTable w"
      by simp
    ultimately show ?thesis by blast
  qed
next
  case (Some client)
  have "executor_handler w records =
            (Inr (fst (process_records w records [])), snd (process_records w records []))"
    using Some by (simp add: executor_handler_def split: prod.splits)
  then show ?thesis by blast
qed

lemma executor_handler_rows:
  "\<exists>new. transactionsTable (snd (executor_handler w records)) = transactionsTable w @ new
         \<and> (\<forall>tx\<in>set new. recorded_row_ok tx)"
proof -
  from executor_handler_cases [of w records] show ?thesis
  proof (elim disjE exE conjE)
    fix e assume "executor_handler w records = (Inl e, w)"
    then show ?thesis by simp
  next
    fix w1
    assume h: "executor_handler w records =
              (Inr (fst (process_records w1 records [])), snd (process_records w1 records []))"
      and t: "transactionsTable w1 = transactionsTable w"
    from process_records_rows [of w1 records "[]"] show ?thesis
      unfolding h t by simp
  qed
qed

lemma getSavingsPlan_Inr:
  assumes "getSavingsPlan w u k = Inr plan"
  shows "faults w (DynamoGet u k) = None"
    and "find (has_key u k) (plansTable w) = Some plan"
    and "userId plan = u" and "planId plan = k"
proof -
  from assms show a: "faults w (DynamoGet u k) = None"
    by (simp add: getSavingsPlan_def dynamo_get_def split: option.splits)
  from assms a show f: "find (has_key u k) (plansTable w) = Some plan"
    by (simp add: getSavingsPlan_def dynamo_get_def split: option.splits)
  from find_has_key_Some [OF f] show "userId plan = u" and "planId plan = k"
    by simp_all
qed

lemma purchaseBitcoin_amounts:
  "success (fst (purchaseBitcoin w rq)) = (\<not> random w (Suc (randomCount w)) < 5 / 100)"
  "pr_exchangeRate (fst (purchaseBitcoin w rq)) =
     (if random w (Suc (randomCount w)) < 5 / 100 then None
      else Some (60000 + random w (randomCount w + 2) * 10000))"
  "pr_bitcoinAmount (fst (purchaseBitcoin w rq)) =
     (if random w (Suc (randomCount w)) < 5 / 100 then None
      else Some (rq_amount rq / (60000 + random w (randomCount w + 2) * 10000)))"
  "errorMessage (fst (purchaseBitcoin w rq)) =
     (if random w (Suc (randomCount w)) < 5 / 100 then Some ''Exchange API temporary error''
      else None)"
  by (simp_all add: purchaseBitcoin_def purchaseBitcoin_try_def Math_random_def Let_def
      purchaseBitcoin_catch_def numeral_2_eq_2)

lemma processExecutionEvent_started:
  assumes b: "body record = JsonText ev"
    and lt: "\<not> ge_number (attemptCount ev) (parseInt (MAX_RETRIES (env w)))"
    and g: "getSavingsPlan w (ev_userId ev) (ev_planId ev) = Inr plan"
  shows "(\<exists>e w1. processExecutionEvent w record = (Inl e, w1)
             \<and> transactionsTable w1 = transactionsTable w
             \<and> purchaseCalls w1 = purchaseCalls w
             \<and> (faults w (DynamoUpdateStatus (userId plan) (planId plan) EXECUTING) \<noteq> None
                \<or> faults w (PutEvents EXECUTION_STARTED (planId plan)) \<noteq> None))
       \<or> processExecutionEvent w record =
           after_purchase
             (snd (purchaseBitcoin (started_world w plan ev) (purchase_request plan ev)))
             plan ev
             (fst (purchaseBitcoin (started_world w plan ev) (purchase_request plan ev)))"
proof -
  note k = getSavingsPlan_Inr [OF g]
  show ?thesis
  proof (cases "faults w (DynamoUpdateStatus (userId plan) (planId plan) EXECUTING)")
    case (Some e)
    then have "processExecutionEvent w record = (Inl e, w)"
      using b lt g
      by (simp add: processExecutionEvent_def updatePlanStatus_def dynamo_update_status_def)
    with Some show ?thesis by simp
  next
    case None
    define w1 where
      "w1 = w\<lparr>plansTable :=
                map (\<lambda>p. if has_key (userId plan) (planId plan) p
                         then p\<lparr>status := EXECUTING, updatedAt := clock w\<rparr> else p)
                  (plansTable w)\<rparr>"
    have u: "updatePlanStatus w plan EXECUTING = (Inr (), w1)"
      using None k(2)
      by (simp add: updatePlanStatus_def dynamo_update_status_def k(3,4) w1_def)
    show ?thesis
    proof (cases "faults w (PutEvents EXECUTION_STARTED (planId plan))")
      case (Some e)
      then have "processExecutionEvent w record = (Inl e, w1)"
        using b lt g u
        by (simp add: processExecutionEvent_def publishEvent_def eventBridge_putEvents_def
            base_detail_def w1_def)
      moreover have "transactionsTable w1 = transactionsTable w"
        "purchaseCalls w1 = purchaseCalls w"
        by (simp_all add: w1_def)
      ultimately show ?thesis using Some by simp
    next
      case pn: None
      have p: "publishEvent w1 EXECUTION_STARTED
                 ((base_detail plan (executionId ev))\<lparr>d_attemptCount := Some (attemptCount ev)\<rparr>)
               = (Inr (), started_world w plan ev)"
        using pn
        by (simp add: publishEvent_def eventBridge_putEvents_def base_detail_def w1_def
            started_world_def)
      have "processExecutionEvent w record =
           after_purchase
             (snd (purchaseBitcoin (started_world w plan ev) (purchase_request plan ev)))
             plan ev
             (fst (purchaseBitcoin (started_world w plan ev) (purchase_request plan ev)))"
        using b lt g u p
        by (simp add: processExecutionEvent_def split: prod.splits)
      then show ?thesis by simp
    qed
  qed
qed

lemma settle_plan_calls:
  "purchaseCalls (snd (settle_plan w plan ev r tx)) = purchaseCalls w"
  by (auto simp: settle_plan_def split: sum.splits prod.splits
      dest!: updatePlanStatus_frame updatePlanWithNextExecution_frame publishEvent_frame)

lemma after_purchase_calls:
  "purchaseCalls (snd (after_purchase w plan ev r)) = purchaseCalls w"
  by (auto simp: after_purchase_def uuidv4_def Let_def settle_plan_calls
      split: sum.splits prod.splits dest!: recordTransaction_frame)

lemma after_purchase_writes:
  assumes "faults w (DynamoPut (userId plan) (uuidGen w (uuidCount w))) = None"
    and "find (\<lambda>x. tx_userId x = userId plan \<and> transactionId x = uuidGen w (uuidCount w))
           (transactionsTable w) = None"
  shows "transactionsTable (snd (after_purchase w plan ev r)) =
           transactionsTable w @ [make_transaction plan ev r (uuidGen w (uuidCount w)) (clock w)]"
proof -
  have tid: "transactionId (make_transaction plan ev r i n) = i"
       "tx_userId (make_transaction plan ev r i n) = userId plan" for i n
    by (simp_all add: make_transaction_def)
  show ?thesis
    using assms
    by (simp add: after_purchase_def uuidv4_def Let_def recordTransaction_def
        dynamo_put_transaction_def tid settle_plan_rows)
qed

text \<open>
  Claim C10: every row a run of the Executor adds to the transaction table is a FAILED
  row with \<open>bitcoinAmount = 0\<close> and \<open>exchangeRate = 0\<close>, or a COMPLETED row. A task below
  the retry limit whose plan is found adds no row or exactly one, after exactly one
  purchase call, and it adds the row whenever the store and the bus accept the calls
  before it and the new id is not in the table. That row is built from the result of the
  purchase made for the task: its status is COMPLETED when the result has
  \<open>success = true\<close> and FAILED otherwise, and its \<open>bitcoinAmount\<close> and \<open>exchangeRate\<close> are
  those of the result, or 0 where the result has none. The exchange declines exactly when
  the second draw of \<open>Math.random()\<close> is below 0.05: the result then has neither field and
  the row is FAILED with 0 and 0; otherwise the result carries the simulated rate
  \<open>60000 + 10000 * draw\<close> and the plan's amount divided by it, and the COMPLETED row
  carries the same two numbers. A task at the retry limit makes no purchase call and adds
  no row or one FAILED row with 0 and 0, and adds it when no call is rejected, the plan
  has a row and the new id is not in the table.
\<close>

theorem executor_rows_carry_purchase_result:
  defines "declined \<equiv> \<lambda>w. random w (Suc (randomCount w)) < 5 / 100"
  defines "rate \<equiv> \<lambda>w. 60000 + random w (randomCount w + 2) * 10000"
  defines "purchased \<equiv> \<lambda>w plan ev.
             fst (purchaseBitcoin (started_world w plan ev)
                    \<lparr>rq_userId = userId plan, rq_amount = amount plan,
                     rq_sourceOfFunds = sourceOfFunds plan,
                     clientRequestId = executionId ev\<rparr>)"
  defines "row \<equiv> \<lambda>w plan ev.
             \<lparr>tx_userId = userId plan, transactionId = uuidGen w (uuidCount w),
              tx_planId = planId plan, tx_amount = amount plan,
              bitcoinAmount = (if declined w then 0 else amount plan / rate w),
              exchangeRate = (if declined w then 0 else rate w),
              tx_status = (if declined w then TX_FAILED else TX_COMPLETED),
              tx_timestamp = clock w,
              tx_errorMessage =
                (if declined w then Some ''Exchange API temporary error'' else None),
              metadata =
                \<lparr>md_executionId = executionId ev,
                 md_exchangeTransactionId = exchangeTransactionId (purchased w plan ev),
                 md_attemptCount = attemptCount ev,
                 md_fees = fees (purchased w plan ev),
                 md_maxRetries = None\<rparr>\<rparr>"
  shows
    "(\<exists>new. transactionsTable (snd (executor_handler w records)) = transactionsTable w @ new
          \<and> (\<forall>tx\<in>set new. (tx_status tx = TX_FAILED \<and> bitcoinAmount tx = 0
                               \<and> exchangeRate tx = 0)
                            \<or> tx_status tx = TX_COMPLETED))
     \<and> (body rcd = JsonText ev
        \<and> \<not> ge_number (attemptCount ev) (parseInt (MAX_RETRIES (env w)))
        \<and> getSavingsPlan w (ev_userId ev) (ev_planId ev) = Inr plan
        \<longrightarrow> (transactionsTable (snd (processExecutionEvent w rcd)) = transactionsTable w
             \<or> transactionsTable (snd (processExecutionEvent w rcd)) =
                 transactionsTable w @ [row w plan ev]
               \<and> purchaseCalls (snd (processExecutionEvent w rcd)) = Suc (purchaseCalls w))
          \<and> (faults w (DynamoUpdateStatus (userId plan) (planId plan) EXECUTING) = None
             \<and> faults w (PutEvents EXECUTION_STARTED (planId plan)) = None
             \<and> faults w (DynamoPut (userId plan) (uuidGen w (uuidCount w))) = None
             \<and> find (\<lambda>x. tx_userId x = userId plan
                          \<and> transactionId x = uuidGen w (uuidCount w))
                  (transactionsTable w) = None
             \<longrightarrow> transactionsTable (snd (processExecutionEvent w rcd)) =
                   transactionsTable w @ [row w plan ev]))
     \<and> success (purchased w plan ev) = (\<not> declined w)
     \<and> pr_bitcoinAmount (purchased w plan ev) =
         (if declined w then None else Some (amount plan / rate w))
     \<and> pr_exchangeRate (purchased w plan ev) = (if declined w then None else Some (rate w))
     \<and> tx_status (row w plan ev) =
         (if success (purchased w plan ev) then TX_COMPLETED else TX_FAILED)
     \<and> bitcoinAmount (row w plan ev) =
         (case pr_bitcoinAmount (purchased w plan ev) of None \<Rightarrow> 0 | Some v \<Rightarrow> v)
     \<and> exchangeRate (row w plan ev) =
         (case pr_exchangeRate (purchased w plan ev) of None \<Rightarrow> 0 | Some v \<Rightarrow> v)
     \<and> (body rcd = JsonText ev
        \<and> ge_number (attemptCount ev) (parseInt (MAX_RETRIES (env w)))
        \<longrightarrow> purchaseCalls (snd (processExecutionEvent w rcd)) = purchaseCalls w
          \<and> (transactionsTable (snd (processExecutionEvent w rcd)) = transactionsTable w
             \<or> (\<exists>tx. transactionsTable (snd (processExecutionEvent w rcd)) =
                        transactionsTable w @ [tx]
                    \<and> tx_status tx = TX_FAILED \<and> bitcoinAmount tx = 0
                    \<and> exchangeRate tx = 0))
          \<and> (faults w = (\<lambda>c. None)
             \<and> find (has_key (ev_userId ev) (ev_planId ev)) (plansTable w) = Some plan
             \<and> find (\<lambda>x. tx_userId x = ev_userId ev
                          \<and> transactionId x = uuidGen w (uuidCount w))
                  (transactionsTable w) = None
             \<longrightarrow> (\<exists>tx. transactionsTable (snd (processExecutionEvent w rcd)) =
                         transactionsTable w @ [tx]
                     \<and> tx_status tx = TX_FAILED \<and> bitcoinAmount tx = 0
                     \<and> exchangeRate tx = 0
                     \<and> tx_userId tx = ev_userId ev \<and> tx_planId tx = ev_planId ev)))"
proof -
  let ?rq = "purchase_request plan ev"
  let ?w2 = "started_world w plan ev"
  have pr: "purchased w plan ev = fst (purchaseBitcoin ?w2 ?rq)"
    by (simp add: purchased_def purchase_request_def)
  have s: "success (purchased w plan ev) = (\<not> declined w)"
    unfolding pr by (simp add: purchaseBitcoin_amounts declined_def)
  have pb: "pr_bitcoinAmount (purchased w plan ev) =
         (if declined w then None else Some (amount plan / rate w))"
    unfolding pr
    by (simp add: purchaseBitcoin_amounts declined_def rate_def purchase_request_def)
  have px: "pr_exchangeRate (purchased w plan ev) = (if declined w then None else Some (rate w))"
    unfolding pr by (simp add: purchaseBitcoin_amounts declined_def rate_def)
  have pe: "errorMessage (purchased w plan ev) =
         (if declined w then Some ''Exchange API temporary error'' else None)"
    unfolding pr by (simp add: purchaseBitcoin_amounts declined_def)
  have mk: "make_transaction plan ev (purchased w plan ev) (uuidGen w (uuidCount w)) (clock w)
              = row w plan ev"
    by (simp add: make_transaction_def row_def s pb px pe or_zero_def)
  have r1: "tx_status (row w plan ev) =
         (if success (purchased w plan ev) then TX_COMPLETED else TX_FAILED)"
    by (simp add: row_def s)
  have r2: "bitcoinAmount (row w plan ev) =
         (case pr_bitcoinAmount (purchased w plan ev) of None \<Rightarrow> 0 | Some v \<Rightarrow> v)"
    by (simp add: row_def pb)
  have r3: "exchangeRate (row w plan ev) =
         (case pr_exchangeRate (purchased w plan ev) of None \<Rightarrow> 0 | Some v \<Rightarrow> v)"
    by (simp add: row_def px)
  have batch: "\<exists>new. transactionsTable (snd (executor_handler w records)) =
                       transactionsTable w @ new
          \<and> (\<forall>tx\<in>set new. (tx_status tx = TX_FAILED \<and> bitcoinAmount tx = 0
                               \<and> exchangeRate tx = 0)
                            \<or> tx_status tx = TX_COMPLETED)"
    by (rule executor_handler_rows)
  have normal: "(transactionsTable (snd (processExecutionEvent w rcd)) = transactionsTable w
             \<or> transactionsTable (snd (processExecutionEvent w rcd)) =
                 transactionsTable w @ [row w plan ev]
               \<and> purchaseCalls (snd (processExecutionEvent w rcd)) = Suc (purchaseCalls w))
          \<and> (faults w (DynamoUpdateStatus (userId plan) (planId plan) EXECUTING) = None
             \<and> faults w (PutEvents EXECUTION_STARTED (planId plan)) = None
             \<and> faults w (DynamoPut (userId plan) (uuidGen w (uuidCount w))) = None
             \<and> find (\<lambda>x. tx_userId x = userId plan
                          \<and> transactionId x = uuidGen w (uuidCount w))
                  (transactionsTable w) = None
             \<longrightarrow> transactionsTable (snd (processExecutionEvent w rcd)) =
                   transactionsTable w @ [row w plan ev])"
    if b: "body rcd = JsonText ev"
      and lt: "\<not> ge_number (attemptCount ev) (parseInt (MAX_RETRIES (env w)))"
      and g: "getSavingsPlan w (ev_userId ev) (ev_planId ev) = Inr plan"
  proof -
    define w3 where "w3 = snd (purchaseBitcoin ?w2 ?rq)"
    have p: "purchaseBitcoin ?w2 ?rq = (purchased w plan ev, w3)"
      by (simp add: pr w3_def)
    from purchaseBitcoin_frame [OF p]
    have fr: "faults w3 = faults w" "clock w3 = clock w" "uuidGen w3 = uuidGen w"
      "uuidCount w3 = uuidCount w" "transactionsTable w3 = transactionsTable w"
      "purchaseCalls w3 = Suc (purchaseCalls w)"
      by (simp_all add: same_services_def)
    from processExecutionEvent_started [OF b lt g]
    consider (early) e w1 where "processExecutionEvent w rcd = (Inl e, w1)"
        "transactionsTable w1 = transactionsTable w"
        "faults w (DynamoUpdateStatus (userId plan) (planId plan) EXECUTING) \<noteq> None
         \<or> faults w (PutEvents EXECUTION_STARTED (planId plan)) \<noteq> None"
      | (run) "processExecutionEvent w rcd = after_purchase w3 plan ev (purchased w plan ev)"
      unfolding w3_def pr by blast
    then show ?thesis
    proof cases
      case early
      then show ?thesis by auto
    next
      case run
      have c: "purchaseCalls (snd (processExecutionEvent w rcd)) = Suc (purchaseCalls w)"
        unfolding run by (simp add: after_purchase_calls fr)
      from after_purchase_rows [of w3 plan ev "purchased w plan ev"]
      have d: "transactionsTable (snd (processExecutionEvent w rcd)) = transactionsTable w
             \<or> transactionsTable (snd (processExecutionEvent w rcd)) =
                 transactionsTable w @ [row w plan ev]"
        unfolding run fr mk .
      have wr: "transactionsTable (snd (processExecutionEvent w rcd)) =
                   transactionsTable w @ [row w plan ev]"
        if "faults w (DynamoPut (userId plan) (uuidGen w (uuidCount w))) = None"
          and "find (\<lambda>x. tx_userId x = userId plan
                          \<and> transactionId x = uuidGen w (uuidCount w))
                  (transactionsTable w) = None"
      proof -
        from that
        have "transactionsTable (snd (after_purchase w3 plan ev (purchased w plan ev))) =
                transactionsTable w3 @
                  [make_transaction plan ev (purchased w plan ev)
                     (uuidGen w3 (uuidCount w3)) (clock w3)]"
          by (intro after_purchase_writes) (simp_all add: fr)
        then show ?thesis unfolding run fr mk .
      qed
      from c d wr show ?thesis by blast
    qed
  qed
  have maxed: "purchaseCalls (snd (processExecutionEvent w rcd)) = purchaseCalls w
          \<and> (transactionsTable (snd (processExecutionEvent w rcd)) = transactionsTable w
             \<or> (\<exists>tx. transactionsTable (snd (processExecutionEvent w rcd)) =
                        transactionsTable w @ [tx]
                    \<and> tx_status tx = TX_FAILED \<and> bitcoinAmount tx = 0
                    \<and> exchangeRate tx = 0))
          \<and> (faults w = (\<lambda>c. None)
             \<and> find (has_key (ev_userId ev) (ev_planId ev)) (plansTable w) = Some plan
             \<and> find (\<lambda>x. tx_userId x = ev_userId ev
                          \<and> transactionId x = uuidGen w (uuidCount w))
                  (transactionsTable w) = None
             \<longrightarrow> (\<exists>tx. transactionsTable (snd (processExecutionEvent w rcd)) =
                         transactionsTable w @ [tx]
                     \<and> tx_status tx = TX_FAILED \<and> bitcoinAmount tx = 0
                     \<and> exchangeRate tx = 0
                     \<and> tx_userId tx = ev_userId ev \<and> tx_planId tx = ev_planId ev))"
    if b: "body rcd = JsonText ev"
      and ge: "ge_number (attemptCount ev) (parseInt (MAX_RETRIES (env w)))"
  proof -
    have run: "processExecutionEvent w rcd = handleMaxRetries w ev"
      using b ge by (simp add: processExecutionEvent_def)
    have m1: "purchaseCalls (snd (processExecutionEvent w rcd)) = purchaseCalls w"
      unfolding run by (rule handleMaxRetries_purchaseCalls)
    have m2: "transactionsTable (snd (processExecutionEvent w rcd)) = transactionsTable w
             \<or> (\<exists>tx. transactionsTable (snd (processExecutionEvent w rcd)) =
                        transactionsTable w @ [tx]
                    \<and> tx_status tx = TX_FAILED \<and> bitcoinAmount tx = 0
                    \<and> exchangeRate tx = 0)"
      unfolding run by (rule handleMaxRetries_rows)
    have m3: "\<exists>tx. transactionsTable (snd (processExecutionEvent w rcd)) =
                         transactionsTable w @ [tx]
                     \<and> tx_status tx = TX_FAILED \<and> bitcoinAmount tx = 0
                     \<and> exchangeRate tx = 0
                     \<and> tx_userId tx = ev_userId ev \<and> tx_planId tx = ev_planId ev"
      if nf: "faults w = (\<lambda>c. None)"
        and f: "find (has_key (ev_userId ev) (ev_planId ev)) (plansTable w) = Some plan"
        and fresh: "find (\<lambda>x. tx_userId x = ev_userId ev
                          \<and> transactionId x = uuidGen w (uuidCount w))
                  (transactionsTable w) = None"
    proof -
      from handleMaxRetries_ok(3) [OF nf f fresh] show ?thesis
        unfolding run by blast
    qed
    from m1 m2 m3 show ?thesis by blast
  qed
  from batch normal s pb px r1 r2 r3 maxed show ?thesis by blast
qed

theorem executor_rows_carry_purchase_result_witness:
  "body (sample_record 0) = JsonText (sample_event 0)
   \<and> \<not> ge_number (attemptCount (sample_event 0))
         (parseInt (MAX_RETRIES (env (flaky_bus_world [] [sample_plan]))))
   \<and> getSavingsPlan (flaky_bus_world [] [sample_plan])
         (ev_userId (sample_event 0)) (ev_planId (sample_event 0)) = Inr sample_plan
   \<and> \<not> random (flaky_bus_world [] [sample_plan])
           (Suc (randomCount (flaky_bus_world [] [sample_plan]))) < 5 / 100
   \<and> map tx_status (transactionsTable (snd (processExecutionEvent
           (flaky_bus_world [] [sample_plan]) (sample_record 0)))) = [TX_COMPLETED]
   \<and> map exchangeRate (transactionsTable (snd (processExecutionEvent
           (flaky_bus_world [] [sample_plan]) (sample_record 0)))) = [65000]
   \<and> map bitcoinAmount (transactionsTable (snd (processExecutionEvent
           (flaky_bus_world [] [sample_plan]) (sample_record 0)))) = [100 / 65000]
   \<and> pr_exchangeRate (fst (purchaseBitcoin
           (started_world (flaky_bus_world [] [sample_plan]) sample_plan (sample_event 0))
           \<lparr>rq_userId = ''u1'', rq_amount = 100, rq_sourceOfFunds = ''bank'',
            clientRequestId = ''e1''\<rparr>)) = Some 65000
   \<and> pr_bitcoinAmount (fst (purchaseBitcoin
           (started_world (flaky_bus_world [] [sample_plan]) sample_plan (sample_event 0))
           \<lparr>rq_userId = ''u1'', rq_amount = 100, rq_sourceOfFunds = ''bank'',
            clientRequestId = ''e1''\<rparr>)) = Some (100 / 65000)
   \<and> getSavingsPlan (declining_world [sample_plan])
         (ev_userId (sample_event 0)) (ev_planId (sample_event 0)) = Inr sample_plan
   \<and> random (declining_world [sample_plan])
         (Suc (randomCount (declining_world [sample_plan]))) < 5 / 100
   \<and> map tx_status (transactionsTable (snd (processExecutionEvent
           (declining_world [sample_plan]) (sample_record 0)))) = [TX_FAILED]
   \<and> map exchangeRate (transactionsTable (snd (processExecutionEvent
           (declining_world [sample_plan]) (sample_record 0)))) = [0]
   \<and> map bitcoinAmount (transactionsTable (snd (processExecutionEvent
           (declining_world [sample_plan]) (sample_record 0)))) = [0]
   \<and> ge_number (attemptCount (sample_event 3))
         (parseInt (MAX_RETRIES (env (sample_world [sample_plan]))))
   \<and> map tx_status (transactionsTable (snd (processExecutionEvent
           (sample_world [sample_plan]) (sample_record 3)))) = [TX_FAILED]
   \<and> map exchangeRate (transactionsTable (snd (processExecutionEvent
           (sample_world [sample_plan]) (sample_record 3)))) = [0]
   \<and> map bitcoinAmount (transactionsTable (snd (processExecutionEvent
           (sample_world [sample_plan]) (sample_record 3)))) = [0]"
proof -
  let ?F = "flaky_bus_world [] [sample_plan]"
  let ?D = "declining_world [sample_plan]"
  let ?S = "sample_world [sample_plan]"
  have plan: "amount sample_plan = 100" "sourceOfFunds sample_plan = ''bank''"
    by (simp_all add: sample_plan_def)
  have h1: "body (sample_record 0) = JsonText (sample_event 0)" by simp
  have h2: "\<not> ge_number (attemptCount (sample_event 0)) (parseInt (MAX_RETRIES (env ?F)))"
    using sample_not_max_retries by simp
  have h3: "getSavingsPlan ?F (ev_userId (sample_event 0)) (ev_planId (sample_event 0))
              = Inr sample_plan"
    by (simp add: getSavingsPlan_def dynamo_get_def has_key_def)
  have h4: "\<not> random ?F (Suc (randomCount ?F)) < 5 / 100" by simp
  have f1: "faults ?F (DynamoUpdateStatus (userId sample_plan) (planId sample_plan) EXECUTING)
              = None" by simp
  have f2: "faults ?F (PutEvents EXECUTION_STARTED (planId sample_plan)) = None" by simp
  have f3: "faults ?F (DynamoPut (userId sample_plan) (uuidGen ?F (uuidCount ?F))) = None"
    by simp
  have f4: "find (\<lambda>x. tx_userId x = userId sample_plan
                      \<and> transactionId x = uuidGen ?F (uuidCount ?F))
              (transactionsTable ?F) = None"
    by simp
  note tF = executor_rows_carry_purchase_result
    [where w = "?F" and rcd = "sample_record 0" and ev = "sample_event 0"
       and plan = sample_plan]
  note rowF = tF [THEN conjunct2, THEN conjunct1, rule_format,
      OF conjI [OF h1 conjI [OF h2 h3]], THEN conjunct2, rule_format,
      OF conjI [OF f1 conjI [OF f2 conjI [OF f3 f4]]]]
  have a1: "map tx_status (transactionsTable (snd (processExecutionEvent ?F (sample_record 0))))
              = [TX_COMPLETED]"
    unfolding rowF by simp
  have a2: "map exchangeRate (transactionsTable (snd (processExecutionEvent ?F (sample_record 0))))
              = [65000]"
    unfolding rowF by simp
  have a3: "map bitcoinAmount
              (transactionsTable (snd (processExecutionEvent ?F (sample_record 0))))
              = [100 / 65000]"
    unfolding rowF by (simp add: plan)
  have a4: "pr_exchangeRate (fst (purchaseBitcoin
           (started_world ?F sample_plan (sample_event 0))
           \<lparr>rq_userId = ''u1'', rq_amount = 100, rq_sourceOfFunds = ''bank'',
            clientRequestId = ''e1''\<rparr>)) = Some 65000"
    using tF [THEN conjunct2, THEN conjunct2, THEN conjunct2, THEN conjunct2, THEN conjunct1]
    by (simp add: plan)
  have a5: "pr_bitcoinAmount (fst (purchaseBitcoin
           (started_world ?F sample_plan (sample_event 0))
           \<lparr>rq_userId = ''u1'', rq_amount = 100, rq_sourceOfFunds = ''bank'',
            clientRequestId = ''e1''\<rparr>)) = Some (100 / 65000)"
    using tF [THEN conjunct2, THEN conjunct2, THEN conjunct2, THEN conjunct1]
    by (simp add: plan)
  have d2: "\<not> ge_number (attemptCount (sample_event 0)) (parseInt (MAX_RETRIES (env ?D)))"
    using sample_not_max_retries by simp
  have d3: "getSavingsPlan ?D (ev_userId (sample_event 0)) (ev_planId (sample_event 0))
              = Inr sample_plan"
    by (simp add: getSavingsPlan_def dynamo_get_def has_key_def)
  have d4: "random ?D (Suc (randomCount ?D)) < 5 / 100" by simp
  have g1: "faults ?D (DynamoUpdateStatus (userId sample_plan) (planId sample_plan) EXECUTING)
              = None" by simp
  have g2: "faults ?D (PutEvents EXECUTION_STARTED (planId sample_plan)) = None" by simp
  have g3: "faults ?D (DynamoPut (userId sample_plan) (uuidGen ?D (uuidCount ?D))) = None"
    by simp
  have g4: "find (\<lambda>x. tx_userId x = userId sample_plan
                      \<and> transactionId x = uuidGen ?D (uuidCount ?D))
              (transactionsTable ?D) = None"
    by simp
  note rowD = executor_rows_carry_purchase_result
    [where w = "?D" and rcd = "sample_record 0" and ev = "sample_event 0"
       and plan = sample_plan,
     THEN conjunct2, THEN conjunct1, rule_format,
     OF conjI [OF h1 conjI [OF d2 d3]], THEN conjunct2, rule_format,
     OF conjI [OF g1 conjI [OF g2 conjI [OF g3 g4]]]]
  have b1: "map tx_status (transactionsTable (snd (processExecutionEvent ?D (sample_record 0))))
              = [TX_FAILED]"
    unfolding rowD by simp
  have b2: "map exchangeRate (transactionsTable (snd (processExecutionEvent ?D (sample_record 0))))
              = [0]"
    unfolding rowD by simp
  have b3: "map bitcoinAmount
              (transactionsTable (snd (processExecutionEvent ?D (sample_record 0)))) = [0]"
    unfolding rowD by simp
  have m1: "body (sample_record 3) = JsonText (sample_event 3)" by simp
  have m2: "ge_number (attemptCount (sample_event 3)) (parseInt (MAX_RETRIES (env ?S)))"
    by (simp add: sample_max_retries ge_number_def)
  have n1: "faults ?S = (\<lambda>c. None)" by simp
  have n2: "find (has_key (ev_userId (sample_event 3)) (ev_planId (sample_event 3)))
              (plansTable ?S) = Some sample_plan"
    by (simp add: has_key_def)
  have n3: "find (\<lambda>x. tx_userId x = ev_userId (sample_event 3)
                      \<and> transactionId x = uuidGen ?S (uuidCount ?S))
              (transactionsTable ?S) = None"
    by simp
  note rowS = executor_rows_carry_purchase_result
    [where w = "?S" and rcd = "sample_record 3" and ev = "sample_event 3"
       and plan = sample_plan,
     THEN conjunct2, THEN conjunct2, THEN conjunct2, THEN conjunct2, THEN conjunct2,
     THEN conjunct2, THEN conjunct2, THEN conjunct2, rule_format,
     OF conjI [OF m1 m2], THEN conjunct2, THEN conjunct2, rule_format,
     OF conjI [OF n1 conjI [OF n2 n3]]]
  from rowS obtain tx where
    tx: "transactionsTable (snd (processExecutionEvent ?S (sample_record 3))) =
           transactionsTable ?S @ [tx]"
        "tx_status tx = TX_FAILED" "bitcoinAmount tx = 0" "exchangeRate tx = 0"
    by blast
  have c1: "map tx_status (transactionsTable (snd (processExecutionEvent ?S (sample_record 3))))
              = [TX_FAILED]"
    unfolding tx(1) by (simp add: tx)
  have c2: "map exchangeRate (transactionsTable (snd (processExecutionEvent ?S (sample_record 3))))
              = [0]"
    unfolding tx(1) by (simp add: tx)
  have c3: "map bitcoinAmount
              (transactionsTable (snd (processExecutionEvent ?S (sample_record 3)))) = [0]"
    unfolding tx(1) by (simp add: tx)
  from h1 h2 h3 h4 a1 a2 a3 a4 a5 d3 d4 b1 b2 b3 m2 c1 c2 c3 show ?thesis by blast
qed

section \<open>A failed publish\<close>

















end
